theory Spec2Isabelle
  imports Complex_Main
begin

section \<open>Python values\<close>

text \<open>
  A Python \<open>str\<close> is a sequence of Unicode code points, and \<open>len\<close> counts code
  points. A \<open>string\<close> of HOL is a list of bytes, so the model uses lists of code points;
  \<open>u\<close> embeds an ASCII literal.
\<close>

type_synonym ustr = "nat list"

definition u :: "string \<Rightarrow> ustr" where
  "u s = map of_char s"

text \<open>Floats only pass through the program or are tested for truth.\<close>

datatype py_float = Finite real | PosInf | NegInf | NaN

text \<open>
  The values that \<open>response.json()\<close> yields and that the tools return. A \<open>dict\<close> is the
  list of its items in insertion order, looked up with \<open>map_of\<close>; its keys are distinct.
\<close>

datatype json =
    JNull
  | JBool bool
  | JInt int
  | JFloat py_float
  | JStr ustr
  | JList "json list"
  | JObj "(ustr \<times> json) list"

datatype py_exn =
    KeyError ustr
  | TypeError
  | AttributeError
  | JSONDecodeError
  | ReError
  | TransportError ustr

text \<open>\<open>bool(x)\<close>, as \<open>if x:\<close> applies it.\<close>

fun truthy :: "json \<Rightarrow> bool" where
  "truthy JNull = False"
| "truthy (JBool b) = b"
| "truthy (JInt i) = (i \<noteq> 0)"
| "truthy (JFloat f) = (f \<noteq> Finite 0)"
| "truthy (JStr s) = (s \<noteq> [])"
| "truthy (JList xs) = (xs \<noteq> [])"
| "truthy (JObj kvs) = (kvs \<noteq> [])"

text \<open>\<open>x.get(k, d)\<close>: only a \<open>dict\<close> has the method.\<close>

fun dict_get :: "json \<Rightarrow> ustr \<Rightarrow> json \<Rightarrow> py_exn + json" where
  "dict_get (JObj kvs) k d = Inr (case map_of kvs k of Some v \<Rightarrow> v | None \<Rightarrow> d)"
| "dict_get _ k d = Inl AttributeError"

text \<open>\<open>x[k]\<close> with a \<open>str\<close> key.\<close>

fun subscript :: "json \<Rightarrow> ustr \<Rightarrow> py_exn + json" where
  "subscript (JObj kvs) k = (case map_of kvs k of Some v \<Rightarrow> Inr v | None \<Rightarrow> Inl (KeyError k))"
| "subscript _ k = Inl TypeError"

text \<open>\<open>len(x)\<close> and \<open>for msg in x\<close>.\<close>

fun py_len :: "json \<Rightarrow> py_exn + int" where
  "py_len (JStr s) = Inr (int (length s))"
| "py_len (JList xs) = Inr (int (length xs))"
| "py_len (JObj kvs) = Inr (int (length kvs))"
| "py_len _ = Inl TypeError"

fun py_iter :: "json \<Rightarrow> py_exn + json list" where
  "py_iter (JStr s) = Inr (map (\<lambda>c. JStr [c]) s)"
| "py_iter (JList xs) = Inr xs"
| "py_iter (JObj kvs) = Inr (map (\<lambda>kv. JStr (fst kv)) kvs)"
| "py_iter _ = Inl TypeError"

definition bind :: "py_exn + 'a \<Rightarrow> ('a \<Rightarrow> py_exn + 'b) \<Rightarrow> py_exn + 'b" where
  "bind m f = (case m of Inl e \<Rightarrow> Inl e | Inr v \<Rightarrow> f v)"

text \<open>\<open>str(n)\<close> for an \<open>int\<close>.\<close>

fun digits :: "nat \<Rightarrow> ustr" where
  "digits n = (if n < 10 then [48 + n] else digits (n div 10) @ [48 + n mod 10])"

declare digits.simps [simp del]

definition py_str_int :: "int \<Rightarrow> ustr" where
  "py_str_int i = (if i < 0 then 45 # digits (nat (- i)) else digits (nat i))"

section \<open>The remote collaborators\<close>

datatype http_method = GET | POST

record request =
  req_method :: http_method
  req_url :: ustr
  req_json :: "json option"
  req_headers :: "(ustr \<times> ustr) list"

text \<open>
  What \<open>await client.get/post\<close> does: raise, or give a response with its \<open>status_code\<close>,
  its \<open>text\<close> and what \<open>json()\<close> makes of the body (\<open>None\<close> when the body is not JSON and
  \<open>json()\<close> raises).
\<close>

datatype reply = Raise py_exn | Response int ustr "json option"

text \<open>
  The surroundings of a tool call: the key read from the process environment, the network
  (its answer may depend on the requests made before), and the parts of the Python runtime
  whose tables are not in this repository: the text of an exception, case mapping outside
  ASCII, and regular expressions with metacharacters.
\<close>

record env =
  BAAS_API_KEY :: ustr
  net :: "request list \<Rightarrow> request \<Rightarrow> reply"
  exc_str :: "py_exn \<Rightarrow> ustr"
  unicode_lower :: "ustr \<Rightarrow> ustr"
  unicode_title :: "ustr \<Rightarrow> ustr"
  re_findall :: "ustr \<Rightarrow> ustr \<Rightarrow> py_exn + ustr list"

definition API_BASE_URL :: ustr where
  "API_BASE_URL = u ''https://api.aiapp.link''"

definition api_headers :: "env \<Rightarrow> (ustr \<times> ustr) list" where
  "api_headers ev = [(u ''X-API-KEY'', BAAS_API_KEY ev), (u ''Content-Type'', u ''application/json'')]"

definition response_json :: "json option \<Rightarrow> py_exn + json" where
  "response_json body = (case body of None \<Rightarrow> Inl JSONDecodeError | Some v \<Rightarrow> Inr v)"

text \<open>The error shape of every tool, and the handler \<open>except Exception as e\<close>.\<close>

definition error_result :: "ustr \<Rightarrow> ustr \<Rightarrow> json" where
  "error_result msg code =
     JObj [(u ''success'', JBool False), (u ''error'', JStr msg), (u ''error_code'', JStr code)]"

definition try_except :: "env \<Rightarrow> ustr \<Rightarrow> ustr \<Rightarrow> py_exn + json \<Rightarrow> json" where
  "try_except ev prefix code body =
     (case body of Inl e \<Rightarrow> error_result (prefix @ exc_str ev e) code | Inr v \<Rightarrow> v)"

section \<open>Status aggregation: \<open>get_message_status\<close>\<close>

definition label_success :: ustr where
  "label_success = [0xC131, 0xACF5]"

definition label_failed :: ustr where
  "label_failed = [0xC2E4, 0xD328]"

definition label_sending :: ustr where
  "label_sending = [0xC804, 0xC1A1, 0xC911]"

definition label_partial :: ustr where
  "label_partial = [0xBD80, 0xBD84, 0xC131, 0xACF5]"

text \<open>\<open>sum(1 for msg in messages if msg.get("result") == label)\<close>\<close>

fun count_result :: "json list \<Rightarrow> ustr \<Rightarrow> py_exn + int" where
  "count_result [] l = Inr 0"
| "count_result (msg # msgs) l =
     bind (dict_get msg (u ''result'') JNull) (\<lambda>r.
     bind (count_result msgs l) (\<lambda>n.
     Inr ((if r = JStr l then 1 else 0) + n)))"

definition overall_status :: "int \<Rightarrow> int \<Rightarrow> int \<Rightarrow> ustr" where
  "overall_status success_count failed_count pending_count =
     (if pending_count > 0 then label_sending
      else if failed_count = 0 then label_success
      else if success_count = 0 then label_failed else label_partial)"

definition message_entry :: "json \<Rightarrow> py_exn + json" where
  "message_entry msg =
     bind (dict_get msg (u ''phone'') (JStr [])) (\<lambda>phone.
     bind (dict_get msg (u ''name'') (JStr [])) (\<lambda>name.
     bind (dict_get msg (u ''result'') (JStr [])) (\<lambda>status.
     bind (dict_get msg (u ''reason'') JNull) (\<lambda>reason.
     Inr (JObj [(u ''phone'', phone), (u ''name'', name),
                (u ''status'', status), (u ''reason'', reason)])))))"

fun message_entries :: "json list \<Rightarrow> py_exn + json list" where
  "message_entries [] = Inr []"
| "message_entries (msg # msgs) =
     bind (message_entry msg) (\<lambda>e.
     bind (message_entries msgs) (\<lambda>es. Inr (e # es)))"

definition group_status :: "int \<Rightarrow> json \<Rightarrow> py_exn + json" where
  "group_status group_id messages =
     bind (py_len messages) (\<lambda>total_count.
     bind (py_iter messages) (\<lambda>msgs.
     bind (count_result msgs label_success) (\<lambda>success_count.
     bind (count_result msgs label_failed) (\<lambda>failed_count.
     let pending_count = total_count - success_count - failed_count;
         status = overall_status success_count failed_count pending_count
     in bind (message_entries msgs) (\<lambda>entries.
        Inr (JObj [(u ''group_id'', JInt group_id),
                   (u ''status'', JStr status),
                   (u ''total_count'', JInt total_count),
                   (u ''success_count'', JInt success_count),
                   (u ''failed_count'', JInt failed_count),
                   (u ''pending_count'', JInt pending_count),
                   (u ''messages'', JList entries)]))))))"

definition api_error_message :: "int \<Rightarrow> ustr" where
  "api_error_message status_code =
     [0x41, 0x50, 0x49, 0x20, 0xD638, 0xCD9C, 0xC774, 0x20, 0xC2E4, 0xD328, 0xD588, 0xC2B5,
      0xB2C8, 0xB2E4, 0x20, 0x28, 0xC0C1, 0xD0DC, 0xCF54, 0xB4DC, 0x3A, 0x20]
     @ py_str_int status_code @ u '')''"

definition status_request :: "env \<Rightarrow> int \<Rightarrow> request" where
  "status_request ev group_id =
     \<lparr>req_method = GET,
      req_url = API_BASE_URL @ u ''/message/send_history/sms/'' @ py_str_int group_id
                @ u ''/messages'',
      req_json = None,
      req_headers = api_headers ev\<rparr>"

definition status_lookup_failed :: ustr where
  "status_lookup_failed =
     [0xBA54, 0xC2DC, 0xC9C0, 0x20, 0xC0C1, 0xD0DC, 0x20, 0xC870, 0xD68C, 0xC5D0, 0x20,
      0xC2E4, 0xD328, 0xD588, 0xC2B5, 0xB2C8, 0xB2E4]"

definition status_of_reply :: "int \<Rightarrow> reply \<Rightarrow> py_exn + json" where
  "status_of_reply group_id r =
     (case r of
        Raise e \<Rightarrow> Inl e
      | Response status_code text body \<Rightarrow>
          if status_code = 200 then
            bind (response_json body) (\<lambda>result.
            bind (dict_get result (u ''success'') JNull) (\<lambda>ok.
            if truthy ok then
              bind (dict_get result (u ''data'') (JList [])) (\<lambda>messages.
              group_status group_id messages)
            else
              bind (dict_get result (u ''message'') (JStr status_lookup_failed)) (\<lambda>m.
              bind (dict_get result (u ''error_code'') (JStr (u ''UNKNOWN_ERROR''))) (\<lambda>c.
              Inr (JObj [(u ''success'', JBool False), (u ''error'', m), (u ''error_code'', c)])))))
          else Inr (error_result (api_error_message status_code) (u ''API_ERROR'')))"

definition get_message_status :: "env \<Rightarrow> int \<Rightarrow> json \<times> request list" where
  "get_message_status ev group_id =
     (let req = status_request ev group_id
      in (try_except ev (status_lookup_failed @ u '': '') (u ''INTERNAL_ERROR'')
            (status_of_reply group_id (net ev [] req)),
          [req]))"

section \<open>Records as the status endpoint delivers them\<close>

text \<open>
  A delivery record is a \<open>dict\<close>. The three definitions below say, on records, what the
  properties of \<open>get_message_status\<close> are about: a record has a label when its \<open>result\<close> is
  that string, the count of a label is the number of records that have it, and the entry of a
  record in \<open>messages\<close> has its four fields with the defaults of the source.
\<close>

definition has_label :: "ustr \<Rightarrow> (ustr \<times> json) list \<Rightarrow> bool" where
  "has_label l r = (map_of r (u ''result'') = Some (JStr l))"

definition record_entry :: "(ustr \<times> json) list \<Rightarrow> json" where
  "record_entry r =
     JObj [(u ''phone'', case map_of r (u ''phone'') of Some v \<Rightarrow> v | None \<Rightarrow> JStr []),
           (u ''name'', case map_of r (u ''name'') of Some v \<Rightarrow> v | None \<Rightarrow> JStr []),
           (u ''status'', case map_of r (u ''result'') of Some v \<Rightarrow> v | None \<Rightarrow> JStr []),
           (u ''reason'', case map_of r (u ''reason'') of Some v \<Rightarrow> v | None \<Rightarrow> JNull)]"

definition count_label :: "ustr \<Rightarrow> (ustr \<times> json) list list \<Rightarrow> int" where
  "count_label l recs = int (length (filter (has_label l) recs))"

text \<open>
  Concrete surroundings for running the tools on examples: a network given as a function, a fixed
  text for every exception, and no Unicode tables (the examples are ASCII).
\<close>

definition fixture_env :: "(request list \<Rightarrow> request \<Rightarrow> reply) \<Rightarrow> env" where
  "fixture_env n =
     \<lparr>BAAS_API_KEY = u ''test-key'', net = n, exc_str = (\<lambda>e. u ''boom''),
      unicode_lower = (\<lambda>s. s), unicode_title = (\<lambda>s. s),
      re_findall = (\<lambda>p t. Inl ReError)\<rparr>"

text \<open>
  A successful body of the status endpoint with the given records, the network that answers
  with it, and a record with a given label.
\<close>

definition status_body :: "(ustr \<times> json) list list \<Rightarrow> json" where
  "status_body recs = JObj [(u ''success'', JBool True), (u ''data'', JList (map JObj recs))]"

definition status_env :: "(ustr \<times> json) list list \<Rightarrow> env" where
  "status_env recs = fixture_env (\<lambda>h r. Response 200 [] (Some (status_body recs)))"

definition labelled :: "ustr \<Rightarrow> (ustr \<times> json) list" where
  "labelled l = [(u ''result'', JStr l)]"

section \<open>Sending: \<open>send_sms\<close> and \<open>send_mms\<close>\<close>

text \<open>The Korean texts of the results, as code points.\<close>

definition msg_project_id_required :: ustr where
  "msg_project_id_required =
     [0xD504, 0xB85C, 0xC81D, 0xD2B8, 32, 73, 68, 0xAC00, 32, 0xD544, 0xC694, 0xD569, 0xB2C8,
      0xB2E4]"

definition msg_recipients_count :: ustr where
  "msg_recipients_count =
     [0xC218, 0xC2E0, 0xC790, 32, 0xC218, 0xB294, 32, 49, 0xBA85, 32, 0xC774, 0xC0C1, 32, 49,
      48, 48, 48, 0xBA85, 32, 0xC774, 0xD558, 0xC5EC, 0xC57C, 32, 0xD569, 0xB2C8, 0xB2E4]"

definition msg_message_too_long :: ustr where
  "msg_message_too_long =
     [0xBA54, 0xC2DC, 0xC9C0, 32, 0xAE38, 0xC774, 0xAC00, 32, 50, 48, 48, 48, 0xC790, 0xB97C,
      32, 0xCD08, 0xACFC, 0xD588, 0xC2B5, 0xB2C8, 0xB2E4]"

definition msg_subject_too_long :: ustr where
  "msg_subject_too_long =
     [0xC81C, 0xBAA9, 32, 0xAE38, 0xC774, 0xAC00, 32, 52, 48, 0xC790, 0xB97C, 32, 0xCD08,
      0xACFC, 0xD588, 0xC2B5, 0xB2C8, 0xB2E4]"

definition msg_too_many_images :: ustr where
  "msg_too_many_images =
     [0xCD5C, 0xB300, 32, 53, 0xAC1C, 0xC758, 32, 0xC774, 0xBBF8, 0xC9C0, 0xB9CC, 32, 0xCCA8,
      0xBD80, 32, 0xAC00, 0xB2A5, 0xD569, 0xB2C8, 0xB2E4]"

definition msg_sms_sent :: ustr where
  "msg_sms_sent =
     [83, 77, 83, 0xAC00, 32, 0xC131, 0xACF5, 0xC801, 0xC73C, 0xB85C, 32, 0xC804, 0xC1A1,
      0xB418, 0xC5C8, 0xC2B5, 0xB2C8, 0xB2E4]"

definition msg_mms_sent :: ustr where
  "msg_mms_sent =
     [77, 77, 83, 0xAC00, 32, 0xC131, 0xACF5, 0xC801, 0xC73C, 0xB85C, 32, 0xC804, 0xC1A1,
      0xB418, 0xC5C8, 0xC2B5, 0xB2C8, 0xB2E4]"

definition msg_sms_failed :: ustr where
  "msg_sms_failed =
     [83, 77, 83, 32, 0xC804, 0xC1A1, 0xC5D0, 32, 0xC2E4, 0xD328, 0xD588, 0xC2B5, 0xB2C8,
      0xB2E4, 58, 32]"

definition msg_mms_failed :: ustr where
  "msg_mms_failed =
     [77, 77, 83, 32, 0xC804, 0xC1A1, 0xC5D0, 32, 0xC2E4, 0xD328, 0xD588, 0xC2B5, 0xB2C8,
      0xB2E4, 58, 32]"

definition msg_history_stub :: ustr where
  "msg_history_stub =
     [0xC804, 0xC1A1, 32, 0xAE30, 0xB85D, 32, 0xC5D4, 0xB4DC, 0xD3EC, 0xC778, 0xD2B8, 0xAC00,
      32, 0xC544, 0xC9C1, 32, 65, 80, 73, 0xC5D0, 32, 0xAD6C, 0xD604, 0xB418, 0xC9C0, 32,
      0xC54A, 0xC558, 0xC2B5, 0xB2C8, 0xB2E4]"

definition msg_history_failed :: ustr where
  "msg_history_failed =
     [0xC804, 0xC1A1, 32, 0xAE30, 0xB85D, 32, 0xC870, 0xD68C, 0xC5D0, 32, 0xC2E4, 0xD328,
      0xD588, 0xC2B5, 0xB2C8, 0xB2E4, 58, 32]"

text \<open>A recipient is a \<open>Dict[str, str]\<close>; the payload carries it as it is.\<close>

type_synonym recipient = "(ustr \<times> ustr) list"

definition recipient_json :: "recipient \<Rightarrow> json" where
  "recipient_json r = JObj (map (\<lambda>kv. (fst kv, JStr (snd kv))) r)"

definition sms_request :: "env \<Rightarrow> recipient list \<Rightarrow> ustr \<Rightarrow> ustr \<Rightarrow> ustr \<Rightarrow> request" where
  "sms_request ev recipients message callback_number project_id =
     \<lparr>req_method = POST,
      req_url = API_BASE_URL @ u ''/message/sms'',
      req_json = Some (JObj
        [(u ''recipients'', JList (map recipient_json recipients)),
         (u ''message'', JStr message),
         (u ''callback_number'', JStr callback_number),
         (u ''project_id'', JStr project_id),
         (u ''channel_id'', JInt 1)]),
      req_headers = api_headers ev\<rparr>"

definition mms_request ::
  "env \<Rightarrow> recipient list \<Rightarrow> ustr \<Rightarrow> ustr \<Rightarrow> ustr \<Rightarrow> ustr \<Rightarrow> ustr list option \<Rightarrow> request" where
  "mms_request ev recipients message subject callback_number project_id image_urls =
     \<lparr>req_method = POST,
      req_url = API_BASE_URL @ u ''/message/mms'',
      req_json = Some (JObj
        [(u ''recipients'', JList (map recipient_json recipients)),
         (u ''message'', JStr message),
         (u ''subject'', JStr subject),
         (u ''callback_number'', JStr callback_number),
         (u ''project_id'', JStr project_id),
         (u ''channel_id'', JInt 3),
         (u ''img_url_list'',
            JList (map JStr (case image_urls of None \<Rightarrow> [] | Some urls \<Rightarrow> urls)))]),
      req_headers = api_headers ev\<rparr>"

text \<open>
  What both tools do with the answer of the remote service (the two functions of the source
  repeat these lines, with their own success text).
\<close>

definition send_result :: "ustr \<Rightarrow> recipient list \<Rightarrow> reply \<Rightarrow> py_exn + json" where
  "send_result sent_text recipients r =
     (case r of
        Raise e \<Rightarrow> Inl e
      | Response status_code text body \<Rightarrow>
          if status_code = 200 then
            bind (response_json body) (\<lambda>result.
            bind (dict_get result (u ''success'') JNull) (\<lambda>ok.
            if truthy ok then
              bind (subscript result (u ''data'')) (\<lambda>data.
              bind (subscript data (u ''group_id'')) (\<lambda>group_id.
              Inr (JObj [(u ''success'', JBool True),
                         (u ''group_id'', group_id),
                         (u ''message'', JStr sent_text),
                         (u ''sent_count'', JInt (int (length recipients))),
                         (u ''failed_count'', JInt 0)])))
            else
              bind (dict_get result (u ''message'') (JStr (u ''Unknown error''))) (\<lambda>m.
              bind (dict_get result (u ''error_code'') (JStr (u ''UNKNOWN_ERROR''))) (\<lambda>c.
              Inr (JObj [(u ''success'', JBool False), (u ''error'', m), (u ''error_code'', c)])))))
          else Inr (error_result (api_error_message status_code) (u ''API_ERROR'')))"

definition send_sms ::
  "env \<Rightarrow> recipient list \<Rightarrow> ustr \<Rightarrow> ustr \<Rightarrow> ustr \<Rightarrow> json \<times> request list" where
  "send_sms ev recipients message callback_number project_id =
     (if project_id = [] then
        (error_result msg_project_id_required (u ''MISSING_PROJECT_ID''), [])
      else if recipients = [] \<or> length recipients > 1000 then
        (error_result msg_recipients_count (u ''INVALID_RECIPIENTS_COUNT''), [])
      else if length message > 2000 then
        (error_result msg_message_too_long (u ''MESSAGE_TOO_LONG''), [])
      else
        let req = sms_request ev recipients message callback_number project_id
        in (try_except ev msg_sms_failed (u ''INTERNAL_ERROR'')
              (send_result msg_sms_sent recipients (net ev [] req)),
            [req]))"

definition send_mms ::
  "env \<Rightarrow> recipient list \<Rightarrow> ustr \<Rightarrow> ustr \<Rightarrow> ustr \<Rightarrow> ustr \<Rightarrow> ustr list option
     \<Rightarrow> json \<times> request list" where
  "send_mms ev recipients message subject callback_number project_id image_urls =
     (if project_id = [] then
        (error_result msg_project_id_required (u ''MISSING_PROJECT_ID''), [])
      else if recipients = [] \<or> length recipients > 1000 then
        (error_result msg_recipients_count (u ''INVALID_RECIPIENTS_COUNT''), [])
      else if length message > 2000 then
        (error_result msg_message_too_long (u ''MESSAGE_TOO_LONG''), [])
      else if length subject > 40 then
        (error_result msg_subject_too_long (u ''SUBJECT_TOO_LONG''), [])
      else if (case image_urls of None \<Rightarrow> False | Some urls \<Rightarrow> urls \<noteq> [] \<and> length urls > 5) then
        (error_result msg_too_many_images (u ''TOO_MANY_IMAGES''), [])
      else
        let req = mms_request ev recipients message subject callback_number project_id image_urls
        in (try_except ev msg_mms_failed (u ''INTERNAL_ERROR'')
              (send_result msg_mms_sent recipients (net ev [] req)),
            [req]))"

section \<open>The history stub: \<open>get_send_history\<close>\<close>

definition get_send_history ::
  "env \<Rightarrow> ustr \<Rightarrow> int \<Rightarrow> int \<Rightarrow> ustr \<Rightarrow> json \<times> request list" where
  "get_send_history ev project_id offset limit message_type =
     (if project_id = [] then
        (error_result msg_project_id_required (u ''MISSING_PROJECT_ID''), [])
      else
        let limit1 = (if limit > 100 then 100 else limit);
            offset1 = (if offset < 0 then 0 else offset);
            message_type1 =
              (if message_type \<notin> set [u ''SMS'', u ''MMS'', u ''ALL''] then u ''ALL''
               else message_type)
        in (try_except ev msg_history_failed (u ''INTERNAL_ERROR'')
              (Inr (JObj [(u ''success'', JBool True),
                          (u ''data'', JObj
                             [(u ''project_id'', JStr project_id),
                              (u ''total_count'', JInt 0),
                              (u ''offset'', JInt offset1),
                              (u ''limit'', JInt limit1),
                              (u ''message_type'', JStr message_type1),
                              (u ''history'', JList [])]),
                          (u ''message'', JStr msg_history_stub)])),
            []))"

section \<open>Inputs used to exercise the tools\<close>

text \<open>
  A recipient, a body of the remote service that accepts a message, one that refuses it, a
  network that is down, and a network that gives the same reply to every request.
\<close>

definition one_recipient :: recipient where
  "one_recipient = [(u ''phone_number'', u ''010-1234-5678''), (u ''member_code'', u ''m1'')]"

definition sent_body :: json where
  "sent_body = JObj [(u ''success'', JBool True), (u ''data'', JObj [(u ''group_id'', JInt 42)])]"

definition refused_body :: json where
  "refused_body = JObj [(u ''success'', JBool False), (u ''message'', JStr (u ''no credit'')),
                        (u ''error_code'', JStr (u ''NO_CREDIT''))]"

definition offline_env :: env where
  "offline_env = fixture_env (\<lambda>h r. Raise (TransportError (u ''connection refused'')))"

definition replying_env :: "reply \<Rightarrow> env" where
  "replying_env rep = fixture_env (\<lambda>h r. rep)"

text \<open>A field of the JSON payload of a request.\<close>

definition payload_field :: "request \<Rightarrow> ustr \<Rightarrow> json option" where
  "payload_field req k = (case req_json req of Some (JObj kvs) \<Rightarrow> map_of kvs k | _ \<Rightarrow> None)"

section \<open>Template URLs: \<open>get_code_template_url\<close>\<close>

text \<open>
  \<open>str.lower()\<close>: on an ASCII string it maps \<open>A\<close>..\<open>Z\<close> to \<open>a\<close>..\<open>z\<close>; beyond ASCII
  it follows the Unicode tables of the runtime.
\<close>

definition ascii_lower :: "nat \<Rightarrow> nat" where
  "ascii_lower c = (if 65 \<le> c \<and> c \<le> 90 then c + 32 else c)"

definition py_lower :: "env \<Rightarrow> ustr \<Rightarrow> ustr" where
  "py_lower ev s = (if list_all (\<lambda>c. c < 128) s then map ascii_lower s else unicode_lower ev s)"

text \<open>\<open>x.lower() if x else None\<close> for an optional string.\<close>

definition lower_opt :: "env \<Rightarrow> ustr option \<Rightarrow> ustr option" where
  "lower_opt ev x = (case x of None \<Rightarrow> None
                     | Some s \<Rightarrow> if s = [] then None else Some (py_lower ev s))"

definition opt_truthy :: "ustr option \<Rightarrow> bool" where
  "opt_truthy x = (case x of None \<Rightarrow> False | Some s \<Rightarrow> s \<noteq> [])"

definition opt_json :: "ustr option \<Rightarrow> json" where
  "opt_json x = (case x of None \<Rightarrow> JNull | Some s \<Rightarrow> JStr s)"

definition msg_language_pre :: ustr where
  "msg_language_pre =
     [0xC5B8, 0xC5B4, 32, 39]"

definition msg_language_unsupported :: ustr where
  "msg_language_unsupported =
     [39, 0xB294, 32, 0xC544, 0xC9C1, 32, 0xC9C0, 0xC6D0, 0xB418, 0xC9C0, 32, 0xC54A, 0xC2B5,
      0xB2C8, 0xB2E4]"

definition msg_cache_duration :: ustr where
  "msg_cache_duration =
     [50, 52, 0xC2DC, 0xAC04]"

definition msg_last_updated :: ustr where
  "msg_last_updated =
     [0xC790, 0xB3D9, 32, 0xC5C5, 0xB370, 0xC774, 0xD2B8]"

definition msg_template_url :: ustr where
  "msg_template_url =
     [32, 0xD15C, 0xD50C, 0xB9BF, 32, 85, 82, 76, 0xC744, 32, 0xC81C, 0xACF5, 0xD569, 0xB2C8,
      0xB2E4, 46, 32, 0xD1A0, 0xD070, 32, 0xCD5C, 0xC801, 0xD654, 0xB97C, 32, 0xC704, 0xD574,
      32, 67, 68, 78, 0xC5D0, 0xC11C, 32, 0xC9C1, 0xC811, 32, 0xB2E4, 0xC6B4, 0xB85C, 0xB4DC,
      0xD558, 0xC138, 0xC694, 46]"

definition msg_url_failed :: ustr where
  "msg_url_failed =
     [0xD15C, 0xD50C, 0xB9BF, 32, 85, 82, 76, 32, 0xC0DD, 0xC131, 0xC5D0, 32, 0xC2E4, 0xD328,
      0xD588, 0xC2B5, 0xB2C8, 0xB2E4, 58, 32]"

definition cdn_base_url :: ustr where
  "cdn_base_url = u ''https://cdn.mbaas.kr/templates/sms-mms''"

definition supported_languages :: "ustr list" where
  "supported_languages =
     [u ''javascript'', u ''python'', u ''php'', u ''java'', u ''go'', u ''csharp'']"

text \<open>\<open>template_path\<close>: the language, then the framework or \<open>vanilla\<close>.\<close>

definition template_path :: "ustr \<Rightarrow> ustr option \<Rightarrow> ustr" where
  "template_path language framework =
     (if opt_truthy framework then language @ u ''/'' @ the framework
      else language @ u ''/vanilla'')"

definition get_code_template_url ::
  "env \<Rightarrow> ustr \<Rightarrow> ustr option \<Rightarrow> ustr option \<Rightarrow> json \<times> request list" where
  "get_code_template_url ev language0 framework0 deployment_platform =
     (let language = py_lower ev language0;
          framework = lower_opt ev framework0;
          platform = lower_opt ev deployment_platform;
          template_url = cdn_base_url @ u ''/'' @ template_path language framework @ u ''.md'';
          integration_url =
            (if opt_truthy platform
             then Some (cdn_base_url @ u ''/deployment/'' @ the platform @ u ''.md'')
             else None)
      in (try_except ev msg_url_failed (u ''URL_GENERATION_ERROR'')
           (if language \<notin> set supported_languages then
              Inr (JObj [(u ''success'', JBool False),
                         (u ''error'', JStr (msg_language_pre @ language @ msg_language_unsupported)),
                         (u ''supported_languages'', JList (map JStr supported_languages)),
                         (u ''error_code'', JStr (u ''UNSUPPORTED_LANGUAGE''))])
            else
              Inr (JObj [(u ''success'', JBool True),
                         (u ''language'', JStr language),
                         (u ''framework'', opt_json framework),
                         (u ''deployment_platform'', opt_json platform),
                         (u ''template_url'', JStr template_url),
                         (u ''integration_url'', opt_json integration_url),
                         (u ''api_endpoint'', JStr (u ''https://api.aiapp.link'')),
                         (u ''cdn_info'', JObj
                            [(u ''cache_duration'', JStr msg_cache_duration),
                             (u ''last_updated'', JStr msg_last_updated),
                             (u ''version'', JStr (u ''latest''))]),
                         (u ''configuration'', JObj
                            [(u ''required_env_vars'',
                                JList [JStr (u ''BAAS_API_KEY''), JStr (u ''BAAS_PROJECT_ID'')]),
                             (u ''installation_guide'',
                                JStr (cdn_base_url @ u ''/setup/'' @ language @ u ''.md''))]),
                         (u ''message'', JStr (language @ msg_template_url))])),
          []))"

section \<open>The embedded client sources\<close>

text \<open>
  The string literals of \<open>generate_javascript_code\<close>, \<open>generate_python_code\<close> and
  \<open>generate_php_code\<close>, one source line per line, cut into blocks of at most 30 lines.
\<close>

subsection \<open>JavaScript\<close>

definition js_base_code_1 :: ustr where
  \<open>js_base_code_1 =
     u ''/**\<newline>''
     @ u '' * BaaS SMS/MMS Direct API Client\<newline>''
     @ u '' * Directly calls https://api.aiapp.link without MCP\<newline>''
     @ u '' */\<newline>''
     @ u ''\<newline>''\<close>

definition js_base_code_2 :: ustr where
  \<open>js_base_code_2 =
     u ''class BaaSMessageService {\<newline>''
     @ u ''    constructor(apiKey, projectId, baseUrl = 'https://api.aiapp.link') {\<newline>''
     @ u ''        this.apiKey = apiKey;\<newline>''
     @ u ''        this.projectId = projectId;\<newline>''
     @ u ''        this.baseUrl = baseUrl;\<newline>''
     @ u ''    }\<newline>''
     @ u ''    \<newline>''
     @ u ''    /**\<newline>''
     @ u ''     * Send SMS message\<newline>''
     @ u ''     * @param {Array} recipients - Array of {phone_number, member_code}\<newline>''
     @ u ''     * @param {string} message - Message content (max 2000 chars)\<newline>''
     @ u ''     * @param {string} callbackNumber - Sender callback number\<newline>''
     @ u ''     * @returns {Promise<Object>} Response object\<newline>''
     @ u ''     */\<newline>''
     @ u ''    async sendSMS(recipients, message, callbackNumber) {\<newline>''
     @ u ''        try {\<newline>''
     @ u ''            const response = await fetch(`${this.baseUrl}/message/sms`, {\<newline>''
     @ u ''                method: 'POST',\<newline>''
     @ u ''                headers: {\<newline>''
     @ u ''                    'X-API-KEY': this.apiKey,\<newline>''
     @ u ''                    'Content-Type': 'application/json'\<newline>''
     @ u ''                },\<newline>''
     @ u ''                body: JSON.stringify({\<newline>''
     @ u ''                    recipients: recipients,\<newline>''
     @ u ''                    message: message,\<newline>''
     @ u ''                    callback_number: callbackNumber,\<newline>''
     @ u ''                    project_id: this.projectId,\<newline>''
     @ u ''                    channel_id: 1\<newline>''
     @ u ''                })\<newline>''
     @ u ''            });\<newline>''\<close>

definition js_base_code_3 :: ustr where
  \<open>js_base_code_3 =
     u ''            \<newline>''
     @ u ''            const result = await response.json();\<newline>''
     @ u ''            \<newline>''
     @ u ''            if (response.ok && result.success) {\<newline>''
     @ u ''                return {\<newline>''
     @ u ''                    success: true,\<newline>''
     @ u ''                    groupId: result.data.group_id,\<newline>''
     @ u ''                    message: 'SMS sent successfully'\<newline>''
     @ u ''                };\<newline>''
     @ u ''            } else {\<newline>''
     @ u ''                return {\<newline>''
     @ u ''                    success: false,\<newline>''
     @ u ''                    error: result.message || 'Send failed',\<newline>''
     @ u ''                    errorCode: result.error_code\<newline>''
     @ u ''                };\<newline>''
     @ u ''            }\<newline>''
     @ u ''        } catch (error) {\<newline>''
     @ u ''            return {\<newline>''
     @ u ''                success: false,\<newline>''
     @ u ''                error: `Network error: ${error.message}`\<newline>''
     @ u ''            };\<newline>''
     @ u ''        }\<newline>''
     @ u ''    }\<newline>''
     @ u ''    \<newline>''
     @ u ''    /**\<newline>''
     @ u ''     * Send MMS message with images\<newline>''
     @ u ''     * @param {Array} recipients - Array of {phone_number, member_code}\<newline>''
     @ u ''     * @param {string} message - Message content\<newline>''
     @ u ''     * @param {string} subject - MMS subject (max 40 chars)\<newline>''
     @ u ''     * @param {string} callbackNumber - Sender callback number\<newline>''\<close>

definition js_base_code_4 :: ustr where
  \<open>js_base_code_4 =
     u ''     * @param {Array} imageUrls - Array of image URLs (max 5)\<newline>''
     @ u ''     * @returns {Promise<Object>} Response object\<newline>''
     @ u ''     */\<newline>''
     @ u ''    async sendMMS(recipients, message, subject, callbackNumber, imageUrls = []) {\<newline>''
     @ u ''        try {\<newline>''
     @ u ''            const response = await fetch(`${this.baseUrl}/message/mms`, {\<newline>''
     @ u ''                method: 'POST',\<newline>''
     @ u ''                headers: {\<newline>''
     @ u ''                    'X-API-KEY': this.apiKey,\<newline>''
     @ u ''                    'Content-Type': 'application/json'\<newline>''
     @ u ''                },\<newline>''
     @ u ''                body: JSON.stringify({\<newline>''
     @ u ''                    recipients: recipients,\<newline>''
     @ u ''                    message: message,\<newline>''
     @ u ''                    subject: subject,\<newline>''
     @ u ''                    callback_number: callbackNumber,\<newline>''
     @ u ''                    project_id: this.projectId,\<newline>''
     @ u ''                    channel_id: 3,\<newline>''
     @ u ''                    img_url_list: imageUrls\<newline>''
     @ u ''                })\<newline>''
     @ u ''            });\<newline>''
     @ u ''            \<newline>''
     @ u ''            const result = await response.json();\<newline>''
     @ u ''            \<newline>''
     @ u ''            if (response.ok && result.success) {\<newline>''
     @ u ''                return {\<newline>''
     @ u ''                    success: true,\<newline>''
     @ u ''                    groupId: result.data.group_id,\<newline>''
     @ u ''                    message: 'MMS sent successfully'\<newline>''
     @ u ''                };\<newline>''\<close>

definition js_base_code_5 :: ustr where
  \<open>js_base_code_5 =
     u ''            } else {\<newline>''
     @ u ''                return {\<newline>''
     @ u ''                    success: false,\<newline>''
     @ u ''                    error: result.message || 'Send failed',\<newline>''
     @ u ''                    errorCode: result.error_code\<newline>''
     @ u ''                };\<newline>''
     @ u ''            }\<newline>''
     @ u ''        } catch (error) {\<newline>''
     @ u ''            return {\<newline>''
     @ u ''                success: false,\<newline>''
     @ u ''                error: `Network error: ${error.message}`\<newline>''
     @ u ''            };\<newline>''
     @ u ''        }\<newline>''
     @ u ''    }\<newline>''
     @ u ''    \<newline>''
     @ u ''    /**\<newline>''
     @ u ''     * Check message delivery status\<newline>''
     @ u ''     * @param {number} groupId - Message group ID\<newline>''
     @ u ''     * @returns {Promise<Object>} Status information\<newline>''
     @ u ''     */\<newline>''
     @ u ''    async getMessageStatus(groupId) {\<newline>''
     @ u ''        try {\<newline>''
     @ u ''            const response = await fetch(\<newline>''
     @ u ''                `${this.baseUrl}/message/send_history/sms/${groupId}/messages`,\<newline>''
     @ u ''                {\<newline>''
     @ u ''                    method: 'GET',\<newline>''
     @ u ''                    headers: {\<newline>''
     @ u ''                        'X-API-KEY': this.apiKey,\<newline>''
     @ u ''                        'Content-Type': 'application/json'\<newline>''
     @ u ''                    }\<newline>''\<close>

definition js_base_code_6 :: ustr where
  \<open>js_base_code_6 =
     u ''                }\<newline>''
     @ u ''            );\<newline>''
     @ u ''            \<newline>''
     @ u ''            const result = await response.json();\<newline>''
     @ u ''            \<newline>''
     @ u ''            if (response.ok && result.success) {\<newline>''
     @ u ''                const messages = result.data || [];\<newline>''
     @ u ''                const totalCount = messages.length;\<newline>''
     @ u ''                const successCount = messages.filter(msg => msg.result === '' @ [39, 0xC131, 0xACF5, 39] @ u '').length;\<newline>''
     @ u ''                const failedCount = messages.filter(msg => msg.result === '' @ [39, 0xC2E4, 0xD328, 39] @ u '').length;\<newline>''
     @ u ''                const pendingCount = totalCount - successCount - failedCount;\<newline>''
     @ u ''                \<newline>''
     @ u ''                let status = '' @ [39, 0xC804, 0xC1A1, 0xC911, 39] @ u '';\<newline>''
     @ u ''                if (pendingCount === 0) {\<newline>''
     @ u ''                    status = failedCount === 0 ? '' @ [39, 0xC131, 0xACF5, 39] @ u '' : \<newline>''
     @ u ''                            (successCount === 0 ? '' @ [39, 0xC2E4, 0xD328, 39] @ u '' : '' @ [39, 0xBD80, 0xBD84, 0xC131, 0xACF5, 39] @ u '');\<newline>''
     @ u ''                }\<newline>''
     @ u ''                \<newline>''
     @ u ''                return {\<newline>''
     @ u ''                    groupId: groupId,\<newline>''
     @ u ''                    status: status,\<newline>''
     @ u ''                    totalCount: totalCount,\<newline>''
     @ u ''                    successCount: successCount,\<newline>''
     @ u ''                    failedCount: failedCount,\<newline>''
     @ u ''                    pendingCount: pendingCount,\<newline>''
     @ u ''                    messages: messages.map(msg => ({\<newline>''
     @ u ''                        phone: msg.phone,\<newline>''
     @ u ''                        name: msg.name,\<newline>''
     @ u ''                        status: msg.result,\<newline>''
     @ u ''                        reason: msg.reason\<newline>''\<close>

definition js_base_code_7 :: ustr where
  \<open>js_base_code_7 =
     u ''                    }))\<newline>''
     @ u ''                };\<newline>''
     @ u ''            } else {\<newline>''
     @ u ''                return {\<newline>''
     @ u ''                    success: false,\<newline>''
     @ u ''                    error: result.message || 'Status check failed'\<newline>''
     @ u ''                };\<newline>''
     @ u ''            }\<newline>''
     @ u ''        } catch (error) {\<newline>''
     @ u ''            return {\<newline>''
     @ u ''                success: false,\<newline>''
     @ u ''                error: `Network error: ${error.message}`\<newline>''
     @ u ''            };\<newline>''
     @ u ''        }\<newline>''
     @ u ''    }\<newline>''
     @ u ''}''\<close>

definition js_base_code :: ustr where
  "js_base_code =
     js_base_code_1 @ js_base_code_2 @ js_base_code_3 @ js_base_code_4 @ js_base_code_5
     @ js_base_code_6 @ js_base_code_7"

definition js_react_code_1 :: ustr where
  \<open>js_react_code_1 =
     u ''\<newline>''
     @ u ''\<newline>''
     @ u ''/**\<newline>''
     @ u '' * React Hook for BaaS SMS service\<newline>''
     @ u '' */\<newline>''
     @ u ''import { useState, useCallback } from 'react';\<newline>''
     @ u ''\<newline>''
     @ u ''export function useBaaSMessageService(apiKey, projectId) {\<newline>''
     @ u ''    const [loading, setLoading] = useState(false);\<newline>''
     @ u ''    const [error, setError] = useState(null);\<newline>''
     @ u ''    \<newline>''
     @ u ''    const service = new BaaSMessageService(apiKey, projectId);\<newline>''
     @ u ''    \<newline>''
     @ u ''    const sendSMS = useCallback(async (recipients, message, callbackNumber) => {\<newline>''
     @ u ''        setLoading(true);\<newline>''
     @ u ''        setError(null);\<newline>''
     @ u ''        \<newline>''
     @ u ''        try {\<newline>''
     @ u ''            const result = await service.sendSMS(recipients, message, callbackNumber);\<newline>''
     @ u ''            return result;\<newline>''
     @ u ''        } catch (err) {\<newline>''
     @ u ''            setError(err.message);\<newline>''
     @ u ''            throw err;\<newline>''
     @ u ''        } finally {\<newline>''
     @ u ''            setLoading(false);\<newline>''
     @ u ''        }\<newline>''
     @ u ''    }, [service]);\<newline>''
     @ u ''    \<newline>''
     @ u ''    const sendMMS = useCallback(async (recipients, message, subject, callbackNumber, imageUrls) => {\<newline>''
     @ u ''        setLoading(true);\<newline>''\<close>

definition js_react_code_2 :: ustr where
  \<open>js_react_code_2 =
     u ''        setError(null);\<newline>''
     @ u ''        \<newline>''
     @ u ''        try {\<newline>''
     @ u ''            const result = await service.sendMMS(recipients, message, subject, callbackNumber, imageUrls);\<newline>''
     @ u ''            return result;\<newline>''
     @ u ''        } catch (err) {\<newline>''
     @ u ''            setError(err.message);\<newline>''
     @ u ''            throw err;\<newline>''
     @ u ''        } finally {\<newline>''
     @ u ''            setLoading(false);\<newline>''
     @ u ''        }\<newline>''
     @ u ''    }, [service]);\<newline>''
     @ u ''    \<newline>''
     @ u ''    return {\<newline>''
     @ u ''        sendSMS,\<newline>''
     @ u ''        sendMMS,\<newline>''
     @ u ''        getMessageStatus: service.getMessageStatus.bind(service),\<newline>''
     @ u ''        loading,\<newline>''
     @ u ''        error\<newline>''
     @ u ''    };\<newline>''
     @ u ''}''\<close>

definition js_react_code :: ustr where
  "js_react_code =
     js_react_code_1 @ js_react_code_2"

definition js_vue_code_1 :: ustr where
  \<open>js_vue_code_1 =
     u ''\<newline>''
     @ u ''\<newline>''
     @ u ''/**\<newline>''
     @ u '' * Vue 3 Composition API for BaaS SMS service\<newline>''
     @ u '' */\<newline>''
     @ u ''import { ref, reactive } from 'vue';\<newline>''
     @ u ''\<newline>''
     @ u ''export function useBaaSMessageService(apiKey, projectId) {\<newline>''
     @ u ''    const loading = ref(false);\<newline>''
     @ u ''    const error = ref(null);\<newline>''
     @ u ''    \<newline>''
     @ u ''    const service = new BaaSMessageService(apiKey, projectId);\<newline>''
     @ u ''    \<newline>''
     @ u ''    const sendSMS = async (recipients, message, callbackNumber) => {\<newline>''
     @ u ''        loading.value = true;\<newline>''
     @ u ''        error.value = null;\<newline>''
     @ u ''        \<newline>''
     @ u ''        try {\<newline>''
     @ u ''            const result = await service.sendSMS(recipients, message, callbackNumber);\<newline>''
     @ u ''            return result;\<newline>''
     @ u ''        } catch (err) {\<newline>''
     @ u ''            error.value = err.message;\<newline>''
     @ u ''            throw err;\<newline>''
     @ u ''        } finally {\<newline>''
     @ u ''            loading.value = false;\<newline>''
     @ u ''        }\<newline>''
     @ u ''    };\<newline>''
     @ u ''    \<newline>''
     @ u ''    const sendMMS = async (recipients, message, subject, callbackNumber, imageUrls) => {\<newline>''
     @ u ''        loading.value = true;\<newline>''\<close>

definition js_vue_code_2 :: ustr where
  \<open>js_vue_code_2 =
     u ''        error.value = null;\<newline>''
     @ u ''        \<newline>''
     @ u ''        try {\<newline>''
     @ u ''            const result = await service.sendMMS(recipients, message, subject, callbackNumber, imageUrls);\<newline>''
     @ u ''            return result;\<newline>''
     @ u ''        } catch (err) {\<newline>''
     @ u ''            error.value = err.message;\<newline>''
     @ u ''            throw err;\<newline>''
     @ u ''        } finally {\<newline>''
     @ u ''            loading.value = false;\<newline>''
     @ u ''        }\<newline>''
     @ u ''    };\<newline>''
     @ u ''    \<newline>''
     @ u ''    return {\<newline>''
     @ u ''        sendSMS,\<newline>''
     @ u ''        sendMMS,\<newline>''
     @ u ''        getMessageStatus: service.getMessageStatus.bind(service),\<newline>''
     @ u ''        loading,\<newline>''
     @ u ''        error\<newline>''
     @ u ''    };\<newline>''
     @ u ''}''\<close>

definition js_vue_code :: ustr where
  "js_vue_code =
     js_vue_code_1 @ js_vue_code_2"

definition js_examples_code_1 :: ustr where
  \<open>js_examples_code_1 =
     u ''\<newline>''
     @ u ''\<newline>''
     @ u ''// Usage Examples\<newline>''
     @ u ''\<newline>''
     @ u ''// Example 1: Basic SMS sending\<newline>''
     @ u ''const messageService = new BaaSMessageService('your-api-key', 'your-project-id');\<newline>''
     @ u ''\<newline>''
     @ u ''const recipients = [\<newline>''
     @ u ''    { phone_number: "010-1234-5678", member_code: "user_001" }\<newline>''
     @ u ''];\<newline>''
     @ u ''\<newline>''
     @ u ''// Send SMS\<newline>''
     @ u ''messageService.sendSMS(\<newline>''
     @ u ''    recipients,\<newline>''
     @ u ''    "'' @ [0xC548, 0xB155, 0xD558, 0xC138, 0xC694] @ u ''! '' @ [0xC778, 0xC99D, 0xBC88, 0xD638, 0xB294] @ u '' 123456'' @ [0xC785, 0xB2C8, 0xB2E4] @ u ''.",\<newline>''
     @ u ''    "02-1234-5678"\<newline>''
     @ u '').then(result => {\<newline>''
     @ u ''    console.log('SMS Result:', result);\<newline>''
     @ u ''    if (result.success) {\<newline>''
     @ u ''        // Check status\<newline>''
     @ u ''        return messageService.getMessageStatus(result.groupId);\<newline>''
     @ u ''    }\<newline>''
     @ u ''}).then(status => {\<newline>''
     @ u ''    console.log('Status:', status);\<newline>''
     @ u ''});\<newline>''
     @ u ''\<newline>''
     @ u ''// Example 2: MMS with images\<newline>''
     @ u ''messageService.sendMMS(\<newline>''
     @ u ''    recipients,\<newline>''
     @ u ''    "'' @ [0xC2E0, 0xC0C1, 0xD488] @ u '' '' @ [0xCD9C, 0xC2DC] @ u '' '' @ [0xC548, 0xB0B4, 0xB4DC, 0xB9BD, 0xB2C8, 0xB2E4] @ u ''!",\<newline>''\<close>

definition js_examples_code_2 :: ustr where
  \<open>js_examples_code_2 =
     u ''    "'' @ [0xC2E0, 0xC0C1, 0xD488] @ u '' '' @ [0xC54C, 0xB9BC] @ u ''",\<newline>''
     @ u ''    "02-1234-5678",\<newline>''
     @ u ''    ["https://example.com/product.jpg"]\<newline>''
     @ u '').then(result => {\<newline>''
     @ u ''    console.log('MMS Result:', result);\<newline>''
     @ u ''});\<newline>''
     @ u ''\<newline>''
     @ u ''// Example 3: Environment-based configuration\<newline>''
     @ u ''const apiKey = process.env.BAAS_API_KEY || 'your-api-key';\<newline>''
     @ u ''const projectId = process.env.BAAS_PROJECT_ID || 'your-project-id';\<newline>''
     @ u ''const service = new BaaSMessageService(apiKey, projectId);''\<close>

definition js_examples_code :: ustr where
  "js_examples_code =
     js_examples_code_1 @ js_examples_code_2"

definition js_export_code_1 :: ustr where
  \<open>js_export_code_1 =
     u ''\<newline>''
     @ u ''\<newline>''
     @ u ''// Node.js export\<newline>''
     @ u ''if (typeof module !== 'undefined' && module.exports) {\<newline>''
     @ u ''    module.exports = { BaaSMessageService };\<newline>''
     @ u ''}\<newline>''
     @ u ''\<newline>''
     @ u ''// ES6 export\<newline>''
     @ u ''export { BaaSMessageService };''\<close>

definition js_export_code :: ustr where
  "js_export_code =
     js_export_code_1"

definition generate_javascript_code :: "ustr option \<Rightarrow> bool \<Rightarrow> ustr" where
  "generate_javascript_code framework include_examples =
     js_base_code
     @ (if framework = Some (u ''react'') then js_react_code
        else if framework = Some (u ''vue'') then js_vue_code else [])
     @ (if include_examples then js_examples_code else [])
     @ js_export_code"

subsection \<open>Python\<close>

definition py_base_code_1 :: ustr where
  \<open>py_base_code_1 =
     u ''"""\<newline>''
     @ u ''BaaS SMS/MMS Direct API Client\<newline>''
     @ u ''Directly calls https://api.aiapp.link without MCP\<newline>''
     @ u ''"""\<newline>''
     @ u ''\<newline>''
     @ u ''import requests\<newline>''
     @ u ''import json\<newline>''
     @ u ''from typing import List, Dict, Optional, Union\<newline>''
     @ u ''\<newline>''\<close>

definition py_base_code_2 :: ustr where
  \<open>py_base_code_2 =
     u ''class BaaSMessageService:\<newline>''
     @ u ''    def __init__(self, api_key: str, project_id: str, base_url: str = 'https://api.aiapp.link'):\<newline>''
     @ u ''        self.api_key = api_key\<newline>''
     @ u ''        self.project_id = project_id\<newline>''
     @ u ''        self.base_url = base_url\<newline>''
     @ u ''        \<newline>''
     @ u ''    def send_sms(self, recipients: List[Dict], message: str, callback_number: str) -> Dict:\<newline>''
     @ u ''        """\<newline>''
     @ u ''        Send SMS message\<newline>''
     @ u ''        \<newline>''
     @ u ''        Args:\<newline>''
     @ u ''            recipients: List of {phone_number, member_code}\<newline>''
     @ u ''            message: Message content (max 2000 chars)\<newline>''
     @ u ''            callback_number: Sender callback number\<newline>''
     @ u ''            \<newline>''
     @ u ''        Returns:\<newline>''
     @ u ''            Dict: Response object\<newline>''
     @ u ''        """\<newline>''
     @ u ''        try:\<newline>''
     @ u ''            headers = {\<newline>''
     @ u ''                'X-API-KEY': self.api_key,\<newline>''
     @ u ''                'Content-Type': 'application/json'\<newline>''
     @ u ''            }\<newline>''
     @ u ''            \<newline>''
     @ u ''            payload = {\<newline>''
     @ u ''                'recipients': recipients,\<newline>''
     @ u ''                'message': message,\<newline>''
     @ u ''                'callback_number': callback_number,\<newline>''
     @ u ''                'project_id': self.project_id,\<newline>''
     @ u ''                'channel_id': 1\<newline>''\<close>

definition py_base_code_3 :: ustr where
  \<open>py_base_code_3 =
     u ''            }\<newline>''
     @ u ''            \<newline>''
     @ u ''            response = requests.post(\<newline>''
     @ u ''                f'{self.base_url}/message/sms',\<newline>''
     @ u ''                headers=headers,\<newline>''
     @ u ''                json=payload,\<newline>''
     @ u ''                timeout=30\<newline>''
     @ u ''            )\<newline>''
     @ u ''            \<newline>''
     @ u ''            result = response.json()\<newline>''
     @ u ''            \<newline>''
     @ u ''            if response.status_code == 200 and result.get('success'):\<newline>''
     @ u ''                return {\<newline>''
     @ u ''                    'success': True,\<newline>''
     @ u ''                    'group_id': result['data']['group_id'],\<newline>''
     @ u ''                    'message': 'SMS sent successfully'\<newline>''
     @ u ''                }\<newline>''
     @ u ''            else:\<newline>''
     @ u ''                return {\<newline>''
     @ u ''                    'success': False,\<newline>''
     @ u ''                    'error': result.get('message', 'Send failed'),\<newline>''
     @ u ''                    'error_code': result.get('error_code')\<newline>''
     @ u ''                }\<newline>''
     @ u ''                \<newline>''
     @ u ''        except requests.exceptions.RequestException as e:\<newline>''
     @ u ''            return {\<newline>''
     @ u ''                'success': False,\<newline>''
     @ u ''                'error': f'Network error: {str(e)}'\<newline>''
     @ u ''            }\<newline>''
     @ u ''    \<newline>''\<close>

definition py_base_code_4 :: ustr where
  \<open>py_base_code_4 =
     u ''    def send_mms(self, recipients: List[Dict], message: str, subject: str, \<newline>''
     @ u ''                callback_number: str, image_urls: Optional[List[str]] = None) -> Dict:\<newline>''
     @ u ''        """\<newline>''
     @ u ''        Send MMS message with images\<newline>''
     @ u ''        \<newline>''
     @ u ''        Args:\<newline>''
     @ u ''            recipients: List of {phone_number, member_code}\<newline>''
     @ u ''            message: Message content\<newline>''
     @ u ''            subject: MMS subject (max 40 chars)\<newline>''
     @ u ''            callback_number: Sender callback number\<newline>''
     @ u ''            image_urls: List of image URLs (max 5)\<newline>''
     @ u ''            \<newline>''
     @ u ''        Returns:\<newline>''
     @ u ''            Dict: Response object\<newline>''
     @ u ''        """\<newline>''
     @ u ''        try:\<newline>''
     @ u ''            headers = {\<newline>''
     @ u ''                'X-API-KEY': self.api_key,\<newline>''
     @ u ''                'Content-Type': 'application/json'\<newline>''
     @ u ''            }\<newline>''
     @ u ''            \<newline>''
     @ u ''            payload = {\<newline>''
     @ u ''                'recipients': recipients,\<newline>''
     @ u ''                'message': message,\<newline>''
     @ u ''                'subject': subject,\<newline>''
     @ u ''                'callback_number': callback_number,\<newline>''
     @ u ''                'project_id': self.project_id,\<newline>''
     @ u ''                'channel_id': 3,\<newline>''
     @ u ''                'img_url_list': image_urls or []\<newline>''
     @ u ''            }\<newline>''\<close>

definition py_base_code_5 :: ustr where
  \<open>py_base_code_5 =
     u ''            \<newline>''
     @ u ''            response = requests.post(\<newline>''
     @ u ''                f'{self.base_url}/message/mms',\<newline>''
     @ u ''                headers=headers,\<newline>''
     @ u ''                json=payload,\<newline>''
     @ u ''                timeout=30\<newline>''
     @ u ''            )\<newline>''
     @ u ''            \<newline>''
     @ u ''            result = response.json()\<newline>''
     @ u ''            \<newline>''
     @ u ''            if response.status_code == 200 and result.get('success'):\<newline>''
     @ u ''                return {\<newline>''
     @ u ''                    'success': True,\<newline>''
     @ u ''                    'group_id': result['data']['group_id'],\<newline>''
     @ u ''                    'message': 'MMS sent successfully'\<newline>''
     @ u ''                }\<newline>''
     @ u ''            else:\<newline>''
     @ u ''                return {\<newline>''
     @ u ''                    'success': False,\<newline>''
     @ u ''                    'error': result.get('message', 'Send failed'),\<newline>''
     @ u ''                    'error_code': result.get('error_code')\<newline>''
     @ u ''                }\<newline>''
     @ u ''                \<newline>''
     @ u ''        except requests.exceptions.RequestException as e:\<newline>''
     @ u ''            return {\<newline>''
     @ u ''                'success': False,\<newline>''
     @ u ''                'error': f'Network error: {str(e)}'\<newline>''
     @ u ''            }\<newline>''
     @ u ''    \<newline>''
     @ u ''    def get_message_status(self, group_id: int) -> Dict:\<newline>''\<close>

definition py_base_code_6 :: ustr where
  \<open>py_base_code_6 =
     u ''        """\<newline>''
     @ u ''        Check message delivery status\<newline>''
     @ u ''        \<newline>''
     @ u ''        Args:\<newline>''
     @ u ''            group_id: Message group ID\<newline>''
     @ u ''            \<newline>''
     @ u ''        Returns:\<newline>''
     @ u ''            Dict: Status information\<newline>''
     @ u ''        """\<newline>''
     @ u ''        try:\<newline>''
     @ u ''            headers = {\<newline>''
     @ u ''                'X-API-KEY': self.api_key,\<newline>''
     @ u ''                'Content-Type': 'application/json'\<newline>''
     @ u ''            }\<newline>''
     @ u ''            \<newline>''
     @ u ''            response = requests.get(\<newline>''
     @ u ''                f'{self.base_url}/message/send_history/sms/{group_id}/messages',\<newline>''
     @ u ''                headers=headers,\<newline>''
     @ u ''                timeout=30\<newline>''
     @ u ''            )\<newline>''
     @ u ''            \<newline>''
     @ u ''            result = response.json()\<newline>''
     @ u ''            \<newline>''
     @ u ''            if response.status_code == 200 and result.get('success'):\<newline>''
     @ u ''                messages = result.get('data', [])\<newline>''
     @ u ''                total_count = len(messages)\<newline>''
     @ u ''                success_count = sum(1 for msg in messages if msg.get('result') == '' @ [39, 0xC131, 0xACF5, 39] @ u '')\<newline>''
     @ u ''                failed_count = sum(1 for msg in messages if msg.get('result') == '' @ [39, 0xC2E4, 0xD328, 39] @ u '')\<newline>''
     @ u ''                pending_count = total_count - success_count - failed_count\<newline>''
     @ u ''                \<newline>''\<close>

definition py_base_code_7 :: ustr where
  \<open>py_base_code_7 =
     u ''                if pending_count > 0:\<newline>''
     @ u ''                    status = '' @ [39, 0xC804, 0xC1A1, 0xC911, 39] @ u ''\<newline>''
     @ u ''                elif failed_count == 0:\<newline>''
     @ u ''                    status = '' @ [39, 0xC131, 0xACF5, 39] @ u ''\<newline>''
     @ u ''                else:\<newline>''
     @ u ''                    status = '' @ [39, 0xC2E4, 0xD328, 39] @ u '' if success_count == 0 else '' @ [39, 0xBD80, 0xBD84, 0xC131, 0xACF5, 39] @ u ''\<newline>''
     @ u ''                \<newline>''
     @ u ''                return {\<newline>''
     @ u ''                    'group_id': group_id,\<newline>''
     @ u ''                    'status': status,\<newline>''
     @ u ''                    'total_count': total_count,\<newline>''
     @ u ''                    'success_count': success_count,\<newline>''
     @ u ''                    'failed_count': failed_count,\<newline>''
     @ u ''                    'pending_count': pending_count,\<newline>''
     @ u ''                    'messages': [\<newline>''
     @ u ''                        {\<newline>''
     @ u ''                            'phone': msg.get('phone', '' @ [39, 39] @ u ''),\<newline>''
     @ u ''                            'name': msg.get('name', '' @ [39, 39] @ u ''),\<newline>''
     @ u ''                            'status': msg.get('result', '' @ [39, 39] @ u ''),\<newline>''
     @ u ''                            'reason': msg.get('reason')\<newline>''
     @ u ''                        }\<newline>''
     @ u ''                        for msg in messages\<newline>''
     @ u ''                    ]\<newline>''
     @ u ''                }\<newline>''
     @ u ''            else:\<newline>''
     @ u ''                return {\<newline>''
     @ u ''                    'success': False,\<newline>''
     @ u ''                    'error': result.get('message', 'Status check failed')\<newline>''
     @ u ''                }\<newline>''
     @ u ''                \<newline>''\<close>

definition py_base_code_8 :: ustr where
  \<open>py_base_code_8 =
     u ''        except requests.exceptions.RequestException as e:\<newline>''
     @ u ''            return {\<newline>''
     @ u ''                'success': False,\<newline>''
     @ u ''                'error': f'Network error: {str(e)}'\<newline>''
     @ u ''            }''\<close>

definition py_base_code :: ustr where
  "py_base_code =
     py_base_code_1 @ py_base_code_2 @ py_base_code_3 @ py_base_code_4 @ py_base_code_5
     @ py_base_code_6 @ py_base_code_7 @ py_base_code_8"

definition py_django_code_1 :: ustr where
  \<open>py_django_code_1 =
     u ''\<newline>''
     @ u ''\<newline>''
     @ u ''# Django integration\<newline>''
     @ u ''from django.conf import settings\<newline>''
     @ u ''from django.core.cache import cache\<newline>''
     @ u ''\<newline>''
     @ u ''class DjangoBaaSMessageService(BaaSMessageService):\<newline>''
     @ u ''    def __init__(self, project_id: str = None):\<newline>''
     @ u ''        api_key = getattr(settings, 'BAAS_API_KEY', None)\<newline>''
     @ u ''        project_id = project_id or getattr(settings, 'BAAS_PROJECT_ID', None)\<newline>''
     @ u ''        \<newline>''
     @ u ''        if not api_key:\<newline>''
     @ u ''            raise ValueError("BAAS_API_KEY must be set in Django settings")\<newline>''
     @ u ''        if not project_id:\<newline>''
     @ u ''            raise ValueError("BAAS_PROJECT_ID must be provided or set in Django settings")\<newline>''
     @ u ''            \<newline>''
     @ u ''        super().__init__(api_key, project_id)\<newline>''
     @ u ''    \<newline>''
     @ u ''    def send_sms_cached(self, recipients: List[Dict], message: str, callback_number: str, cache_timeout: int = 300) -> Dict:\<newline>''
     @ u ''        """Send SMS with caching for duplicate prevention"""\<newline>''
     @ u ''        cache_key = f"baas_sms_{hash(str(recipients))}{hash(message)}"\<newline>''
     @ u ''        \<newline>''
     @ u ''        cached_result = cache.get(cache_key)\<newline>''
     @ u ''        if cached_result:\<newline>''
     @ u ''            return cached_result\<newline>''
     @ u ''            \<newline>''
     @ u ''        result = self.send_sms(recipients, message, callback_number)\<newline>''
     @ u ''        \<newline>''
     @ u ''        if result.get('success'):\<newline>''
     @ u ''            cache.set(cache_key, result, cache_timeout)\<newline>''\<close>

definition py_django_code_2 :: ustr where
  \<open>py_django_code_2 =
     u ''            \<newline>''
     @ u ''        return result''\<close>

definition py_django_code :: ustr where
  "py_django_code =
     py_django_code_1 @ py_django_code_2"

definition py_fastapi_code_1 :: ustr where
  \<open>py_fastapi_code_1 =
     u ''\<newline>''
     @ u ''\<newline>''
     @ u ''# FastAPI integration\<newline>''
     @ u ''from fastapi import HTTPException, Depends\<newline>''
     @ u ''from pydantic import BaseModel\<newline>''
     @ u ''from typing import List\<newline>''
     @ u ''\<newline>''
     @ u ''class SMSRequest(BaseModel):\<newline>''
     @ u ''    recipients: List[Dict[str, str]]\<newline>''
     @ u ''    message: str\<newline>''
     @ u ''    callback_number: str\<newline>''
     @ u ''\<newline>''
     @ u ''class MMSRequest(BaseModel):\<newline>''
     @ u ''    recipients: List[Dict[str, str]]\<newline>''
     @ u ''    message: str\<newline>''
     @ u ''    subject: str\<newline>''
     @ u ''    callback_number: str\<newline>''
     @ u ''    image_urls: Optional[List[str]] = []\<newline>''
     @ u ''\<newline>''
     @ u ''def get_baas_service():\<newline>''
     @ u ''    """FastAPI dependency for BaaS service"""\<newline>''
     @ u ''    import os\<newline>''
     @ u ''    api_key = os.getenv('BAAS_API_KEY')\<newline>''
     @ u ''    project_id = os.getenv('BAAS_PROJECT_ID')\<newline>''
     @ u ''    \<newline>''
     @ u ''    if not api_key or not project_id:\<newline>''
     @ u ''        raise HTTPException(status_code=500, detail="BaaS configuration missing")\<newline>''
     @ u ''        \<newline>''
     @ u ''    return BaaSMessageService(api_key, project_id)\<newline>''
     @ u ''\<newline>''\<close>

definition py_fastapi_code_2 :: ustr where
  \<open>py_fastapi_code_2 =
     u ''# FastAPI route examples\<newline>''
     @ u ''async def send_sms_endpoint(request: SMSRequest, service: BaaSMessageService = Depends(get_baas_service)):\<newline>''
     @ u ''    result = service.send_sms(request.recipients, request.message, request.callback_number)\<newline>''
     @ u ''    \<newline>''
     @ u ''    if not result.get('success'):\<newline>''
     @ u ''        raise HTTPException(status_code=400, detail=result.get('error'))\<newline>''
     @ u ''        \<newline>''
     @ u ''    return result''\<close>

definition py_fastapi_code :: ustr where
  "py_fastapi_code =
     py_fastapi_code_1 @ py_fastapi_code_2"

definition py_examples_code_1 :: ustr where
  \<open>py_examples_code_1 =
     u ''\<newline>''
     @ u ''\<newline>''
     @ u ''# Usage Examples\<newline>''
     @ u ''if __name__ == "__main__":\<newline>''
     @ u ''    import os\<newline>''
     @ u ''    \<newline>''
     @ u ''    # Configuration from environment variables\<newline>''
     @ u ''    api_key = os.getenv('BAAS_API_KEY', 'your-api-key')\<newline>''
     @ u ''    project_id = os.getenv('BAAS_PROJECT_ID', 'your-project-id')\<newline>''
     @ u ''    \<newline>''
     @ u ''    # Create service instance\<newline>''
     @ u ''    service = BaaSMessageService(api_key, project_id)\<newline>''
     @ u ''    \<newline>''
     @ u ''    # Example 1: Send SMS\<newline>''
     @ u ''    recipients = [\<newline>''
     @ u ''        {"phone_number": "010-1234-5678", "member_code": "user_001"}\<newline>''
     @ u ''    ]\<newline>''
     @ u ''    \<newline>''
     @ u ''    sms_result = service.send_sms(\<newline>''
     @ u ''        recipients,\<newline>''
     @ u ''        "'' @ [0xC548, 0xB155, 0xD558, 0xC138, 0xC694] @ u ''! '' @ [0xC778, 0xC99D, 0xBC88, 0xD638, 0xB294] @ u '' 123456'' @ [0xC785, 0xB2C8, 0xB2E4] @ u ''.",\<newline>''
     @ u ''        "02-1234-5678"\<newline>''
     @ u ''    )\<newline>''
     @ u ''    print("SMS Result:", sms_result)\<newline>''
     @ u ''    \<newline>''
     @ u ''    # Example 2: Send MMS\<newline>''
     @ u ''    if sms_result.get('success'):\<newline>''
     @ u ''        mms_result = service.send_mms(\<newline>''
     @ u ''            recipients,\<newline>''
     @ u ''            "'' @ [0xC774, 0xBBF8, 0xC9C0, 0xAC00] @ u '' '' @ [0xD3EC, 0xD568, 0xB41C] @ u '' MMS'' @ [0xC785, 0xB2C8, 0xB2E4] @ u ''.",\<newline>''\<close>

definition py_examples_code_2 :: ustr where
  \<open>py_examples_code_2 =
     u ''            "MMS '' @ [0xD14C, 0xC2A4, 0xD2B8] @ u ''",\<newline>''
     @ u ''            "02-1234-5678",\<newline>''
     @ u ''            ["https://example.com/image.jpg"]\<newline>''
     @ u ''        )\<newline>''
     @ u ''        print("MMS Result:", mms_result)\<newline>''
     @ u ''        \<newline>''
     @ u ''        # Example 3: Check status\<newline>''
     @ u ''        if mms_result.get('success'):\<newline>''
     @ u ''            status = service.get_message_status(mms_result['group_id'])\<newline>''
     @ u ''            print("Message Status:", status)''\<close>

definition py_examples_code :: ustr where
  "py_examples_code =
     py_examples_code_1 @ py_examples_code_2"

definition generate_python_code :: "ustr option \<Rightarrow> bool \<Rightarrow> ustr" where
  "generate_python_code framework include_examples =
     py_base_code
     @ (if framework = Some (u ''django'') then py_django_code
        else if framework = Some (u ''fastapi'') then py_fastapi_code else [])
     @ (if include_examples then py_examples_code else [])"

subsection \<open>PHP\<close>

definition php_base_code_1 :: ustr where
  \<open>php_base_code_1 =
     u ''<?php\<newline>''
     @ u ''/**\<newline>''
     @ u '' * BaaS SMS/MMS Direct API Client\<newline>''
     @ u '' * Directly calls https://api.aiapp.link without MCP\<newline>''
     @ u '' */\<newline>''
     @ u ''\<newline>''\<close>

definition php_base_code_2 :: ustr where
  \<open>php_base_code_2 =
     u ''class BaaSMessageService {\<newline>''
     @ u ''    private $apiKey;\<newline>''
     @ u ''    private $projectId;\<newline>''
     @ u ''    private $baseUrl;\<newline>''
     @ u ''    \<newline>''
     @ u ''    public function __construct($apiKey, $projectId, $baseUrl = 'https://api.aiapp.link') {\<newline>''
     @ u ''        $this->apiKey = $apiKey;\<newline>''
     @ u ''        $this->projectId = $projectId;\<newline>''
     @ u ''        $this->baseUrl = $baseUrl;\<newline>''
     @ u ''    }\<newline>''
     @ u ''    \<newline>''
     @ u ''    /**\<newline>''
     @ u ''     * Send SMS message\<newline>''
     @ u ''     * @param array $recipients Array of ['phone_number' => '' @ [39, 39] @ u '', 'member_code' => '' @ [39, 39] @ u '']\<newline>''
     @ u ''     * @param string $message Message content (max 2000 chars)\<newline>''
     @ u ''     * @param string $callbackNumber Sender callback number\<newline>''
     @ u ''     * @return array Response array\<newline>''
     @ u ''     */\<newline>''
     @ u ''    public function sendSMS($recipients, $message, $callbackNumber) {\<newline>''
     @ u ''        $payload = [\<newline>''
     @ u ''            'recipients' => $recipients,\<newline>''
     @ u ''            'message' => $message,\<newline>''
     @ u ''            'callback_number' => $callbackNumber,\<newline>''
     @ u ''            'project_id' => $this->projectId,\<newline>''
     @ u ''            'channel_id' => 1\<newline>''
     @ u ''        ];\<newline>''
     @ u ''        \<newline>''
     @ u ''        return $this->makeRequest('/message/sms', $payload);\<newline>''
     @ u ''    }\<newline>''
     @ u ''    \<newline>''\<close>

definition php_base_code_3 :: ustr where
  \<open>php_base_code_3 =
     u ''    /**\<newline>''
     @ u ''     * Send MMS message with images\<newline>''
     @ u ''     * @param array $recipients Array of recipients\<newline>''
     @ u ''     * @param string $message Message content\<newline>''
     @ u ''     * @param string $subject MMS subject (max 40 chars)\<newline>''
     @ u ''     * @param string $callbackNumber Sender callback number\<newline>''
     @ u ''     * @param array $imageUrls Array of image URLs (max 5)\<newline>''
     @ u ''     * @return array Response array\<newline>''
     @ u ''     */\<newline>''
     @ u ''    public function sendMMS($recipients, $message, $subject, $callbackNumber, $imageUrls = []) {\<newline>''
     @ u ''        $payload = [\<newline>''
     @ u ''            'recipients' => $recipients,\<newline>''
     @ u ''            'message' => $message,\<newline>''
     @ u ''            'subject' => $subject,\<newline>''
     @ u ''            'callback_number' => $callbackNumber,\<newline>''
     @ u ''            'project_id' => $this->projectId,\<newline>''
     @ u ''            'channel_id' => 3,\<newline>''
     @ u ''            'img_url_list' => $imageUrls\<newline>''
     @ u ''        ];\<newline>''
     @ u ''        \<newline>''
     @ u ''        return $this->makeRequest('/message/mms', $payload);\<newline>''
     @ u ''    }\<newline>''
     @ u ''    \<newline>''
     @ u ''    /**\<newline>''
     @ u ''     * Check message delivery status\<newline>''
     @ u ''     * @param int $groupId Message group ID\<newline>''
     @ u ''     * @return array Status information\<newline>''
     @ u ''     */\<newline>''
     @ u ''    public function getMessageStatus($groupId) {\<newline>''
     @ u ''        $url = "/message/send_history/sms/{$groupId}/messages";\<newline>''\<close>

definition php_base_code_4 :: ustr where
  \<open>php_base_code_4 =
     u ''        return $this->makeRequest($url, null, 'GET');\<newline>''
     @ u ''    }\<newline>''
     @ u ''    \<newline>''
     @ u ''    /**\<newline>''
     @ u ''     * Make HTTP request to BaaS API\<newline>''
     @ u ''     * @param string $endpoint API endpoint\<newline>''
     @ u ''     * @param array|null $payload Request payload\<newline>''
     @ u ''     * @param string $method HTTP method\<newline>''
     @ u ''     * @return array Response array\<newline>''
     @ u ''     */\<newline>''
     @ u ''    private function makeRequest($endpoint, $payload = null, $method = 'POST') {\<newline>''
     @ u ''        $headers = [\<newline>''
     @ u ''            'X-API-KEY: ' . $this->apiKey,\<newline>''
     @ u ''            'Content-Type: application/json'\<newline>''
     @ u ''        ];\<newline>''
     @ u ''        \<newline>''
     @ u ''        $ch = curl_init();\<newline>''
     @ u ''        curl_setopt($ch, CURLOPT_URL, $this->baseUrl . $endpoint);\<newline>''
     @ u ''        curl_setopt($ch, CURLOPT_HTTPHEADER, $headers);\<newline>''
     @ u ''        curl_setopt($ch, CURLOPT_RETURNTRANSFER, true);\<newline>''
     @ u ''        curl_setopt($ch, CURLOPT_TIMEOUT, 30);\<newline>''
     @ u ''        \<newline>''
     @ u ''        if ($method === 'POST') {\<newline>''
     @ u ''            curl_setopt($ch, CURLOPT_POST, true);\<newline>''
     @ u ''            if ($payload) {\<newline>''
     @ u ''                curl_setopt($ch, CURLOPT_POSTFIELDS, json_encode($payload));\<newline>''
     @ u ''            }\<newline>''
     @ u ''        }\<newline>''
     @ u ''        \<newline>''
     @ u ''        $response = curl_exec($ch);\<newline>''\<close>

definition php_base_code_5 :: ustr where
  \<open>php_base_code_5 =
     u ''        $httpCode = curl_getinfo($ch, CURLINFO_HTTP_CODE);\<newline>''
     @ u ''        $error = curl_error($ch);\<newline>''
     @ u ''        curl_close($ch);\<newline>''
     @ u ''        \<newline>''
     @ u ''        if ($response === false || !empty($error)) {\<newline>''
     @ u ''            return [\<newline>''
     @ u ''                'success' => false,\<newline>''
     @ u ''                'error' => 'cURL error: ' . $error\<newline>''
     @ u ''            ];\<newline>''
     @ u ''        }\<newline>''
     @ u ''        \<newline>''
     @ u ''        $result = json_decode($response, true);\<newline>''
     @ u ''        \<newline>''
     @ u ''        if ($httpCode === 200 && isset($result['success']) && $result['success']) {\<newline>''
     @ u ''            return [\<newline>''
     @ u ''                'success' => true,\<newline>''
     @ u ''                'group_id' => $result['data']['group_id'] ?? null,\<newline>''
     @ u ''                'message' => 'Request successful'\<newline>''
     @ u ''            ];\<newline>''
     @ u ''        } else {\<newline>''
     @ u ''            return [\<newline>''
     @ u ''                'success' => false,\<newline>''
     @ u ''                'error' => $result['message'] ?? 'Request failed',\<newline>''
     @ u ''                'error_code' => $result['error_code'] ?? null\<newline>''
     @ u ''            ];\<newline>''
     @ u ''        }\<newline>''
     @ u ''    }\<newline>''
     @ u ''}''\<close>

definition php_base_code :: ustr where
  "php_base_code =
     php_base_code_1 @ php_base_code_2 @ php_base_code_3 @ php_base_code_4 @ php_base_code_5"

definition php_laravel_code_1 :: ustr where
  \<open>php_laravel_code_1 =
     u ''\<newline>''
     @ u ''\<newline>''
     @ u ''/**\<newline>''
     @ u '' * Laravel Service Provider integration\<newline>''
     @ u '' */\<newline>''
     @ u ''namespace App'' @ [92] @ u ''Services;\<newline>''
     @ u ''\<newline>''
     @ u ''use Illuminate'' @ [92] @ u ''Support'' @ [92] @ u ''Facades'' @ [92] @ u ''Config;\<newline>''
     @ u ''use Illuminate'' @ [92] @ u ''Support'' @ [92] @ u ''Facades'' @ [92] @ u ''Cache;\<newline>''
     @ u ''\<newline>''
     @ u ''class LaravelBaaSMessageService extends BaaSMessageService {\<newline>''
     @ u ''    public function __construct($projectId = null) {\<newline>''
     @ u ''        $apiKey = Config::get('services.baas.api_key');\<newline>''
     @ u ''        $projectId = $projectId ?: Config::get('services.baas.project_id');\<newline>''
     @ u ''        \<newline>''
     @ u ''        if (!$apiKey || !$projectId) {\<newline>''
     @ u ''            throw new '' @ [92] @ u ''Exception('BaaS configuration missing in config/services.php');\<newline>''
     @ u ''        }\<newline>''
     @ u ''        \<newline>''
     @ u ''        parent::__construct($apiKey, $projectId);\<newline>''
     @ u ''    }\<newline>''
     @ u ''    \<newline>''
     @ u ''    /**\<newline>''
     @ u ''     * Send SMS with Laravel caching\<newline>''
     @ u ''     */\<newline>''
     @ u ''    public function sendSMSCached($recipients, $message, $callbackNumber, $cacheMinutes = 5) {\<newline>''
     @ u ''        $cacheKey = 'baas_sms_' . md5(serialize($recipients) . $message);\<newline>''
     @ u ''        \<newline>''
     @ u ''        return Cache::remember($cacheKey, $cacheMinutes, function() use ($recipients, $message, $callbackNumber) {\<newline>''
     @ u ''            return $this->sendSMS($recipients, $message, $callbackNumber);\<newline>''\<close>

definition php_laravel_code_2 :: ustr where
  \<open>php_laravel_code_2 =
     u ''        });\<newline>''
     @ u ''    }\<newline>''
     @ u ''}\<newline>''
     @ u ''\<newline>''
     @ u ''// Add to config/services.php:\<newline>''
     @ u ''/*\<newline>''
     @ [39] @ u ''baas' => [\<newline>''
     @ u ''    'api_key' => env('BAAS_API_KEY'),\<newline>''
     @ u ''    'project_id' => env('BAAS_PROJECT_ID'),\<newline>''
     @ u ''],\<newline>''
     @ u ''*/''\<close>

definition php_laravel_code :: ustr where
  "php_laravel_code =
     php_laravel_code_1 @ php_laravel_code_2"

definition php_examples_code_1 :: ustr where
  \<open>php_examples_code_1 =
     u ''\<newline>''
     @ u ''\<newline>''
     @ u ''// Usage Examples\<newline>''
     @ u ''\<newline>''
     @ u ''// Basic usage\<newline>''
     @ u ''$apiKey = $_ENV['BAAS_API_KEY'] ?? 'your-api-key';\<newline>''
     @ u ''$projectId = $_ENV['BAAS_PROJECT_ID'] ?? 'your-project-id';\<newline>''
     @ u ''\<newline>''
     @ u ''$service = new BaaSMessageService($apiKey, $projectId);\<newline>''
     @ u ''\<newline>''
     @ u ''// Example 1: Send SMS\<newline>''
     @ u ''$recipients = [\<newline>''
     @ u ''    ['phone_number' => '010-1234-5678', 'member_code' => 'user_001']\<newline>''
     @ u ''];\<newline>''
     @ u ''\<newline>''
     @ u ''$smsResult = $service->sendSMS(\<newline>''
     @ u ''    $recipients,\<newline>''
     @ u ''    '' @ [39, 0xC548, 0xB155, 0xD558, 0xC138, 0xC694] @ u ''! '' @ [0xC778, 0xC99D, 0xBC88, 0xD638, 0xB294] @ u '' 123456'' @ [0xC785, 0xB2C8, 0xB2E4] @ u ''.',\<newline>''
     @ u ''    '02-1234-5678'\<newline>''
     @ u '');\<newline>''
     @ u ''\<newline>''
     @ u ''echo "SMS Result: " . json_encode($smsResult) . "'' @ [92] @ u ''n";\<newline>''
     @ u ''\<newline>''
     @ u ''// Example 2: Send MMS\<newline>''
     @ u ''if ($smsResult['success']) {\<newline>''
     @ u ''    $mmsResult = $service->sendMMS(\<newline>''
     @ u ''        $recipients,\<newline>''
     @ u ''        '' @ [39, 0xC774, 0xBBF8, 0xC9C0, 0xAC00] @ u '' '' @ [0xD3EC, 0xD568, 0xB41C] @ u '' MMS'' @ [0xC785, 0xB2C8, 0xB2E4] @ u ''.',\<newline>''
     @ u ''        'MMS '' @ [0xD14C, 0xC2A4, 0xD2B8, 39] @ u '',\<newline>''
     @ u ''        '02-1234-5678',\<newline>''\<close>

definition php_examples_code_2 :: ustr where
  \<open>php_examples_code_2 =
     u ''        ['https://example.com/image.jpg']\<newline>''
     @ u ''    );\<newline>''
     @ u ''    \<newline>''
     @ u ''    echo "MMS Result: " . json_encode($mmsResult) . "'' @ [92] @ u ''n";\<newline>''
     @ u ''    \<newline>''
     @ u ''    // Example 3: Check status\<newline>''
     @ u ''    if ($mmsResult['success'] && isset($mmsResult['group_id'])) {\<newline>''
     @ u ''        $status = $service->getMessageStatus($mmsResult['group_id']);\<newline>''
     @ u ''        echo "Status: " . json_encode($status) . "'' @ [92] @ u ''n";\<newline>''
     @ u ''    }\<newline>''
     @ u ''}\<newline>''
     @ u ''\<newline>''
     @ u ''?>''\<close>

definition php_examples_code :: ustr where
  "php_examples_code =
     php_examples_code_1 @ php_examples_code_2"

definition generate_php_code :: "ustr option \<Rightarrow> bool \<Rightarrow> ustr" where
  "generate_php_code framework include_examples =
     php_base_code
     @ (if framework = Some (u ''laravel'') then php_laravel_code else [])
     @ (if include_examples then php_examples_code else [])"

section \<open>String operations of the runtime\<close>

text \<open>
  \<open>str.title()\<close> on an ASCII string: a letter is put in upper case when the character before
  it is not a letter, in lower case otherwise.
\<close>

fun title_from :: "bool \<Rightarrow> ustr \<Rightarrow> ustr" where
  "title_from previous_is_cased [] = []"
| "title_from previous_is_cased (c # cs) =
     (if 97 \<le> c \<and> c \<le> 122 then
        (if previous_is_cased then c else c - 32) # title_from True cs
      else if 65 \<le> c \<and> c \<le> 90 then
        (if previous_is_cased then c + 32 else c) # title_from True cs
      else c # title_from False cs)"

definition py_title :: "env \<Rightarrow> ustr \<Rightarrow> ustr" where
  "py_title ev s = (if list_all (\<lambda>c. c < 128) s then title_from False s else unicode_title ev s)"

text \<open>\<open>str.strip()\<close> removes the white space of \<open>str.isspace\<close> at both ends.\<close>

definition py_isspace :: "nat \<Rightarrow> bool" where
  "py_isspace c =
     ((9 \<le> c \<and> c \<le> 13) \<or> (28 \<le> c \<and> c \<le> 32) \<or> c = 0x85 \<or> c = 0xA0 \<or> c = 0x1680
      \<or> (0x2000 \<le> c \<and> c \<le> 0x200A) \<or> c = 0x2028 \<or> c = 0x2029 \<or> c = 0x202F
      \<or> c = 0x205F \<or> c = 0x3000)"

definition py_strip :: "ustr \<Rightarrow> ustr" where
  "py_strip s = rev (dropWhile py_isspace (rev (dropWhile py_isspace s)))"

text \<open>
  \<open>s.replace(old, new)\<close>: the occurrences of \<open>old\<close> from left to right,
    without
  overlap. The counter is the number of characters of the occurrence still to skip.
\<close>

fun replace_from :: "ustr \<Rightarrow> ustr \<Rightarrow> nat \<Rightarrow> ustr \<Rightarrow> ustr" where
  "replace_from old new k [] = []"
| "replace_from old new k (c # cs) =
     (if k > 0 then replace_from old new (k - 1) cs
      else if take (length old) (c # cs) = old then new @ replace_from old new (length old - 1) cs
      else c # replace_from old new 0 cs)"

definition py_replace :: "ustr \<Rightarrow> ustr \<Rightarrow> ustr \<Rightarrow> ustr" where
  "py_replace old new s =
     (if old = [] then new @ concat (map (\<lambda>c. c # new) s) else replace_from old new 0 s)"

text \<open>\<open>x.strip()\<close> and \<open>x.replace\<close> exist on a \<open>str\<close> only.\<close>

definition as_str :: "json \<Rightarrow> py_exn + ustr" where
  "as_str x = (case x of JStr s \<Rightarrow> Inr s | _ \<Rightarrow> Inl AttributeError)"

text \<open>
  \<open>re.findall(f'```{language}(.*?)```', text, re.DOTALL)\<close>. When the language has no
  metacharacter of regular expressions, the pattern is the opening fence with the language,
  the shortest text up to the next fence,
    and that fence: the scan below. \<open>None\<close> is the
  state outside a block, \<open>Some acc\<close> the state inside one.
\<close>

definition fence :: ustr where
  "fence = [96, 96, 96]"

fun fenced_scan :: "ustr \<Rightarrow> nat \<Rightarrow> ustr option \<Rightarrow> ustr \<Rightarrow> ustr list" where
  "fenced_scan opener k st [] = []"
| "fenced_scan opener k st (c # cs) =
     (if k > 0 then fenced_scan opener (k - 1) st cs
      else case st of
        None \<Rightarrow>
          if take (length opener) (c # cs) = opener
          then fenced_scan opener (length opener - 1) (Some []) cs
          else fenced_scan opener 0 None cs
      | Some acc \<Rightarrow>
          if take 3 (c # cs) = fence then acc # fenced_scan opener 2 None cs
          else fenced_scan opener 0 (Some (acc @ [c])) cs)"

definition regex_special :: "nat list" where
  "regex_special = [46, 94, 36, 42, 43, 63, 123, 125, 91, 93, 92, 124, 40, 41]"

definition py_findall :: "env \<Rightarrow> ustr \<Rightarrow> ustr \<Rightarrow> py_exn + json list" where
  "py_findall ev language text =
     (if list_all (\<lambda>c. c \<notin> set regex_special) language
      then Inr (map JStr (fenced_scan (fence @ language) 0 None text))
      else bind (re_findall ev (fence @ language @ u ''(.*?)'' @ fence) text)
             (\<lambda>blocks. Inr (map JStr blocks)))"

text \<open>The \<open>in\<close> of Python on strings.\<close>

fun has_substring :: "ustr \<Rightarrow> ustr \<Rightarrow> bool" where
  "has_substring sub [] = (sub = [])"
| "has_substring sub (c # cs) = (take (length sub) (c # cs) = sub \<or> has_substring sub cs)"

section \<open>Code from templates: \<open>generate_direct_api_code\<close>\<close>

definition templates_base_url :: ustr where
  "templates_base_url = u ''https://cdn.baas-templates.com/sms-mms''"

definition get_request :: "ustr \<Rightarrow> request" where
  "get_request url = \<lparr>req_method = GET, req_url = url, req_json = None,
    req_headers = []\<rparr>"

text \<open>The request for the template of a language and framework, both in lower case.\<close>

definition template_request :: "ustr \<Rightarrow> ustr option \<Rightarrow> request" where
  "template_request language framework =
     get_request (templates_base_url @ u ''/'' @ template_path language framework @ u ''.md'')"

text \<open>The chain \<open>if language == ... elif ... else\<close> of both fallbacks.\<close>

definition local_generation :: "ustr \<Rightarrow> ustr option \<Rightarrow> bool \<Rightarrow> ustr option" where
  "local_generation language framework include_examples =
     (if language = u ''javascript'' \<or> language = u ''js''
        then Some (generate_javascript_code framework include_examples)
      else if language = u ''python'' \<or> language = u ''py''
        then Some (generate_python_code framework include_examples)
      else if language = u ''php''
        then Some (generate_php_code framework include_examples)
      else None)"

text \<open>
  The result of the inner \<open>try\<close> statement: the tool returns at once,
    or goes on with the
  code and with \<open>template_content\<close> bound or not.
\<close>

datatype fetched = Return json | Code ustr bool

text \<open>
  The \<open>try\<close> block. An exception leaves it with \<open>template_content\<close> bound when it was raised
  after the assignment.
\<close>

definition cdn_attempt ::
  "env \<Rightarrow> ustr \<Rightarrow> ustr option \<Rightarrow> bool \<Rightarrow> reply \<Rightarrow> (py_exn \<times> bool) + fetched" where
  "cdn_attempt ev language framework include_examples r =
     (case r of
        Raise e \<Rightarrow> Inl (e, False)
      | Response status_code text body \<Rightarrow>
          if status_code = 200 then
            (case bind (py_findall ev language text) (\<lambda>code_blocks.
                    if code_blocks \<noteq> [] then bind (as_str (hd code_blocks)) (\<lambda>b. Inr (py_strip b))
                    else Inr text)
             of Inl e \<Rightarrow> Inl (e, True)
              | Inr code \<Rightarrow> Inr (Code code True))
          else
            (case local_generation language framework include_examples of
               Some code \<Rightarrow> Inr (Code code False)
             | None \<Rightarrow> Inr (Return (JObj
                 [(u ''success'', JBool False),
                  (u ''error'', JStr ([67, 68, 78, 0xC5D0, 0xC11C, 32, 0xD15C, 0xD50C, 0xB9BF,
                    0xC744, 32, 0xAC00, 0xC838, 0xC62C, 32, 0xC218, 32, 0xC5C6, 0xACE0, 44, 32,
                      0xC5B8, 0xC5B4, 32, 39]
                      @ language
                      @ [39, 0xB294, 32, 0xB85C, 0xCEEC, 32, 0xC0DD, 0xC131, 0xC744, 32, 0xC9C0,
                        0xC6D0, 0xD558, 0xC9C0, 32, 0xC54A, 0xC2B5, 0xB2C8, 0xB2E4])),
                  (u ''supported_languages'',
                     JList [JStr (u ''javascript''), JStr (u ''python''), JStr (u ''php'')]),
                  (u ''error_code'', JStr (u ''TEMPLATE_UNAVAILABLE''))]))))"

text \<open>The \<open>except Exception as cdn_error\<close> of the inner statement.\<close>

definition fetch_template :: "env \<Rightarrow> ustr \<Rightarrow> ustr option \<Rightarrow> bool \<Rightarrow> reply \<Rightarrow> fetched" where
  "fetch_template ev language framework include_examples r =
     (case cdn_attempt ev language framework include_examples r of
        Inr f \<Rightarrow> f
      | Inl (cdn_error, bound) \<Rightarrow>
          (case local_generation language framework include_examples of
             Some code \<Rightarrow> Code code bound
           | None \<Rightarrow> Return (JObj
               [(u ''success'', JBool False),
                (u ''error'', JStr ([67, 68, 78, 32, 0xC624, 0xB958, 32, 0xBC0F, 32, 0xB85C,
                  0xCEEC, 32, 0xC0DD, 0xC131, 32, 0xBD88, 0xAC00, 58, 32]
                      @ exc_str ev cdn_error)),
                (u ''error_code'', JStr (u ''GENERATION_FAILED''))])))"

definition extensions :: "(ustr \<times> ustr) list" where
  "extensions = [(u ''javascript'', u ''js''), (u ''js'', u ''js''), (u ''python'', u ''py''),
                 (u ''py'', u ''py''), (u ''php'', u ''php'')]"

definition config_instructions :: "(ustr \<times> json) list" where
  "config_instructions =
     (case JObj
         [(u ''javascript'', JObj
            [(u ''env_vars'', JList
               [JStr (u ''BAAS_API_KEY''),
                JStr (u ''BAAS_PROJECT_ID'')]),
             (u ''install'', JStr (u ''npm install (dependencies included in template)'')),
             (u ''usage'', JStr (u ''Import and instantiate BaaSMessageService class''))]),
          (u ''python'', JObj
            [(u ''env_vars'', JList
               [JStr (u ''BAAS_API_KEY''),
                JStr (u ''BAAS_PROJECT_ID'')]),
             (u ''install'', JStr (u ''pip install requests'')),
             (u ''usage'', JStr (u ''Import and instantiate BaaSMessageService class''))]),
          (u ''php'', JObj
            [(u ''env_vars'', JList
               [JStr (u ''BAAS_API_KEY''),
                JStr (u ''BAAS_PROJECT_ID'')]),
             (u ''install'', JStr (u ''cURL extension required (usually included)'')),
             (u ''usage'',
               JStr (u ''Include file and instantiate BaaSMessageService class''))])] of JObj kvs \<Rightarrow> kvs | _ \<Rightarrow> [])"

definition msg_code_failed :: ustr where
  "msg_code_failed =
     [0xCF54, 0xB4DC, 32, 0xC0DD, 0xC131, 0xC5D0, 32, 0xC2E4, 0xD328, 0xD588, 0xC2B5, 0xB2C8,
       0xB2E4, 58, 32]"

definition generate_direct_api_code ::
  "env \<Rightarrow> ustr \<Rightarrow> ustr option \<Rightarrow> bool \<Rightarrow> json \<times> request list" where
  "generate_direct_api_code ev language0 framework0 include_examples =
     (let language = py_lower ev language0;
          framework = lower_opt ev framework0;
          req = template_request language framework;
          template_url = req_url req
      in (try_except ev msg_code_failed (u ''CODE_GENERATION_ERROR'')
           (case fetch_template ev language framework include_examples (net ev [] req) of
              Return result \<Rightarrow> Inr result
            | Code code bound \<Rightarrow>
                let extension = (case map_of extensions language of Some e \<Rightarrow> e | None \<Rightarrow> language);
                    filename = u ''baas-sms-service.'' @ extension
                in Inr (JObj
                  [(u ''success'', JBool True),
                   (u ''language'', JStr language),
                   (u ''framework'', opt_json framework),
                   (u ''code'', JStr code),
                   (u ''filename'', JStr filename),
                   (u ''description'', JStr (py_title ev language
                     @ u '' BaaS SMS service for direct API calls'')),
                   (u ''source'',
                      JStr (if bound then u ''CDN template'' else u ''Local generation'')),
                   (u ''template_url'', JStr template_url),
                   (u ''configuration'',
                      case map_of config_instructions language of Some c \<Rightarrow> c | None \<Rightarrow> JObj []),
                   (u ''api_endpoint'', JStr (u ''https://api.aiapp.link'')),
                   (u ''message'', JStr (py_title ev language
                      @ [32, 0xCF54, 0xB4DC, 0xAC00, 32, 0xC131, 0xACF5, 0xC801, 0xC73C, 0xB85C,
                        32, 0xC0DD, 0xC131, 0xB418, 0xC5C8, 0xC2B5, 0xB2C8, 0xB2E4, 32, 40,
                          0xC18C, 0xC2A4, 58, 32]
                      @ (if bound then u ''CDN'' else [0xB85C, 0xCEEC]) @ u '')''))])),
          [req]))"

text \<open>The answer to the template request of the tool, and whether the fetch failed.\<close>

definition template_reply :: "env \<Rightarrow> ustr \<Rightarrow> ustr option \<Rightarrow> reply" where
  "template_reply ev language framework =
     net ev [] (template_request (py_lower ev language) (lower_opt ev framework))"

definition fetch_failed :: "reply \<Rightarrow> bool" where
  "fetch_failed r =
     (case r of Raise e \<Rightarrow> True | Response status_code text body \<Rightarrow> status_code \<noteq> 200)"

section \<open>Project templates: \<open>create_message_service_template\<close>\<close>

definition dict_json :: "(ustr \<times> ustr) list \<Rightarrow> json" where
  "dict_json d = JObj (map (\<lambda>kv. (fst kv, JStr (snd kv))) d)"

text \<open>\<open>project_config.get(key, default)\<close>\<close>

definition config_get :: "(ustr \<times> ustr) list \<Rightarrow> ustr \<Rightarrow> ustr \<Rightarrow> ustr" where
  "config_get project_config k d = (case map_of project_config k of Some v \<Rightarrow> v | None \<Rightarrow> d)"

text \<open>The three \<open>code.replace\<close> of the placeholders,
  in the order of the source.\<close>

definition customize :: "ustr \<Rightarrow> ustr \<Rightarrow> ustr \<Rightarrow> ustr \<Rightarrow> ustr" where
  "customize project_id default_callback company_name code =
     py_replace (u ''Your Company'') company_name
       (py_replace (u ''02-1234-5678'') default_callback
          (py_replace (u ''your-project-id'') project_id code))"

text \<open>The three replacements in the helpers template.\<close>

definition fill_helpers :: "ustr \<Rightarrow> ustr \<Rightarrow> ustr \<Rightarrow> ustr \<Rightarrow> ustr" where
  "fill_helpers project_id default_callback company_name helpers_template =
     py_replace (u ''{{default_callback}}'') default_callback
       (py_replace (u ''{{project_id}}'') project_id
          (py_replace (u ''{{company_name}}'') company_name helpers_template))"

text \<open>The f-string \<open>project_helpers\<close> of the JavaScript fallback.\<close>

definition js_project_helpers :: "ustr \<Rightarrow> ustr \<Rightarrow> ustr \<Rightarrow> ustr" where
  \<open>js_project_helpers project_id default_callback company_name =
     u ''\<newline>''
     @ u ''// '' @ company_name @ u '' Project-Specific Helpers\<newline>''
     @ u ''const PROJECT_CONFIG = {\<newline>''
     @ u ''    PROJECT_ID: '' @ [39] @ project_id @ [39] @ u '',\<newline>''
     @ u ''    DEFAULT_CALLBACK: '' @ [39] @ default_callback @ [39] @ u '',\<newline>''
     @ u ''    COMPANY_NAME: '' @ [39] @ company_name @ [39] @ u ''\<newline>''
     @ u ''};\<newline>''
     @ u ''\<newline>''
     @ u ''// Pre-configured service instance\<newline>''
     @ u ''const messageService = new BaaSMessageService(\<newline>''
     @ u ''    process.env.BAAS_API_KEY || 'your-api-key',\<newline>''
     @ u ''    PROJECT_CONFIG.PROJECT_ID\<newline>''
     @ u '');\<newline>''
     @ u ''\<newline>''
     @ u ''// Helper functions for common use cases\<newline>''
     @ u ''async function sendVerificationSMS(phoneNumber, code, memberCode) {\<newline>''
     @ u ''    return await messageService.sendSMS(\<newline>''
     @ u ''        [{ phone_number: phoneNumber, member_code: memberCode }],\<newline>''
     @ u ''        `['' @ company_name @ [93, 32, 0xC778, 0xC99D, 0xBC88, 0xD638, 58, 32, 36,
       123, 99, 111, 100, 101, 125, 96, 44, 10]
     @ u ''        PROJECT_CONFIG.DEFAULT_CALLBACK\<newline>''
     @ u ''    );\<newline>''
     @ u ''}\<newline>''
     @ u ''\<newline>''
     @ u ''async function sendOrderConfirmation(phoneNumber, orderNumber, memberCode) {\<newline>''
     @ u ''    return await messageService.sendSMS(\<newline>''
     @ u ''        [{ phone_number: phoneNumber, member_code: memberCode }],\<newline>''
     @ u ''        `['' @ company_name @ [93, 32, 0xC8FC, 0xBB38, 0xC774, 32, 0xC644, 0xB8CC,
       0xB418, 0xC5C8, 0xC2B5, 0xB2C8, 0xB2E4, 46, 32, 0xC8FC, 0xBB38, 0xBC88, 0xD638, 58, 32,
         36, 123, 111, 114, 100, 101, 114, 78, 117, 109, 98, 101, 114, 125, 96, 44, 10]
     @ u ''        PROJECT_CONFIG.DEFAULT_CALLBACK\<newline>''
     @ u ''    );\<newline>''
     @ u ''}''\<close>

definition helpers_request :: "ustr \<Rightarrow> request" where
  "helpers_request language =
     get_request (u ''https://cdn.baas-templates.com/sms-mms/helpers/'' @ language
       @ u ''-project.md'')"

text \<open>
  The inner \<open>try\<close> statement: a 200 answer appends the filled template,
    any other answer
  appends nothing, an exception appends the JavaScript helpers for \<open>javascript\<close>.
\<close>

definition append_helpers :: "ustr \<Rightarrow> ustr \<Rightarrow> ustr \<Rightarrow> ustr \<Rightarrow> ustr \<Rightarrow> reply \<Rightarrow> ustr" where
  "append_helpers language project_id default_callback company_name code r =
     (case r of
        Response status_code text body \<Rightarrow>
          if status_code = 200
          then code @ [10, 10] @ fill_helpers project_id default_callback company_name text
          else code
      | Raise e \<Rightarrow>
          if language = u ''javascript''
          then code @ js_project_helpers project_id default_callback company_name
          else code)"

definition msg_template_failed :: ustr where
  "msg_template_failed =
     [0xD15C, 0xD50C, 0xB9BF, 32, 0xC0DD, 0xC131, 0xC5D0, 32, 0xC2E4, 0xD328, 0xD588, 0xC2B5,
       0xB2C8, 0xB2E4, 58, 32]"

definition create_message_service_template ::
  "env \<Rightarrow> (ustr \<times> ustr) list \<Rightarrow> ustr \<Rightarrow> ustr list option \<Rightarrow> json \<times> request list" where
  "create_message_service_template ev project_config language features0 =
     (let features = (case features0 of
                        None \<Rightarrow> [u ''sms'', u ''mms'',
                          u ''status_check''] | Some fs \<Rightarrow> fs);
          project_id = config_get project_config (u ''project_id'') (u ''your-project-id'');
          default_callback =
            config_get project_config (u ''default_callback'') (u ''02-1234-5678'');
          company_name = config_get project_config (u ''company_name'') (u ''Your Company'');
          base = generate_direct_api_code ev language None True;
          base_result = fst base
      in (case dict_get base_result (u ''success'') JNull of
            Inl e \<Rightarrow>
              (try_except ev msg_template_failed (u ''TEMPLATE_GENERATION_ERROR'') (Inl e),
               snd base)
          | Inr ok \<Rightarrow>
              if \<not> truthy ok then (base_result, snd base)
              else
                (case bind (subscript base_result (u ''code'')) as_str of
                   Inl e \<Rightarrow>
                     (try_except ev msg_template_failed (u ''TEMPLATE_GENERATION_ERROR'') (Inl e),
                      snd base)
                 | Inr code0 \<Rightarrow>
                     (let code1 = customize project_id default_callback company_name code0;
                          req = helpers_request language;
                          code = append_helpers language project_id default_callback company_name
                                   code1 (net ev (snd base) req)
                      in (try_except ev msg_template_failed (u ''TEMPLATE_GENERATION_ERROR'')
                            (Inr (JObj
                              [(u ''success'', JBool True),
                               (u ''project_config'', dict_json project_config),
                               (u ''language'', JStr language),
                               (u ''features'', JList (map JStr features)),
                               (u ''code'', JStr code),
                               (u ''filename'',
                                 JStr (py_replace (u '' '') (u ''_'') (py_lower ev company_name) @ u ''_message_service.''
                              @ language)),
                               (u ''description'', JStr (company_name
                              @ [32, 0xC804, 0xC6A9, 32, 0xBA54, 0xC2DC, 0xC9C0, 32, 0xC11C,
                                0xBE44, 0xC2A4, 32, 0xD15C, 0xD50C, 0xB9BF])),
                               (u ''source'', JStr (u ''CDN template + project customization'')),
                               (u ''message'', JStr ([0xD504, 0xB85C, 0xC81D, 0xD2B8, 0xBCC4, 32,
                                 0xB9DE, 0xCDA4, 32, 0xCF54, 0xB4DC, 0xAC00, 32, 0xC0DD, 0xC131,
                                   0xB418, 0xC5C8, 0xC2B5, 0xB2C8, 0xB2E4, 32, 40, 67, 68, 78,
                                     32, 0xCD5C, 0xC801, 0xD654, 41]))])),
                          snd base @ [req])))))"

section \<open>Deployment guides: \<open>get_integration_guide\<close>\<close>

definition security_checklist :: json where
  "security_checklist =
     JList
      [JStr ([65, 80, 73, 32, 0xD0A4, 0xB97C, 32, 0xCF54, 0xB4DC, 0xC5D0, 32, 0xD558, 0xB4DC,
        0xCF54, 0xB529, 0xD558, 0xC9C0, 32, 0xC54A, 0xAE30]),
       JStr ([0xD658, 0xACBD, 32, 0xBCC0, 0xC218, 32, 0xB610, 0xB294, 32, 0xC2DC, 0xD06C, 0xB9BF,
         32, 0xAD00, 0xB9AC, 32, 0xC11C, 0xBE44, 0xC2A4, 32, 0xC0AC, 0xC6A9]),
       JStr ([72, 84, 84, 80, 83, 32, 0xD1B5, 0xC2E0, 32, 0xD655, 0xC778]),
       JStr ([0xC801, 0xC808, 0xD55C, 32, 0xC5D0, 0xB7EC, 32, 0xB85C, 0xAE45, 32, 0xC124,
         0xC815])]"

definition basic_guides :: "(ustr \<times> json) list" where
  "basic_guides =
     (case JObj
         [(u ''vercel'', JObj
            [(u ''title'', JStr ([86, 101, 114, 99, 101, 108, 32, 0xBC30, 0xD3EC, 32, 0xAC00,
              0xC774, 0xB4DC])),
             (u ''steps'', JList
               [JStr ([49, 46, 32, 0xD658, 0xACBD, 32, 0xBCC0, 0xC218, 32, 0xC124, 0xC815, 58,
                 32, 66, 65, 65, 83, 95, 65, 80, 73, 95, 75, 69, 89, 44, 32, 66, 65, 65, 83, 95,
                   80, 82, 79, 74, 69, 67, 84, 95, 73, 68]),
                JStr ([50, 46, 32, 118, 101, 114, 99, 101, 108, 46, 106, 115, 111, 110, 32,
                  0xC124, 0xC815, 0xC5D0, 32, 0xD658, 0xACBD, 32, 0xBCC0, 0xC218, 32, 0xCD94,
                    0xAC00]),
                JStr ([51, 46, 32, 65, 80, 73, 32, 82, 111, 117, 116, 101, 115, 0xC5D0, 0xC11C,
                  32, 66, 97, 97, 83, 77, 101, 115, 115, 97, 103, 101, 83, 101, 114, 118, 105,
                    99, 101, 32, 0xC0AC, 0xC6A9]),
                JStr ([52, 46, 32, 69, 100, 103, 101, 32, 82, 117, 110, 116, 105, 109, 101, 32,
                  0xD638, 0xD658, 0xC131, 32, 0xD655, 0xC778])]),
             (u ''config'', JObj
               [(u ''env_vars'',
                 JStr (u ''Vercel Dashboard > Settings > Environment Variables'')),
                (u ''api_routes'', JStr ([47, 97, 112, 105, 47, 115, 101, 110, 100, 45, 115, 109,
                  115, 46, 106, 115, 32, 0xD615, 0xD0DC, 0xB85C, 32, 0xAD6C, 0xD604])),
                (u ''limitations'', JStr ([69, 100, 103, 101, 32, 82, 117, 110, 116, 105, 109,
                  101, 0xC5D0, 0xC11C, 0xB294, 32, 78, 111, 100, 101, 46, 106, 115, 32, 65, 80,
                    73, 115, 32, 0xC81C, 0xD55C]))])]),
          (u ''netlify'', JObj
            [(u ''title'', JStr ([78, 101, 116, 108, 105, 102, 121, 32, 70, 117, 110, 99, 116,
              105, 111, 110, 115, 32, 0xAC00, 0xC774, 0xB4DC])),
             (u ''steps'', JList
               [JStr ([49, 46, 32, 110, 101, 116, 108, 105, 102, 121, 47, 102, 117, 110, 99, 116,
                 105, 111, 110, 115, 32, 0xB514, 0xB809, 0xD1A0, 0xB9AC, 0xC5D0, 32, 0xD568,
                   0xC218, 32, 0xC0DD, 0xC131]),
                JStr ([50, 46, 32, 0xD658, 0xACBD, 32, 0xBCC0, 0xC218, 0xB97C, 32, 78, 101, 116,
                  108, 105, 102, 121, 32, 0xB300, 0xC2DC, 0xBCF4, 0xB4DC, 0xC5D0, 0xC11C, 32,
                    0xC124, 0xC815]),
                JStr ([51, 46, 32, 66, 97, 97, 83, 77, 101, 115, 115, 97, 103, 101, 83, 101, 114,
                  118, 105, 99, 101, 0xB97C, 32, 83, 101, 114, 118, 101, 114, 108, 101, 115, 115,
                    32, 70, 117, 110, 99, 116, 105, 111, 110, 0xC5D0, 0xC11C, 32, 0xC0AC,
                      0xC6A9]),
                JStr ([52, 46, 32, 0xBE4C, 0xB4DC, 32, 0xC124, 0xC815, 0xC5D0, 32, 0xD544,
                  0xC694, 0xD55C, 32, 0xD328, 0xD0A4, 0xC9C0, 32, 0xC758, 0xC874, 0xC131, 32,
                    0xCD94, 0xAC00])])]),
          (u ''docker'', JObj
            [(u ''title'', JStr ([68, 111, 99, 107, 101, 114, 32, 0xCEE8, 0xD14C, 0xC774, 0xB108,
              32, 0xBC30, 0xD3EC])),
             (u ''steps'', JList
               [JStr ([49, 46, 32, 68, 111, 99, 107, 101, 114, 102, 105, 108, 101, 0xC5D0, 32,
                 0xD544, 0xC694, 0xD55C, 32, 0xC758, 0xC874, 0xC131, 32, 0xC124, 0xCE58]),
                JStr ([50, 46, 32, 69, 78, 86, 32, 0xBA85, 0xB839, 0xC5B4, 0xB85C, 32, 0xD658,
                  0xACBD, 32, 0xBCC0, 0xC218, 32, 0xC124, 0xC815]),
                JStr ([51, 46, 32, 0xB610, 0xB294, 32, 100, 111, 99, 107, 101, 114, 32, 114, 117,
                  110, 32, 45, 101, 32, 0xC635, 0xC158, 32, 0xC0AC, 0xC6A9]),
                JStr ([52, 46, 32, 0xB124, 0xD2B8, 0xC6CC, 0xD06C, 32, 0xC811, 0xADFC, 0xC131,
                  32, 0xD655, 0xC778, 32, 40, 97, 112, 105, 46, 97, 105, 97, 112, 112, 46, 108,
                    105, 110, 107, 41])])])] of JObj kvs \<Rightarrow> kvs | _ \<Rightarrow> [])"

definition deployment_notes :: "(ustr \<times> json) list" where
  "deployment_notes =
     (case JObj
         [(u ''development'', JStr ([0xAC1C, 0xBC1C, 32, 0xD658, 0xACBD, 0xC5D0, 0xC11C, 0xB294,
           32, 46, 101, 110, 118, 32, 0xD30C, 0xC77C, 32, 0xC0AC, 0xC6A9, 32, 0xAD8C, 0xC7A5])),
          (u ''staging'', JStr ([0xC2A4, 0xD14C, 0xC774, 0xC9D5, 32, 0xD658, 0xACBD, 0xC5D0,
            0xC11C, 0xB294, 32, 0xBCC4, 0xB3C4, 32, 0xD504, 0xB85C, 0xC81D, 0xD2B8, 32, 73, 68,
              32, 0xC0AC, 0xC6A9])),
          (u ''production'', JStr ([0xD504, 0xB85C, 0xB355, 0xC158, 0xC5D0, 0xC11C, 0xB294, 32,
            0xD658, 0xACBD, 32, 0xBCC0, 0xC218, 32, 0xC554, 0xD638, 0xD654, 32, 0xBC0F, 32,
              0xB85C, 0xAE45, 32, 0xC124, 0xC815, 32, 0xD544,
                0xC694]))] of JObj kvs \<Rightarrow> kvs | _ \<Rightarrow> [])"

definition msg_guide_failed :: ustr where
  "msg_guide_failed =
     [0xAC00, 0xC774, 0xB4DC, 32, 0xC870, 0xD68C, 0xC5D0, 32, 0xC2E4, 0xD328, 0xD588, 0xC2B5,
       0xB2C8, 0xB2E4, 58, 32]"

definition platform_not_supported :: "ustr \<Rightarrow> json" where
  "platform_not_supported platform =
     JObj [(u ''success'', JBool False),
           (u ''error'', JStr ([0xD50C, 0xB7AB, 0xD3FC, 32, 39] @ platform
                      @ [39, 0xC5D0, 32, 0xB300, 0xD55C, 32, 0xAC00, 0xC774, 0xB4DC, 0xAC00, 32,
                        0xC544, 0xC9C1, 32, 0xC900, 0xBE44, 0xB418, 0xC9C0, 32, 0xC54A, 0xC558,
                          0xC2B5, 0xB2C8, 0xB2E4])),
           (u ''available_platforms'', JList (map (\<lambda>kv. JStr (fst kv)) basic_guides)),
           (u ''cdn_url'', JStr (u ''https://cdn.baas-templates.com/sms-mms/deployment/'')),
           (u ''error_code'', JStr (u ''PLATFORM_NOT_SUPPORTED''))]"

text \<open>The part of the tool after the attempt at the CDN.\<close>

definition local_guide :: "env \<Rightarrow> ustr \<Rightarrow> ustr \<Rightarrow> json" where
  "local_guide ev platform deployment_type =
     (let guide = map_of basic_guides platform
      in if \<not> (case guide of None \<Rightarrow> False | Some g \<Rightarrow> truthy g)
         then platform_not_supported platform
         else
           JObj [(u ''success'', JBool True),
                 (u ''platform'', JStr platform),
                 (u ''deployment_type'', JStr deployment_type),
                 (u ''guide'', the guide),
                 (u ''source'', JStr (u ''Local fallback'')),
                 (u ''deployment_notes'',
                    case map_of deployment_notes deployment_type of
                      Some n \<Rightarrow> n | None \<Rightarrow> JStr []),
                 (u ''security_checklist'', security_checklist),
                 (u ''message'', JStr (py_title ev platform @ u '' '' @ deployment_type
                      @ [32, 0xBC30, 0xD3EC, 32, 0xAC00, 0xC774, 0xB4DC, 0xC785, 0xB2C8, 0xB2E4,
                        32, 40, 0xB85C, 0xCEEC, 32, 0xD3F4, 0xBC31, 41]))])"

definition get_integration_guide :: "env \<Rightarrow> ustr \<Rightarrow> ustr \<Rightarrow> json \<times> request list" where
  "get_integration_guide ev platform0 deployment_type0 =
     (let platform = py_lower ev platform0;
          deployment_type = py_lower ev deployment_type0;
          guide_url = u ''https://cdn.baas-templates.com/sms-mms/deployment/'' @ platform
            @ u ''-''
                    @ deployment_type @ u ''.md'';
          req = get_request guide_url
      in (try_except ev msg_guide_failed (u ''GUIDE_RETRIEVAL_ERROR'')
            (case net ev [] req of
               Response status_code text body \<Rightarrow>
                 if status_code = 200 then
                   Inr (JObj [(u ''success'', JBool True),
                              (u ''platform'', JStr platform),
                              (u ''deployment_type'', JStr deployment_type),
                              (u ''guide_content'', JStr text),
                              (u ''source'', JStr (u ''CDN'')),
                              (u ''guide_url'', JStr guide_url),
                              (u ''security_checklist'', security_checklist),
                              (u ''message'', JStr (py_title ev platform @ u '' ''
                                @ deployment_type
                      @ [32, 0xBC30, 0xD3EC, 32, 0xAC00, 0xC774, 0xB4DC, 0xC785, 0xB2C8, 0xB2E4,
                        32, 40, 67, 68, 78, 32, 0xCD5C, 0xC801, 0xD654, 41]))])
                 else Inr (local_guide ev platform deployment_type)
             | Raise e \<Rightarrow> Inr (local_guide ev platform deployment_type)),
          [req]))"

section \<open>A network that answers from a script\<close>

text \<open>The n-th request gets the n-th reply of the script; after the script the network is down.\<close>

definition scripted_env :: "reply list \<Rightarrow> env" where
  "scripted_env replies =
     fixture_env (\<lambda>h r. if length h < length replies then replies ! length h
                          else Raise (TransportError (u ''connection refused'')))"

section \<open>The shape of a result\<close>

text \<open>A tool result is a mapping when it is a \<open>dict\<close>.\<close>

fun is_mapping :: "json \<Rightarrow> bool" where
  "is_mapping (JObj kvs) = True"
| "is_mapping _ = False"

section \<open>Properties\<close>

lemma bind_Inr [simp]: "bind (Inr v) f = f v"
  by (simp add: bind_def)

lemma bind_Inl [simp]: "bind (Inl e) f = Inl e"
  by (simp add: bind_def)

lemma count_result_records:
  "count_result (map JObj recs) l = Inr (int (length (filter (has_label l) recs)))"
  by (induction recs) (auto simp: has_label_def split: option.splits)

lemma message_entries_records:
  "message_entries (map JObj recs) = Inr (map record_entry recs)"
  by (induction recs) (simp_all add: message_entry_def record_entry_def)

lemma group_status_records:
  "group_status gid (JList (map JObj recs)) =
     Inr (JObj [(u ''group_id'', JInt gid),
                (u ''status'', JStr (overall_status
                    (int (length (filter (has_label label_success) recs)))
                    (int (length (filter (has_label label_failed) recs)))
                    (int (length recs) - int (length (filter (has_label label_success) recs))
                      - int (length (filter (has_label label_failed) recs))))),
                (u ''total_count'', JInt (int (length recs))),
                (u ''success_count'', JInt (int (length (filter (has_label label_success) recs)))),
                (u ''failed_count'', JInt (int (length (filter (has_label label_failed) recs)))),
                (u ''pending_count'', JInt (int (length recs)
                      - int (length (filter (has_label label_success) recs))
                      - int (length (filter (has_label label_failed) recs)))),
                (u ''messages'', JList (map record_entry recs))])"
  by (simp add: group_status_def count_result_records message_entries_records Let_def)

lemma labels_distinct: "label_success \<noteq> label_failed"
  by (simp add: label_success_def label_failed_def)

lemma buckets_disjoint:
  "length (filter (has_label label_success) recs) + length (filter (has_label label_failed) recs)
     \<le> length recs"
proof (induction recs)
  case Nil
  then show ?case by simp
next
  case (Cons r recs)
  have "\<not> (has_label label_success r \<and> has_label label_failed r)"
    using labels_distinct by (auto simp: has_label_def)
  with Cons show ?case by auto
qed

lemma u_eq_iff [simp]: "u a = u b \<longleftrightarrow> a = b"
  by (simp add: u_def inj_on_def)

lemma status_of_reply_records:
  assumes "truthy (case map_of kvs (u ''success'') of Some v \<Rightarrow> v | None \<Rightarrow> JNull)"
      and "map_of kvs (u ''data'') = Some (JList (map JObj recs))"
  shows "status_of_reply gid (Response 200 text (Some (JObj kvs)))
           = group_status gid (JList (map JObj recs))"
  using assms by (simp add: status_of_reply_def response_json_def)

text \<open>
  Claim C1. When the status endpoint answers 200 with a truthy \<open>success\<close> flag and a list of
  delivery records, \<open>get_message_status\<close> reports as \<open>success_count\<close> the number of records
  whose \<open>result\<close> is the success label, as \<open>failed_count\<close> the number whose \<open>result\<close> is the
  failure label, as \<open>pending_count\<close> the total minus both, and the overall status in strict
  priority: sending if anything is pending, else success if nothing failed, else failed if
  nothing succeeded, else partial success.
\<close>

theorem get_message_status_aggregation:
  assumes "net ev [] (status_request ev gid) = Response 200 text (Some (JObj kvs))"
      and "truthy (case map_of kvs (u ''success'') of Some v \<Rightarrow> v | None \<Rightarrow> JNull)"
      and "map_of kvs (u ''data'') = Some (JList (map JObj recs))"
  shows "let success_count = count_label label_success recs;
             failed_count = count_label label_failed recs;
             pending_count = int (length recs) - success_count - failed_count
         in fst (get_message_status ev gid) =
              JObj [(u ''group_id'', JInt gid),
                    (u ''status'', JStr
                       (if pending_count > 0 then label_sending
                        else if failed_count = 0 then label_success
                        else if success_count = 0 then label_failed
                        else label_partial)),
                    (u ''total_count'', JInt (int (length recs))),
                    (u ''success_count'', JInt success_count),
                    (u ''failed_count'', JInt failed_count),
                    (u ''pending_count'', JInt pending_count),
                    (u ''messages'', JList (map record_entry recs))]"
proof -
  have "status_of_reply gid (net ev [] (status_request ev gid))
          = group_status gid (JList (map JObj recs))"
    using assms by (simp add: status_of_reply_records)
  then show ?thesis
    by (simp add: get_message_status_def try_except_def group_status_records
          overall_status_def count_label_def Let_def)
qed

theorem get_message_status_aggregation_witness:
  "fst (get_message_status (status_env [labelled label_success, labelled label_failed]) 7)
     = JObj [(u ''group_id'', JInt 7),
             (u ''status'', JStr label_partial),
             (u ''total_count'', JInt 2),
             (u ''success_count'', JInt 1),
             (u ''failed_count'', JInt 1),
             (u ''pending_count'', JInt 0),
             (u ''messages'', JList
                [JObj [(u ''phone'', JStr []), (u ''name'', JStr []),
                       (u ''status'', JStr label_success), (u ''reason'', JNull)],
                 JObj [(u ''phone'', JStr []), (u ''name'', JStr []),
                       (u ''status'', JStr label_failed), (u ''reason'', JNull)]])]
   \<and> subscript (fst (get_message_status (status_env [labelled label_success, labelled label_success]) 7)) (u ''status'')
     = Inr (JStr label_success)
   \<and> subscript (fst (get_message_status (status_env [labelled label_failed, labelled label_failed]) 7)) (u ''status'')
     = Inr (JStr label_failed)
   \<and> subscript (fst (get_message_status (status_env [labelled label_success, labelled (u ''queued'')]) 7)) (u ''status'')
     = Inr (JStr label_sending)
   \<and> subscript (fst (get_message_status (status_env [labelled label_failed, labelled (u ''queued'')]) 7)) (u ''status'')
     = Inr (JStr label_sending)"
proof -
  have n: "net (status_env recs) [] req
             = Response 200 [] (Some (JObj [(u ''success'', JBool True),
                                            (u ''data'', JList (map JObj recs))]))" for recs req
    by (simp add: status_env_def fixture_env_def status_body_def)
  have l: "label_success \<noteq> label_failed" "label_failed \<noteq> label_success"
    "u ''queued'' \<noteq> label_success" "u ''queued'' \<noteq> label_failed"
    by (simp_all add: label_success_def label_failed_def u_def)
  show ?thesis
    using get_message_status_aggregation [where ev = "status_env [labelled label_success, labelled label_failed]" and gid = 7
            and kvs = "[(u ''success'', JBool True), (u ''data'', JList (map JObj [labelled label_success, labelled label_failed]))]"
            and recs = "[labelled label_success, labelled label_failed]"]
          get_message_status_aggregation [where ev = "status_env [labelled label_success, labelled label_success]" and gid = 7
            and kvs = "[(u ''success'', JBool True), (u ''data'', JList (map JObj [labelled label_success, labelled label_success]))]"
            and recs = "[labelled label_success, labelled label_success]"]
          get_message_status_aggregation [where ev = "status_env [labelled label_failed, labelled label_failed]" and gid = 7
            and kvs = "[(u ''success'', JBool True), (u ''data'', JList (map JObj [labelled label_failed, labelled label_failed]))]"
            and recs = "[labelled label_failed, labelled label_failed]"]
          get_message_status_aggregation [where ev = "status_env [labelled label_success, labelled (u ''queued'')]" and gid = 7
            and kvs = "[(u ''success'', JBool True), (u ''data'', JList (map JObj [labelled label_success, labelled (u ''queued'')]))]"
            and recs = "[labelled label_success, labelled (u ''queued'')]"]
          get_message_status_aggregation [where ev = "status_env [labelled label_failed, labelled (u ''queued'')]" and gid = 7
            and kvs = "[(u ''success'', JBool True), (u ''data'', JList (map JObj [labelled label_failed, labelled (u ''queued'')]))]"
            and recs = "[labelled label_failed, labelled (u ''queued'')]"]
    by (simp add: n l count_label_def has_label_def labelled_def record_entry_def)
qed

text \<open>
  Claim C10. The three counts are non-negative and add up to the total, so every record is in
  exactly one bucket; for the empty list all counts are 0 and the status is the success label.
\<close>

theorem get_message_status_counts_partition:
  assumes "net ev [] (status_request ev gid) = Response 200 text (Some (JObj kvs))"
      and "truthy (case map_of kvs (u ''success'') of Some v \<Rightarrow> v | None \<Rightarrow> JNull)"
      and "map_of kvs (u ''data'') = Some (JList (map JObj recs))"
  shows "\<exists>s f p st.
           subscript (fst (get_message_status ev gid)) (u ''total_count'')
             = Inr (JInt (int (length recs)))
         \<and> subscript (fst (get_message_status ev gid)) (u ''success_count'') = Inr (JInt s)
         \<and> subscript (fst (get_message_status ev gid)) (u ''failed_count'') = Inr (JInt f)
         \<and> subscript (fst (get_message_status ev gid)) (u ''pending_count'') = Inr (JInt p)
         \<and> subscript (fst (get_message_status ev gid)) (u ''status'') = Inr (JStr st)
         \<and> 0 \<le> s \<and> 0 \<le> f \<and> 0 \<le> p \<and> s + f + p = int (length recs)
         \<and> (recs = [] \<longrightarrow> s = 0 \<and> f = 0 \<and> p = 0 \<and> st = label_success)"
proof -
  have "status_of_reply gid (net ev [] (status_request ev gid))
          = group_status gid (JList (map JObj recs))"
    using assms by (simp add: status_of_reply_records)
  then show ?thesis
    using buckets_disjoint [of recs]
    by (simp add: get_message_status_def try_except_def group_status_records
          overall_status_def)
qed

theorem get_message_status_counts_partition_witness:
  "net (fixture_env (\<lambda>h r. Response 200 [] (Some (status_body [])))) []
       (status_request (fixture_env (\<lambda>h r. Response 200 [] (Some (status_body [])))) 7)
     = Response 200 [] (Some (status_body []))
   \<and> subscript (fst (get_message_status
          (fixture_env (\<lambda>h r. Response 200 [] (Some (status_body [])))) 7)) (u ''total_count'')
     = Inr (JInt 0)
   \<and> subscript (fst (get_message_status
          (fixture_env (\<lambda>h r. Response 200 [] (Some (status_body [])))) 7)) (u ''success_count'')
     = Inr (JInt 0)
   \<and> subscript (fst (get_message_status
          (fixture_env (\<lambda>h r. Response 200 [] (Some (status_body [])))) 7)) (u ''failed_count'')
     = Inr (JInt 0)
   \<and> subscript (fst (get_message_status
          (fixture_env (\<lambda>h r. Response 200 [] (Some (status_body [])))) 7)) (u ''pending_count'')
     = Inr (JInt 0)
   \<and> subscript (fst (get_message_status
          (fixture_env (\<lambda>h r. Response 200 [] (Some (status_body [])))) 7)) (u ''status'')
     = Inr (JStr label_success)"
  using get_message_status_counts_partition
    [of "fixture_env (\<lambda>h r. Response 200 [] (Some (status_body [])))" 7 "[]"
        "[(u ''success'', JBool True), (u ''data'', JList (map JObj []))]" "[]"]
  by (auto simp: fixture_env_def status_body_def)

subsection \<open>\<open>send_sms\<close>\<close>

text \<open>
  Claim C3. \<open>send_sms\<close> answers without a network call, with \<open>success: false\<close>:
  \<open>MISSING_PROJECT_ID\<close> for an empty project id (the first check),
  \<open>INVALID_RECIPIENTS_COUNT\<close> for no recipient or more than 1000, and
  \<open>MESSAGE_TOO_LONG\<close> for a message of more than 2000 characters.
\<close>

theorem send_sms_fails_fast:
  "(project_id = [] \<longrightarrow>
      send_sms ev recipients message callback_number project_id =
        (JObj [(u ''success'', JBool False), (u ''error'', JStr msg_project_id_required),
               (u ''error_code'', JStr (u ''MISSING_PROJECT_ID''))], []))
   \<and> (project_id \<noteq> [] \<and> (recipients = [] \<or> length recipients > 1000) \<longrightarrow>
      send_sms ev recipients message callback_number project_id =
        (JObj [(u ''success'', JBool False), (u ''error'', JStr msg_recipients_count),
               (u ''error_code'', JStr (u ''INVALID_RECIPIENTS_COUNT''))], []))
   \<and> (project_id \<noteq> [] \<and> recipients \<noteq> [] \<and> length recipients \<le> 1000
        \<and> length message > 2000 \<longrightarrow>
      send_sms ev recipients message callback_number project_id =
        (JObj [(u ''success'', JBool False), (u ''error'', JStr msg_message_too_long),
               (u ''error_code'', JStr (u ''MESSAGE_TOO_LONG''))], []))"
  by (simp add: send_sms_def error_result_def)

theorem send_sms_fails_fast_witness:
  "send_sms offline_env [one_recipient] (u ''hi'') (u ''02-1234-5678'') [] =
        (JObj [(u ''success'', JBool False), (u ''error'', JStr msg_project_id_required),
               (u ''error_code'', JStr (u ''MISSING_PROJECT_ID''))], [])
   \<and> send_sms offline_env [] (u ''hi'') (u ''02-1234-5678'') (u ''p1'') =
        (JObj [(u ''success'', JBool False), (u ''error'', JStr msg_recipients_count),
               (u ''error_code'', JStr (u ''INVALID_RECIPIENTS_COUNT''))], [])
   \<and> send_sms offline_env (replicate 1001 one_recipient) (u ''hi'') (u ''02-1234-5678'') (u ''p1'') =
        (JObj [(u ''success'', JBool False), (u ''error'', JStr msg_recipients_count),
               (u ''error_code'', JStr (u ''INVALID_RECIPIENTS_COUNT''))], [])
   \<and> send_sms offline_env [one_recipient] (replicate 2001 97) (u ''02-1234-5678'') (u ''p1'') =
        (JObj [(u ''success'', JBool False), (u ''error'', JStr msg_message_too_long),
               (u ''error_code'', JStr (u ''MESSAGE_TOO_LONG''))], [])"
  using send_sms_fails_fast [where project_id = "[]" and recipients = "[one_recipient]"
          and message = "u ''hi''" and callback_number = "u ''02-1234-5678''" and ev = offline_env]
        send_sms_fails_fast [where project_id = "u ''p1''" and recipients = "[]"
          and message = "u ''hi''" and callback_number = "u ''02-1234-5678''" and ev = offline_env]
        send_sms_fails_fast [where project_id = "u ''p1''"
          and recipients = "replicate 1001 one_recipient"
          and message = "u ''hi''" and callback_number = "u ''02-1234-5678''" and ev = offline_env]
        send_sms_fails_fast [where project_id = "u ''p1''" and recipients = "[one_recipient]"
          and message = "replicate 2001 97" and callback_number = "u ''02-1234-5678''" and ev = offline_env]
  by (simp add: u_def)

lemma send_result_ok:
  assumes "truthy (case map_of kvs (u ''success'') of Some v \<Rightarrow> v | None \<Rightarrow> JNull)"
      and "map_of kvs (u ''data'') = Some (JObj dkvs)"
      and "map_of dkvs (u ''group_id'') = Some g"
  shows "send_result sent rs (Response 200 text (Some (JObj kvs))) =
           Inr (JObj [(u ''success'', JBool True), (u ''group_id'', g), (u ''message'', JStr sent),
                      (u ''sent_count'', JInt (int (length rs))), (u ''failed_count'', JInt 0)])"
  using assms by (simp add: send_result_def response_json_def)

lemma send_result_refused:
  assumes "\<not> truthy (case map_of kvs (u ''success'') of Some v \<Rightarrow> v | None \<Rightarrow> JNull)"
  shows "send_result sent rs (Response 200 text (Some (JObj kvs))) =
           Inr (JObj [(u ''success'', JBool False),
                      (u ''error'', case map_of kvs (u ''message'') of Some v \<Rightarrow> v
                                     | None \<Rightarrow> JStr (u ''Unknown error'')),
                      (u ''error_code'', case map_of kvs (u ''error_code'') of Some v \<Rightarrow> v
                                     | None \<Rightarrow> JStr (u ''UNKNOWN_ERROR''))])"
  using assms by (simp add: send_result_def response_json_def)

lemma send_result_http_error:
  assumes "status_code \<noteq> 200"
  shows "send_result sent rs (Response status_code text body) =
           Inr (JObj [(u ''success'', JBool False),
                      (u ''error'', JStr (api_error_message status_code)),
                      (u ''error_code'', JStr (u ''API_ERROR''))])"
  using assms by (simp add: send_result_def error_result_def)

lemma send_sms_valid:
  assumes "project_id \<noteq> []" and "1 \<le> length recipients" and "length recipients \<le> 1000"
      and "length message \<le> 2000"
  shows "send_sms ev recipients message callback_number project_id =
           (try_except ev msg_sms_failed (u ''INTERNAL_ERROR'')
              (send_result msg_sms_sent recipients
                 (net ev [] (sms_request ev recipients message callback_number project_id))),
            [sms_request ev recipients message callback_number project_id])"
proof -
  from assms(2) have "recipients \<noteq> []" by auto
  with assms show ?thesis by (simp add: send_sms_def Let_def)
qed

text \<open>
  Claim C2. With 1 to 1000 recipients, a message of at most 2000 characters and a project id,
  \<open>send_sms\<close> issues exactly one request, a POST whose payload has \<open>channel_id\<close> 1. On
  status 200 with a truthy \<open>success\<close> it returns the remote \<open>data.group_id\<close>, the number of
  recipients as \<open>sent_count\<close> and 0 as \<open>failed_count\<close>; on status 200 without it, the remote
  \<open>message\<close> and \<open>error_code\<close> as they are (or the defaults of the source when absent); on any
  other status, \<open>API_ERROR\<close>.
\<close>

theorem send_sms_contract:
  assumes "project_id \<noteq> []" and "1 \<le> length recipients" and "length recipients \<le> 1000"
      and "length message \<le> 2000"
  shows "snd (send_sms ev recipients message callback_number project_id) =
           [sms_request ev recipients message callback_number project_id]
       \<and> req_method (sms_request ev recipients message callback_number project_id) = POST
       \<and> payload_field (sms_request ev recipients message callback_number project_id)
             (u ''channel_id'') = Some (JInt 1)
       \<and> (net ev [] (sms_request ev recipients message callback_number project_id)
              = Response 200 text1 (Some (JObj kvs1))
            \<and> truthy (case map_of kvs1 (u ''success'') of Some v \<Rightarrow> v | None \<Rightarrow> JNull)
            \<and> map_of kvs1 (u ''data'') = Some (JObj dkvs)
            \<and> map_of dkvs (u ''group_id'') = Some g
          \<longrightarrow> fst (send_sms ev recipients message callback_number project_id) =
                JObj [(u ''success'', JBool True), (u ''group_id'', g),
                      (u ''message'', JStr msg_sms_sent),
                      (u ''sent_count'', JInt (int (length recipients))),
                      (u ''failed_count'', JInt 0)])
       \<and> (net ev [] (sms_request ev recipients message callback_number project_id)
              = Response 200 text2 (Some (JObj kvs2))
            \<and> \<not> truthy (case map_of kvs2 (u ''success'') of Some v \<Rightarrow> v | None \<Rightarrow> JNull)
          \<longrightarrow> fst (send_sms ev recipients message callback_number project_id) =
                JObj [(u ''success'', JBool False),
                      (u ''error'', case map_of kvs2 (u ''message'') of Some v \<Rightarrow> v
                                     | None \<Rightarrow> JStr (u ''Unknown error'')),
                      (u ''error_code'', case map_of kvs2 (u ''error_code'') of Some v \<Rightarrow> v
                                     | None \<Rightarrow> JStr (u ''UNKNOWN_ERROR''))])
       \<and> (net ev [] (sms_request ev recipients message callback_number project_id)
              = Response status_code text3 body3
            \<and> status_code \<noteq> 200
          \<longrightarrow> fst (send_sms ev recipients message callback_number project_id) =
                JObj [(u ''success'', JBool False),
                      (u ''error'', JStr (api_error_message status_code)),
                      (u ''error_code'', JStr (u ''API_ERROR''))])"
  using assms
  by (simp add: send_sms_valid try_except_def send_result_ok send_result_refused
        send_result_http_error)
     (simp add: sms_request_def payload_field_def)

theorem send_sms_contract_witness:
  "send_sms (replying_env (Response 200 [] (Some sent_body)))
       [one_recipient] (u ''hi'') (u ''02-1234-5678'') (u ''p1'')
     = (JObj [(u ''success'', JBool True), (u ''group_id'', JInt 42),
              (u ''message'', JStr msg_sms_sent), (u ''sent_count'', JInt 1),
              (u ''failed_count'', JInt 0)],
        [sms_request (replying_env (Response 200 [] (Some sent_body)))
           [one_recipient] (u ''hi'') (u ''02-1234-5678'') (u ''p1'')])
   \<and> fst (send_sms (replying_env (Response 200 [] (Some refused_body)))
       [one_recipient] (u ''hi'') (u ''02-1234-5678'') (u ''p1''))
     = JObj [(u ''success'', JBool False), (u ''error'', JStr (u ''no credit'')),
             (u ''error_code'', JStr (u ''NO_CREDIT''))]
   \<and> fst (send_sms (replying_env (Response 500 [] None))
       [one_recipient] (u ''hi'') (u ''02-1234-5678'') (u ''p1''))
     = JObj [(u ''success'', JBool False), (u ''error'', JStr (api_error_message 500)),
             (u ''error_code'', JStr (u ''API_ERROR''))]"
proof -
  have len: "u ''p1'' \<noteq> []" "1 \<le> length [one_recipient]" "length [one_recipient] \<le> 1000"
    "length (u ''hi'') \<le> 2000"
    by (simp_all add: u_def)
  have a: "net (replying_env (Response 200 [] (Some sent_body))) [] r
             = Response 200 [] (Some (JObj [(u ''success'', JBool True),
                  (u ''data'', JObj [(u ''group_id'', JInt 42)])]))" for r
    by (simp add: replying_env_def fixture_env_def sent_body_def)
  have b: "net (replying_env (Response 200 [] (Some refused_body))) [] r
             = Response 200 [] (Some (JObj [(u ''success'', JBool False),
                  (u ''message'', JStr (u ''no credit'')),
                  (u ''error_code'', JStr (u ''NO_CREDIT''))]))" for r
    by (simp add: replying_env_def fixture_env_def refused_body_def)
  have c: "net (replying_env (Response 500 [] None)) [] r = Response 500 [] None" for r
    by (simp add: replying_env_def fixture_env_def)
  show ?thesis
    using send_sms_contract [OF len,
            where ev = "replying_env (Response 200 [] (Some sent_body))"
              and callback_number = "u ''02-1234-5678''" and ?text1.0 = "[]"
              and ?kvs1.0 = "[(u ''success'', JBool True),
                              (u ''data'', JObj [(u ''group_id'', JInt 42)])]"
              and dkvs = "[(u ''group_id'', JInt 42)]" and g = "JInt 42"]
          send_sms_contract [OF len,
            where ev = "replying_env (Response 200 [] (Some refused_body))"
              and callback_number = "u ''02-1234-5678''" and ?text2.0 = "[]"
              and ?kvs2.0 = "[(u ''success'', JBool False),
                              (u ''message'', JStr (u ''no credit'')),
                              (u ''error_code'', JStr (u ''NO_CREDIT''))]"]
          send_sms_contract [OF len,
            where ev = "replying_env (Response 500 [] None)"
              and callback_number = "u ''02-1234-5678''" and ?text3.0 = "[]"
              and status_code = 500 and ?body3.0 = None]
    by (simp add: a b c prod_eq_iff)
qed

subsection \<open>\<open>send_mms\<close>\<close>

lemma send_mms_valid:
  assumes "project_id \<noteq> []" and "recipients \<noteq> []" and "length recipients \<le> 1000"
      and "length message \<le> 2000" and "length subject \<le> 40"
      and "case image_urls of None \<Rightarrow> True | Some urls \<Rightarrow> length urls \<le> 5"
  shows "send_mms ev recipients message subject callback_number project_id image_urls =
           (try_except ev msg_mms_failed (u ''INTERNAL_ERROR'')
              (send_result msg_mms_sent recipients
                 (net ev [] (mms_request ev recipients message subject callback_number
                               project_id image_urls))),
            [mms_request ev recipients message subject callback_number project_id image_urls])"
  using assms by (auto simp: send_mms_def Let_def split: option.splits)

lemma mms_request_payload:
  "req_method (mms_request ev recipients message subject callback_number project_id image_urls)
     = POST"
  "payload_field (mms_request ev recipients message subject callback_number project_id image_urls)
     (u ''channel_id'') = Some (JInt 3)"
  "payload_field (mms_request ev recipients message subject callback_number project_id None)
     (u ''img_url_list'') = Some (JList [])"
  by (simp_all add: mms_request_def payload_field_def)

text \<open>
  Claim C4. \<open>send_mms\<close> has the contract of \<open>send_sms\<close>, and also: a subject of more than
  40 characters gives \<open>SUBJECT_TOO_LONG\<close> and more than 5 image URLs give
  \<open>TOO_MANY_IMAGES\<close>, both without a network call; otherwise (a subject of exactly 40
  included) it issues one POST whose payload has \<open>channel_id\<close> 3 and, without
  \<open>image_urls\<close>, an empty \<open>img_url_list\<close>.
\<close>

theorem send_mms_contract:
  "(project_id = [] \<longrightarrow>
      send_mms ev recipients message subject callback_number project_id image_urls =
        (JObj [(u ''success'', JBool False), (u ''error'', JStr msg_project_id_required),
               (u ''error_code'', JStr (u ''MISSING_PROJECT_ID''))], []))
   \<and> (project_id \<noteq> [] \<and> (recipients = [] \<or> length recipients > 1000) \<longrightarrow>
      send_mms ev recipients message subject callback_number project_id image_urls =
        (JObj [(u ''success'', JBool False), (u ''error'', JStr msg_recipients_count),
               (u ''error_code'', JStr (u ''INVALID_RECIPIENTS_COUNT''))], []))
   \<and> (project_id \<noteq> [] \<and> recipients \<noteq> [] \<and> length recipients \<le> 1000
        \<and> length message > 2000 \<longrightarrow>
      send_mms ev recipients message subject callback_number project_id image_urls =
        (JObj [(u ''success'', JBool False), (u ''error'', JStr msg_message_too_long),
               (u ''error_code'', JStr (u ''MESSAGE_TOO_LONG''))], []))
   \<and> (project_id \<noteq> [] \<and> recipients \<noteq> [] \<and> length recipients \<le> 1000
        \<and> length message \<le> 2000 \<and> length subject > 40 \<longrightarrow>
      send_mms ev recipients message subject callback_number project_id image_urls =
        (JObj [(u ''success'', JBool False), (u ''error'', JStr msg_subject_too_long),
               (u ''error_code'', JStr (u ''SUBJECT_TOO_LONG''))], []))
   \<and> (project_id \<noteq> [] \<and> recipients \<noteq> [] \<and> length recipients \<le> 1000
        \<and> length message \<le> 2000 \<and> length subject \<le> 40
        \<and> image_urls = Some urls \<and> length urls > 5 \<longrightarrow>
      send_mms ev recipients message subject callback_number project_id image_urls =
        (JObj [(u ''success'', JBool False), (u ''error'', JStr msg_too_many_images),
               (u ''error_code'', JStr (u ''TOO_MANY_IMAGES''))], []))
   \<and> (project_id \<noteq> [] \<and> recipients \<noteq> [] \<and> length recipients \<le> 1000
        \<and> length message \<le> 2000 \<and> length subject \<le> 40
        \<and> (image_urls = None \<or> image_urls = Some urls \<and> length urls \<le> 5) \<longrightarrow>
      snd (send_mms ev recipients message subject callback_number project_id image_urls) =
        [mms_request ev recipients message subject callback_number project_id image_urls]
      \<and> req_method (mms_request ev recipients message subject callback_number project_id
                       image_urls) = POST
      \<and> payload_field (mms_request ev recipients message subject callback_number project_id
                          image_urls) (u ''channel_id'') = Some (JInt 3)
      \<and> (image_urls = None \<longrightarrow>
           payload_field (mms_request ev recipients message subject callback_number project_id
                            image_urls) (u ''img_url_list'') = Some (JList []))
      \<and> (net ev [] (mms_request ev recipients message subject callback_number project_id
                       image_urls) = Response 200 text1 (Some (JObj kvs1))
            \<and> truthy (case map_of kvs1 (u ''success'') of Some v \<Rightarrow> v | None \<Rightarrow> JNull)
            \<and> map_of kvs1 (u ''data'') = Some (JObj dkvs)
            \<and> map_of dkvs (u ''group_id'') = Some g
          \<longrightarrow> fst (send_mms ev recipients message subject callback_number project_id image_urls) =
                JObj [(u ''success'', JBool True), (u ''group_id'', g),
                      (u ''message'', JStr msg_mms_sent),
                      (u ''sent_count'', JInt (int (length recipients))),
                      (u ''failed_count'', JInt 0)])
      \<and> (net ev [] (mms_request ev recipients message subject callback_number project_id
                       image_urls) = Response 200 text2 (Some (JObj kvs2))
            \<and> \<not> truthy (case map_of kvs2 (u ''success'') of Some v \<Rightarrow> v | None \<Rightarrow> JNull)
          \<longrightarrow> fst (send_mms ev recipients message subject callback_number project_id image_urls) =
                JObj [(u ''success'', JBool False),
                      (u ''error'', case map_of kvs2 (u ''message'') of Some v \<Rightarrow> v
                                     | None \<Rightarrow> JStr (u ''Unknown error'')),
                      (u ''error_code'', case map_of kvs2 (u ''error_code'') of Some v \<Rightarrow> v
                                     | None \<Rightarrow> JStr (u ''UNKNOWN_ERROR''))])
      \<and> (net ev [] (mms_request ev recipients message subject callback_number project_id
                       image_urls) = Response status_code text3 body3
            \<and> status_code \<noteq> 200
          \<longrightarrow> fst (send_mms ev recipients message subject callback_number project_id image_urls) =
                JObj [(u ''success'', JBool False),
                      (u ''error'', JStr (api_error_message status_code)),
                      (u ''error_code'', JStr (u ''API_ERROR''))]))"
  apply (intro conjI)
  subgoal by (simp add: send_mms_def error_result_def)
  subgoal by (simp add: send_mms_def error_result_def)
  subgoal by (simp add: send_mms_def error_result_def)
  subgoal by (simp add: send_mms_def error_result_def)
  subgoal by (simp add: send_mms_def error_result_def)
  subgoal
    by (auto simp: send_mms_valid mms_request_payload try_except_def send_result_ok
          send_result_refused send_result_http_error)
  done

theorem send_mms_contract_witness:
  "send_mms offline_env
       [one_recipient] (u ''hi'') (replicate 40 97) (u ''02-1234-5678'') [] None
     = (JObj [(u ''success'', JBool False), (u ''error'', JStr msg_project_id_required),
              (u ''error_code'', JStr (u ''MISSING_PROJECT_ID''))], [])
   \<and> send_mms offline_env
       [] (u ''hi'') (replicate 40 97) (u ''02-1234-5678'') (u ''p1'') None
     = (JObj [(u ''success'', JBool False), (u ''error'', JStr msg_recipients_count),
              (u ''error_code'', JStr (u ''INVALID_RECIPIENTS_COUNT''))], [])
   \<and> send_mms offline_env
       [one_recipient] (replicate 2001 97) (replicate 40 97) (u ''02-1234-5678'') (u ''p1'') None
     = (JObj [(u ''success'', JBool False), (u ''error'', JStr msg_message_too_long),
              (u ''error_code'', JStr (u ''MESSAGE_TOO_LONG''))], [])
   \<and> send_mms offline_env
       [one_recipient] (u ''hi'') (replicate 41 97) (u ''02-1234-5678'') (u ''p1'') None
     = (JObj [(u ''success'', JBool False), (u ''error'', JStr msg_subject_too_long),
              (u ''error_code'', JStr (u ''SUBJECT_TOO_LONG''))], [])
   \<and> send_mms offline_env
       [one_recipient] (u ''hi'') (replicate 40 97) (u ''02-1234-5678'') (u ''p1'') (Some (replicate 6 (u ''https://x/i.png'')))
     = (JObj [(u ''success'', JBool False), (u ''error'', JStr msg_too_many_images),
              (u ''error_code'', JStr (u ''TOO_MANY_IMAGES''))], [])
   \<and> send_mms (replying_env (Response 200 [] (Some sent_body)))
       [one_recipient] (u ''hi'') (replicate 40 97) (u ''02-1234-5678'') (u ''p1'') None
     = (JObj [(u ''success'', JBool True), (u ''group_id'', JInt 42),
              (u ''message'', JStr msg_mms_sent), (u ''sent_count'', JInt 1),
              (u ''failed_count'', JInt 0)],
        [mms_request (replying_env (Response 200 [] (Some sent_body)))
       [one_recipient] (u ''hi'') (replicate 40 97) (u ''02-1234-5678'') (u ''p1'') None])
   \<and> payload_field (mms_request (replying_env (Response 200 [] (Some sent_body)))
       [one_recipient] (u ''hi'') (replicate 40 97) (u ''02-1234-5678'') (u ''p1'') None)
       (u ''img_url_list'') = Some (JList [])
   \<and> fst (send_mms (replying_env (Response 200 [] (Some refused_body)))
       [one_recipient] (u ''hi'') (replicate 40 97) (u ''02-1234-5678'') (u ''p1'') None)
     = JObj [(u ''success'', JBool False), (u ''error'', JStr (u ''no credit'')),
             (u ''error_code'', JStr (u ''NO_CREDIT''))]
   \<and> fst (send_mms (replying_env (Response 500 [] None))
       [one_recipient] (u ''hi'') (replicate 40 97) (u ''02-1234-5678'') (u ''p1'') None)
     = JObj [(u ''success'', JBool False), (u ''error'', JStr (api_error_message 500)),
             (u ''error_code'', JStr (u ''API_ERROR''))]"
proof -
  have a: "net (replying_env (Response 200 [] (Some sent_body))) [] r
             = Response 200 [] (Some (JObj [(u ''success'', JBool True),
                  (u ''data'', JObj [(u ''group_id'', JInt 42)])]))" for r
    by (simp add: replying_env_def fixture_env_def sent_body_def)
  have b: "net (replying_env (Response 200 [] (Some refused_body))) [] r
             = Response 200 [] (Some (JObj [(u ''success'', JBool False),
                  (u ''message'', JStr (u ''no credit'')),
                  (u ''error_code'', JStr (u ''NO_CREDIT''))]))" for r
    by (simp add: replying_env_def fixture_env_def refused_body_def)
  have c: "net (replying_env (Response 500 [] None)) [] r = Response 500 [] None" for r
    by (simp add: replying_env_def fixture_env_def)
  have d: "u ''p1'' \<noteq> []" "length (u ''hi'') \<le> 2000"
    by (simp_all add: u_def)
  show ?thesis
    using send_mms_contract [where ev = "offline_env" and recipients = "[one_recipient]" and message = "u ''hi''"
            and subject = "replicate 40 97" and callback_number = "u ''02-1234-5678''"
            and project_id = "[]" and image_urls = "None"]
          send_mms_contract [where ev = "offline_env" and recipients = "[]" and message = "u ''hi''"
            and subject = "replicate 40 97" and callback_number = "u ''02-1234-5678''"
            and project_id = "u ''p1''" and image_urls = "None"]
          send_mms_contract [where ev = "offline_env" and recipients = "[one_recipient]" and message = "replicate 2001 97"
            and subject = "replicate 40 97" and callback_number = "u ''02-1234-5678''"
            and project_id = "u ''p1''" and image_urls = "None"]
          send_mms_contract [where ev = "offline_env" and recipients = "[one_recipient]" and message = "u ''hi''"
            and subject = "replicate 41 97" and callback_number = "u ''02-1234-5678''"
            and project_id = "u ''p1''" and image_urls = "None"]
          send_mms_contract [where ev = "offline_env" and recipients = "[one_recipient]" and message = "u ''hi''"
            and subject = "replicate 40 97" and callback_number = "u ''02-1234-5678''"
            and project_id = "u ''p1''" and image_urls = "Some (replicate 6 (u ''https://x/i.png''))"
            and urls = "replicate 6 (u ''https://x/i.png'')"]
          send_mms_contract [where ev = "replying_env (Response 200 [] (Some sent_body))" and recipients = "[one_recipient]" and message = "u ''hi''"
            and subject = "replicate 40 97" and callback_number = "u ''02-1234-5678''"
            and project_id = "u ''p1''" and image_urls = "None"
            and ?text1.0 = "[]" and ?kvs1.0 = "[(u ''success'', JBool True),
                (u ''data'', JObj [(u ''group_id'', JInt 42)])]"
            and dkvs = "[(u ''group_id'', JInt 42)]" and g = "JInt 42"]
          send_mms_contract [where ev = "replying_env (Response 200 [] (Some refused_body))" and recipients = "[one_recipient]" and message = "u ''hi''"
            and subject = "replicate 40 97" and callback_number = "u ''02-1234-5678''"
            and project_id = "u ''p1''" and image_urls = "None"
            and ?text2.0 = "[]" and ?kvs2.0 = "[(u ''success'', JBool False),
                (u ''message'', JStr (u ''no credit'')),
                (u ''error_code'', JStr (u ''NO_CREDIT''))]"]
          send_mms_contract [where ev = "replying_env (Response 500 [] None)" and recipients = "[one_recipient]" and message = "u ''hi''"
            and subject = "replicate 40 97" and callback_number = "u ''02-1234-5678''"
            and project_id = "u ''p1''" and image_urls = "None"
            and ?text3.0 = "[]" and status_code = 500 and ?body3.0 = None]
    by (simp add: a b c d prod_eq_iff)
qed

subsection \<open>\<open>get_send_history\<close>\<close>

text \<open>
  Claim C5, as the code has it. \<open>get_send_history\<close> never makes a network call. With a
  project id it returns an empty history list and echoes the limit cut to at most 100, the
  offset raised to at least 0, and the message type, replaced by \<open>ALL\<close> unless it is
  \<open>SMS\<close>, \<open>MMS\<close> or \<open>ALL\<close>. With an empty project id it returns
  \<open>MISSING_PROJECT_ID\<close> and no history.
\<close>

theorem get_send_history_stub:
  "snd (get_send_history ev project_id offset limit message_type) = []
   \<and> (project_id \<noteq> [] \<longrightarrow>
        fst (get_send_history ev project_id offset limit message_type) =
          JObj [(u ''success'', JBool True),
                (u ''data'', JObj
                   [(u ''project_id'', JStr project_id),
                    (u ''total_count'', JInt 0),
                    (u ''offset'', JInt (max 0 offset)),
                    (u ''limit'', JInt (min 100 limit)),
                    (u ''message_type'', JStr
                       (if message_type = u ''SMS'' \<or> message_type = u ''MMS''
                           \<or> message_type = u ''ALL'' then message_type else u ''ALL'')),
                    (u ''history'', JList [])]),
                (u ''message'', JStr msg_history_stub)])
   \<and> (project_id = [] \<longrightarrow>
        fst (get_send_history ev project_id offset limit message_type) =
          JObj [(u ''success'', JBool False), (u ''error'', JStr msg_project_id_required),
                (u ''error_code'', JStr (u ''MISSING_PROJECT_ID''))])"
  by (simp add: get_send_history_def try_except_def error_result_def Let_def max_def min_def)

theorem get_send_history_stub_witness:
  "fst (get_send_history offline_env (u ''p1'') (- 3) 500 (u ''sms'')) =
          JObj [(u ''success'', JBool True),
                (u ''data'', JObj
                   [(u ''project_id'', JStr (u ''p1'')),
                    (u ''total_count'', JInt 0),
                    (u ''offset'', JInt 0),
                    (u ''limit'', JInt 100),
                    (u ''message_type'', JStr (u ''ALL'')),
                    (u ''history'', JList [])]),
                (u ''message'', JStr msg_history_stub)]
   \<and> fst (get_send_history offline_env [] (- 3) 500 (u ''sms'')) =
          JObj [(u ''success'', JBool False), (u ''error'', JStr msg_project_id_required),
                (u ''error_code'', JStr (u ''MISSING_PROJECT_ID''))]"
  using get_send_history_stub [where ev = offline_env and project_id = "u ''p1''"
          and offset = "- 3" and limit = 500 and message_type = "u ''sms''"]
        get_send_history_stub [where ev = offline_env and project_id = "[]"
          and offset = "- 3" and limit = 500 and message_type = "u ''sms''"]
  by (simp add: u_def)

theorem get_send_history_empty_project_counterexample:
  "get_send_history offline_env [] 0 500 (u ''ALL'') =
     (JObj [(u ''success'', JBool False), (u ''error'', JStr msg_project_id_required),
            (u ''error_code'', JStr (u ''MISSING_PROJECT_ID''))], [])
   \<and> bind (subscript (fst (get_send_history offline_env [] 0 500 (u ''ALL''))) (u ''data''))
        (\<lambda>d. subscript d (u ''history'')) \<noteq> Inr (JList [])"
  by (simp add: get_send_history_def error_result_def)

subsection \<open>\<open>get_code_template_url\<close>\<close>

lemma py_lower_ascii_lowercase:
  "list_all (\<lambda>c. c < 128 \<and> \<not> (65 \<le> c \<and> c \<le> 90)) s \<Longrightarrow> py_lower ev s = s"
  by (simp add: py_lower_def list_all_iff ascii_lower_def map_idI)

lemma py_lower_python [simp]: "py_lower ev (u ''python'') = u ''python''"
  by (rule py_lower_ascii_lowercase) (simp add: u_def)

lemma py_lower_fastapi [simp]: "py_lower ev (u ''fastapi'') = u ''fastapi''"
  by (rule py_lower_ascii_lowercase) (simp add: u_def)

lemma u_append: "u a @ u b = u (a @ b)"
  by (simp add: u_def)

text \<open>
  Claim C7. \<open>get_code_template_url\<close> makes no network call. When the language, lower-cased
  as the tool does first, is not in the supported list, it returns
  \<open>UNSUPPORTED_LANGUAGE\<close> with that list. For \<open>python\<close> with \<open>fastapi\<close> the
  \<open>template_url\<close> ends in \<open>python/fastapi.md\<close> and the installation guide is the URL of
  \<open>setup/python.md\<close>.
\<close>

theorem get_code_template_url_contract:
  "snd (get_code_template_url ev language framework deployment_platform) = []
   \<and> (py_lower ev language \<notin> set supported_languages \<longrightarrow>
        fst (get_code_template_url ev language framework deployment_platform) =
          JObj [(u ''success'', JBool False),
                (u ''error'', JStr (msg_language_pre @ py_lower ev language
                                     @ msg_language_unsupported)),
                (u ''supported_languages'', JList (map JStr supported_languages)),
                (u ''error_code'', JStr (u ''UNSUPPORTED_LANGUAGE''))])
   \<and> subscript (fst (get_code_template_url ev (u ''python'') (Some (u ''fastapi''))
                       deployment_platform)) (u ''template_url'')
       = Inr (JStr (u ''https://cdn.mbaas.kr/templates/sms-mms/'' @ u ''python/fastapi.md''))
   \<and> bind (subscript (fst (get_code_template_url ev (u ''python'') (Some (u ''fastapi''))
                             deployment_platform)) (u ''configuration''))
        (\<lambda>c. subscript c (u ''installation_guide''))
       = Inr (JStr (u ''https://cdn.mbaas.kr/templates/sms-mms/'' @ u ''setup/python.md''))"
  apply (intro conjI)
  subgoal by (simp add: get_code_template_url_def Let_def)
  subgoal by (simp add: get_code_template_url_def Let_def try_except_def)
  subgoal
    by (simp add: get_code_template_url_def Let_def try_except_def supported_languages_def
          lower_opt_def opt_truthy_def template_path_def cdn_base_url_def u_append)
       (simp add: u_def)
  subgoal
    by (simp add: get_code_template_url_def Let_def try_except_def supported_languages_def
          lower_opt_def opt_truthy_def template_path_def cdn_base_url_def u_append)
  done

theorem get_code_template_url_contract_witness:
  "py_lower offline_env (u ''Ruby'') = u ''ruby''
   \<and> u ''ruby'' \<notin> set supported_languages
   \<and> fst (get_code_template_url offline_env (u ''Ruby'') None None) =
          JObj [(u ''success'', JBool False),
                (u ''error'', JStr (msg_language_pre @ u ''ruby'' @ msg_language_unsupported)),
                (u ''supported_languages'', JList (map JStr supported_languages)),
                (u ''error_code'', JStr (u ''UNSUPPORTED_LANGUAGE''))]"
proof -
  have l: "py_lower offline_env (u ''Ruby'') = u ''ruby''"
    by (simp add: py_lower_def ascii_lower_def u_def)
  have n: "u ''ruby'' \<notin> set supported_languages"
    by (simp add: supported_languages_def)
  show ?thesis
    using get_code_template_url_contract [where ev = offline_env and language = "u ''Ruby''"
            and framework = None and deployment_platform = None]
    by (simp add: l n)
qed

subsection \<open>\<open>generate_direct_api_code\<close>\<close>

lemma has_substring_here: "take (length sub) s = sub \<Longrightarrow> has_substring sub s"
  by (cases s) auto

lemma has_substring_append: "has_substring sub (pre @ sub @ post)"
  by (induction pre) (auto intro: has_substring_here)

lemma class_line: "u ''class BaaSMessageService:\<newline>'' = u ''class BaaSMessageService'' @ u '':\<newline>''"
  by (simp add: u_def)

lemma class_line_brace:
  "u ''class BaaSMessageService {\<newline>'' = u ''class BaaSMessageService'' @ u '' {\<newline>''"
  by (simp add: u_def)

lemma python_code_has_class:
  "has_substring (u ''class BaaSMessageService'') (generate_python_code framework include_examples)"
proof -
  obtain post where "generate_python_code framework include_examples
      = py_base_code_1 @ u ''class BaaSMessageService'' @ post"
    unfolding generate_python_code_def py_base_code_def py_base_code_2_def class_line
    by simp
  then show ?thesis by (simp add: has_substring_append)
qed

lemma javascript_code_has_class:
  "has_substring (u ''class BaaSMessageService'')
     (generate_javascript_code framework include_examples)"
proof -
  obtain post where "generate_javascript_code framework include_examples
      = js_base_code_1 @ u ''class BaaSMessageService'' @ post"
    unfolding generate_javascript_code_def js_base_code_def js_base_code_2_def class_line_brace
    by simp
  then show ?thesis by (simp add: has_substring_append)
qed

lemma php_code_has_class:
  "has_substring (u ''class BaaSMessageService'') (generate_php_code framework include_examples)"
proof -
  obtain post where "generate_php_code framework include_examples
      = php_base_code_1 @ u ''class BaaSMessageService'' @ post"
    unfolding generate_php_code_def php_base_code_def php_base_code_2_def class_line_brace
    by simp
  then show ?thesis by (simp add: has_substring_append)
qed

lemma generate_direct_api_code_fetched:
  "fst (generate_direct_api_code ev language framework include_examples) =
     (case fetch_template ev (py_lower ev language) (lower_opt ev framework) include_examples
             (net ev [] (template_request (py_lower ev language) (lower_opt ev framework))) of
        Return result \<Rightarrow> result
      | Code code bound \<Rightarrow>
          JObj [(u ''success'', JBool True),
                (u ''language'', JStr (py_lower ev language)),
                (u ''framework'', opt_json (lower_opt ev framework)),
                (u ''code'', JStr code),
                (u ''filename'', JStr (u ''baas-sms-service.''
                   @ (case map_of extensions (py_lower ev language) of
                        Some e \<Rightarrow> e | None \<Rightarrow> py_lower ev language))),
                (u ''description'', JStr (py_title ev (py_lower ev language)
                   @ u '' BaaS SMS service for direct API calls'')),
                (u ''source'', JStr (if bound then u ''CDN template'' else u ''Local generation'')),
                (u ''template_url'',
                   JStr (req_url (template_request (py_lower ev language) (lower_opt ev framework)))),
                (u ''configuration'',
                   case map_of config_instructions (py_lower ev language) of
                     Some c \<Rightarrow> c | None \<Rightarrow> JObj []),
                (u ''api_endpoint'', JStr (u ''https://api.aiapp.link'')),
                (u ''message'', JStr (py_title ev (py_lower ev language)
                   @ [32, 0xCF54, 0xB4DC, 0xAC00, 32, 0xC131, 0xACF5, 0xC801, 0xC73C, 0xB85C, 32,
                      0xC0DD, 0xC131, 0xB418, 0xC5C8, 0xC2B5, 0xB2C8, 0xB2E4, 32, 40, 0xC18C,
                      0xC2A4, 58, 32]
                   @ (if bound then u ''CDN'' else [0xB85C, 0xCEEC]) @ u '')''))])"
  by (simp add: generate_direct_api_code_def Let_def try_except_def split: fetched.splits)

lemma fetch_template_unavailable:
  assumes "status_code \<noteq> 200"
  shows "fetch_template ev language framework include_examples (Response status_code text body) =
           (case local_generation language framework include_examples of
              Some code \<Rightarrow> Code code False
            | None \<Rightarrow> Return (JObj
                [(u ''success'', JBool False),
                 (u ''error'', JStr
                    ([67, 68, 78, 0xC5D0, 0xC11C, 32, 0xD15C, 0xD50C, 0xB9BF, 0xC744, 32, 0xAC00,
                      0xC838, 0xC62C, 32, 0xC218, 32, 0xC5C6, 0xACE0, 44, 32, 0xC5B8, 0xC5B4, 32, 39]
                     @ language
                     @ [39, 0xB294, 32, 0xB85C, 0xCEEC, 32, 0xC0DD, 0xC131, 0xC744, 32, 0xC9C0,
                        0xC6D0, 0xD558, 0xC9C0, 32, 0xC54A, 0xC2B5, 0xB2C8, 0xB2E4])),
                 (u ''supported_languages'',
                    JList [JStr (u ''javascript''), JStr (u ''python''), JStr (u ''php'')]),
                 (u ''error_code'', JStr (u ''TEMPLATE_UNAVAILABLE''))]))"
  using assms by (simp add: fetch_template_def cdn_attempt_def split: option.splits)

lemma fetch_template_raised:
  "fetch_template ev language framework include_examples (Raise e) =
           (case local_generation language framework include_examples of
              Some code \<Rightarrow> Code code False
            | None \<Rightarrow> Return (JObj
                [(u ''success'', JBool False),
                 (u ''error'', JStr
                    ([67, 68, 78, 32, 0xC624, 0xB958, 32, 0xBC0F, 32, 0xB85C, 0xCEEC, 32, 0xC0DD,
                      0xC131, 32, 0xBD88, 0xAC00, 58, 32] @ exc_str ev e)),
                 (u ''error_code'', JStr (u ''GENERATION_FAILED''))]))"
  by (simp add: fetch_template_def cdn_attempt_def)

lemma fetch_template_no_block:
  assumes "py_findall ev language text = Inr []"
  shows "fetch_template ev language framework include_examples (Response 200 text body) =
           Code text True"
  using assms by (simp add: fetch_template_def cdn_attempt_def)

lemma fetch_template_failed_local:
  assumes "fetch_failed r" and "local_generation language framework include_examples = Some code"
  shows "fetch_template ev language framework include_examples r = Code code False"
  using assms
  by (cases r) (simp_all add: fetch_failed_def fetch_template_unavailable fetch_template_raised)

lemma local_generation_cases:
  "language = u ''javascript'' \<or> language = u ''js'' \<Longrightarrow>
     local_generation language framework include_examples
       = Some (generate_javascript_code framework include_examples)"
  "language = u ''python'' \<or> language = u ''py'' \<Longrightarrow>
     local_generation language framework include_examples
       = Some (generate_python_code framework include_examples)"
  "language = u ''php'' \<Longrightarrow>
     local_generation language framework include_examples
       = Some (generate_php_code framework include_examples)"
  "language \<notin> set [u ''javascript'', u ''js'', u ''python'', u ''py'', u ''php''] \<Longrightarrow>
     local_generation language framework include_examples = None"
  by (auto simp: local_generation_def)

lemma generate_direct_api_code_local:
  assumes "fetch_failed (template_reply ev language framework)"
      and "local_generation (py_lower ev language) (lower_opt ev framework) include_examples
             = Some code"
  shows "subscript (fst (generate_direct_api_code ev language framework include_examples))
           (u ''success'') = Inr (JBool True)"
    and "subscript (fst (generate_direct_api_code ev language framework include_examples))
           (u ''code'') = Inr (JStr code)"
    and "subscript (fst (generate_direct_api_code ev language framework include_examples))
           (u ''source'') = Inr (JStr (u ''Local generation''))"
proof -
  have "fetch_template ev (py_lower ev language) (lower_opt ev framework) include_examples
          (net ev [] (template_request (py_lower ev language) (lower_opt ev framework)))
        = Code code False"
    using assms by (simp add: template_reply_def fetch_template_failed_local)
  then show
    "subscript (fst (generate_direct_api_code ev language framework include_examples))
           (u ''success'') = Inr (JBool True)"
    "subscript (fst (generate_direct_api_code ev language framework include_examples))
           (u ''code'') = Inr (JStr code)"
    "subscript (fst (generate_direct_api_code ev language framework include_examples))
           (u ''source'') = Inr (JStr (u ''Local generation''))"
    by (simp_all add: generate_direct_api_code_fetched)
qed

lemma generate_direct_api_code_no_block:
  assumes "template_reply ev language framework = Response 200 content body"
      and "py_findall ev (py_lower ev language) content = Inr []"
  shows "subscript (fst (generate_direct_api_code ev language framework include_examples))
           (u ''success'') = Inr (JBool True)"
    and "subscript (fst (generate_direct_api_code ev language framework include_examples))
           (u ''code'') = Inr (JStr content)"
    and "subscript (fst (generate_direct_api_code ev language framework include_examples))
           (u ''source'') = Inr (JStr (u ''CDN template''))"
proof -
  have "fetch_template ev (py_lower ev language) (lower_opt ev framework) include_examples
          (net ev [] (template_request (py_lower ev language) (lower_opt ev framework)))
        = Code content True"
    using assms by (simp add: template_reply_def fetch_template_no_block)
  then show
    "subscript (fst (generate_direct_api_code ev language framework include_examples))
           (u ''success'') = Inr (JBool True)"
    "subscript (fst (generate_direct_api_code ev language framework include_examples))
           (u ''code'') = Inr (JStr content)"
    "subscript (fst (generate_direct_api_code ev language framework include_examples))
           (u ''source'') = Inr (JStr (u ''CDN template''))"
    by (simp_all add: generate_direct_api_code_fetched)
qed

lemma generate_direct_api_code_unavailable:
  assumes "template_reply ev language framework = Response status_code text body"
      and "status_code \<noteq> 200"
      and "py_lower ev language \<notin> set [u ''javascript'', u ''js'', u ''python'', u ''py'', u ''php'']"
  shows "fst (generate_direct_api_code ev language framework include_examples) =
        JObj [(u ''success'', JBool False),
              (u ''error'', JStr
                 ([67, 68, 78, 0xC5D0, 0xC11C, 32, 0xD15C, 0xD50C, 0xB9BF, 0xC744, 32, 0xAC00,
                   0xC838, 0xC62C, 32, 0xC218, 32, 0xC5C6, 0xACE0, 44, 32, 0xC5B8, 0xC5B4, 32, 39]
                  @ py_lower ev language
                  @ [39, 0xB294, 32, 0xB85C, 0xCEEC, 32, 0xC0DD, 0xC131, 0xC744, 32, 0xC9C0,
                     0xC6D0, 0xD558, 0xC9C0, 32, 0xC54A, 0xC2B5, 0xB2C8, 0xB2E4])),
              (u ''supported_languages'',
                 JList [JStr (u ''javascript''), JStr (u ''python''), JStr (u ''php'')]),
              (u ''error_code'', JStr (u ''TEMPLATE_UNAVAILABLE''))]"
proof -
  have "local_generation (py_lower ev language) (lower_opt ev framework) include_examples = None"
    using assms(3) by (rule local_generation_cases(4))
  moreover have "net ev [] (template_request (py_lower ev language) (lower_opt ev framework))
      = Response status_code text body"
    using assms(1) by (simp add: template_reply_def)
  ultimately show ?thesis
    using assms(2) by (simp add: generate_direct_api_code_fetched fetch_template_unavailable)
qed

lemma generate_direct_api_code_raised:
  assumes "template_reply ev language framework = Raise e"
      and "py_lower ev language \<notin> set [u ''javascript'', u ''js'', u ''python'', u ''py'', u ''php'']"
  shows "fst (generate_direct_api_code ev language framework include_examples) =
        JObj [(u ''success'', JBool False),
              (u ''error'', JStr
                 ([67, 68, 78, 32, 0xC624, 0xB958, 32, 0xBC0F, 32, 0xB85C, 0xCEEC, 32, 0xC0DD,
                   0xC131, 32, 0xBD88, 0xAC00, 58, 32] @ exc_str ev e)),
              (u ''error_code'', JStr (u ''GENERATION_FAILED''))]"
proof -
  have "local_generation (py_lower ev language) (lower_opt ev framework) include_examples = None"
    using assms(2) by (rule local_generation_cases(4))
  moreover have "net ev [] (template_request (py_lower ev language) (lower_opt ev framework))
      = Raise e"
    using assms(1) by (simp add: template_reply_def)
  ultimately show ?thesis
    by (simp add: generate_direct_api_code_fetched fetch_template_raised)
qed

text \<open>
  Claim C8, as the code has it. When the fetch of the template raises or answers with a status
  other than 200, \<open>generate_direct_api_code\<close> returns the embedded source of the language
  (\<open>javascript\<close> or \<open>js\<close>, \<open>python\<close> or \<open>py\<close>, \<open>php\<close>) with \<open>success: true\<close>, and that source
  defines the class \<open>BaaSMessageService\<close>. For any other language a status other than 200
  gives \<open>TEMPLATE_UNAVAILABLE\<close> with the list of the three languages, and a raised fetch gives
  \<open>GENERATION_FAILED\<close>. When the answer is 200 and has no fenced block of the language, the
  code is the whole answer.
\<close>

theorem generate_direct_api_code_fallback:
  "(fetch_failed (template_reply ev language framework) \<and> (py_lower ev language = u ''javascript'' \<or> py_lower ev language = u ''js'') \<longrightarrow>
      subscript (fst (generate_direct_api_code ev language framework include_examples))
          (u ''success'') = Inr (JBool True)
      \<and> subscript (fst (generate_direct_api_code ev language framework include_examples))
          (u ''code'') = Inr (JStr (generate_javascript_code (lower_opt ev framework) include_examples))
      \<and> subscript (fst (generate_direct_api_code ev language framework include_examples))
          (u ''source'') = Inr (JStr (u ''Local generation''))
      \<and> has_substring (u ''class BaaSMessageService'')
          (generate_javascript_code (lower_opt ev framework) include_examples))
   \<and> (fetch_failed (template_reply ev language framework) \<and> (py_lower ev language = u ''python'' \<or> py_lower ev language = u ''py'') \<longrightarrow>
      subscript (fst (generate_direct_api_code ev language framework include_examples))
          (u ''success'') = Inr (JBool True)
      \<and> subscript (fst (generate_direct_api_code ev language framework include_examples))
          (u ''code'') = Inr (JStr (generate_python_code (lower_opt ev framework) include_examples))
      \<and> subscript (fst (generate_direct_api_code ev language framework include_examples))
          (u ''source'') = Inr (JStr (u ''Local generation''))
      \<and> has_substring (u ''class BaaSMessageService'')
          (generate_python_code (lower_opt ev framework) include_examples))
   \<and> (fetch_failed (template_reply ev language framework) \<and> (py_lower ev language = u ''php'') \<longrightarrow>
      subscript (fst (generate_direct_api_code ev language framework include_examples))
          (u ''success'') = Inr (JBool True)
      \<and> subscript (fst (generate_direct_api_code ev language framework include_examples))
          (u ''code'') = Inr (JStr (generate_php_code (lower_opt ev framework) include_examples))
      \<and> subscript (fst (generate_direct_api_code ev language framework include_examples))
          (u ''source'') = Inr (JStr (u ''Local generation''))
      \<and> has_substring (u ''class BaaSMessageService'')
          (generate_php_code (lower_opt ev framework) include_examples))
   \<and> (template_reply ev language framework = Response status_code text1 body1
        \<and> status_code \<noteq> 200 \<and> py_lower ev language \<notin> set [u ''javascript'', u ''js'', u ''python'', u ''py'', u ''php''] \<longrightarrow>
      fst (generate_direct_api_code ev language framework include_examples) =
        JObj [(u ''success'', JBool False),
              (u ''error'', JStr
                 ([67, 68, 78, 0xC5D0, 0xC11C, 32, 0xD15C, 0xD50C, 0xB9BF, 0xC744, 32, 0xAC00,
                   0xC838, 0xC62C, 32, 0xC218, 32, 0xC5C6, 0xACE0, 44, 32, 0xC5B8, 0xC5B4, 32, 39]
                  @ py_lower ev language
                  @ [39, 0xB294, 32, 0xB85C, 0xCEEC, 32, 0xC0DD, 0xC131, 0xC744, 32, 0xC9C0,
                     0xC6D0, 0xD558, 0xC9C0, 32, 0xC54A, 0xC2B5, 0xB2C8, 0xB2E4])),
              (u ''supported_languages'',
                 JList [JStr (u ''javascript''), JStr (u ''python''), JStr (u ''php'')]),
              (u ''error_code'', JStr (u ''TEMPLATE_UNAVAILABLE''))])
   \<and> (template_reply ev language framework = Raise e
        \<and> py_lower ev language \<notin> set [u ''javascript'', u ''js'', u ''python'', u ''py'', u ''php''] \<longrightarrow>
      fst (generate_direct_api_code ev language framework include_examples) =
        JObj [(u ''success'', JBool False),
              (u ''error'', JStr
                 ([67, 68, 78, 32, 0xC624, 0xB958, 32, 0xBC0F, 32, 0xB85C, 0xCEEC, 32, 0xC0DD,
                   0xC131, 32, 0xBD88, 0xAC00, 58, 32] @ exc_str ev e)),
              (u ''error_code'', JStr (u ''GENERATION_FAILED''))])
   \<and> (template_reply ev language framework = Response 200 text2 body2
        \<and> py_findall ev (py_lower ev language) text2 = Inr [] \<longrightarrow>
      subscript (fst (generate_direct_api_code ev language framework include_examples))
          (u ''success'') = Inr (JBool True)
      \<and> subscript (fst (generate_direct_api_code ev language framework include_examples))
          (u ''code'') = Inr (JStr text2)
      \<and> subscript (fst (generate_direct_api_code ev language framework include_examples))
          (u ''source'') = Inr (JStr (u ''CDN template'')))"
  apply (intro conjI impI; (elim conjE)?)
  subgoal by (rule generate_direct_api_code_local(1) [OF _ local_generation_cases(1)])
  subgoal by (rule generate_direct_api_code_local(2) [OF _ local_generation_cases(1)])
  subgoal by (rule generate_direct_api_code_local(3) [OF _ local_generation_cases(1)])
  subgoal by (rule javascript_code_has_class)
  subgoal by (rule generate_direct_api_code_local(1) [OF _ local_generation_cases(2)])
  subgoal by (rule generate_direct_api_code_local(2) [OF _ local_generation_cases(2)])
  subgoal by (rule generate_direct_api_code_local(3) [OF _ local_generation_cases(2)])
  subgoal by (rule python_code_has_class)
  subgoal by (rule generate_direct_api_code_local(1) [OF _ local_generation_cases(3)])
  subgoal by (rule generate_direct_api_code_local(2) [OF _ local_generation_cases(3)])
  subgoal by (rule generate_direct_api_code_local(3) [OF _ local_generation_cases(3)])
  subgoal by (rule php_code_has_class)
  subgoal by (rule generate_direct_api_code_unavailable)
  subgoal by (rule generate_direct_api_code_raised)
  subgoal by (rule generate_direct_api_code_no_block(1))
  subgoal by (rule generate_direct_api_code_no_block(2))
  subgoal by (rule generate_direct_api_code_no_block(3))
  done

lemma py_lower_fixed:
  "py_lower ev (u ''javascript'') = u ''javascript''"
  "py_lower ev (u ''python'') = u ''python''"
  "py_lower ev (u ''php'') = u ''php''"
  "py_lower ev (u ''ruby'') = u ''ruby''"
  by (rule py_lower_ascii_lowercase, simp add: u_def)+

lemma template_reply_replying:
  "template_reply (replying_env r) language framework = r"
  "template_reply offline_env language framework
     = Raise (TransportError (u ''connection refused''))"
  by (simp_all add: template_reply_def replying_env_def offline_env_def fixture_env_def)

lemma no_block_in_plain_text: "py_findall ev (u ''python'') (u ''plain text'') = Inr []"
  by (simp add: py_findall_def regex_special_def fence_def u_def)

theorem generate_direct_api_code_fallback_witness:
  "subscript (fst (generate_direct_api_code (replying_env (Response 404 [] None)) (u ''javascript'') None True)) (u ''success'')
       = Inr (JBool True)
   \<and> subscript (fst (generate_direct_api_code (replying_env (Response 404 [] None)) (u ''javascript'') None True)) (u ''code'')
       = Inr (JStr (generate_javascript_code None True))
   \<and> subscript (fst (generate_direct_api_code offline_env (u ''python'') None True)) (u ''success'')
       = Inr (JBool True)
   \<and> subscript (fst (generate_direct_api_code offline_env (u ''python'') None True)) (u ''code'')
       = Inr (JStr (generate_python_code None True))
   \<and> has_substring (u ''class BaaSMessageService'') (generate_python_code None True)
   \<and> subscript (fst (generate_direct_api_code (replying_env (Response 404 [] None)) (u ''php'') None True)) (u ''code'')
       = Inr (JStr (generate_php_code None True))
   \<and> subscript (fst (generate_direct_api_code (replying_env (Response 404 [] None)) (u ''ruby'') None True)) (u ''error_code'')
       = Inr (JStr (u ''TEMPLATE_UNAVAILABLE''))
   \<and> subscript (fst (generate_direct_api_code (replying_env (Response 404 [] None)) (u ''ruby'') None True)) (u ''supported_languages'')
       = Inr (JList [JStr (u ''javascript''), JStr (u ''python''), JStr (u ''php'')])
   \<and> subscript (fst (generate_direct_api_code offline_env (u ''ruby'') None True)) (u ''error_code'')
       = Inr (JStr (u ''GENERATION_FAILED''))
   \<and> subscript (fst (generate_direct_api_code (replying_env (Response 200 (u ''plain text'') None)) (u ''python'') None True)) (u ''code'')
       = Inr (JStr (u ''plain text''))
   \<and> subscript (fst (generate_direct_api_code (replying_env (Response 200 (u ''plain text'') None)) (u ''python'') None True)) (u ''source'')
       = Inr (JStr (u ''CDN template''))"
proof -
  have f: "fetch_failed (Response 404 [] None)"
    "fetch_failed (Raise (TransportError (u ''connection refused'')))"
    by (simp_all add: fetch_failed_def)
  have n: "u ''ruby'' \<notin> set [u ''javascript'', u ''js'', u ''python'', u ''py'', u ''php'']"
    by simp
  have l: "lower_opt ev None = None" for ev
    by (simp add: lower_opt_def)
  show ?thesis
    using generate_direct_api_code_fallback [where ev = "replying_env (Response 404 [] None)"
            and language = "u ''javascript''" and framework = None and include_examples = True]
          generate_direct_api_code_fallback [where ev = offline_env
            and language = "u ''python''" and framework = None and include_examples = True]
          generate_direct_api_code_fallback [where ev = "replying_env (Response 404 [] None)"
            and language = "u ''php''" and framework = None and include_examples = True]
          generate_direct_api_code_fallback [where ev = "replying_env (Response 404 [] None)"
            and language = "u ''ruby''" and framework = None and include_examples = True
            and status_code = 404 and ?text1.0 = "[]" and ?body1.0 = None]
          generate_direct_api_code_fallback [where ev = offline_env
            and language = "u ''ruby''" and framework = None and include_examples = True
            and e = "TransportError (u ''connection refused'')"]
          generate_direct_api_code_fallback
            [where ev = "replying_env (Response 200 (u ''plain text'') None)"
            and language = "u ''python''" and framework = None and include_examples = True
            and ?text2.0 = "u ''plain text''" and ?body2.0 = None]
    by (simp add: py_lower_fixed template_reply_replying no_block_in_plain_text f n l)
qed

theorem generate_direct_api_code_no_fallback_counterexample:
  "subscript (fst (generate_direct_api_code (replying_env (Response 200 (u ''plain text'') None))
                     (u ''python'') None True)) (u ''code'') = Inr (JStr (u ''plain text''))
   \<and> \<not> has_substring (u ''class BaaSMessageService'') (u ''plain text'')
   \<and> subscript (fst (generate_direct_api_code offline_env (u ''ruby'') None True))
         (u ''error_code'') = Inr (JStr (u ''GENERATION_FAILED''))
   \<and> subscript (fst (generate_direct_api_code offline_env (u ''ruby'') None True))
         (u ''supported_languages'') = Inl (KeyError (u ''supported_languages''))"
proof -
  have a: "template_reply (replying_env (Response 200 (u ''plain text'') None)) (u ''python'') None
             = Response 200 (u ''plain text'') None"
    by (simp add: template_reply_replying)
  have b: "py_findall (replying_env (Response 200 (u ''plain text'') None))
             (py_lower (replying_env (Response 200 (u ''plain text'') None)) (u ''python''))
             (u ''plain text'') = Inr []"
    by (simp add: py_lower_fixed no_block_in_plain_text)
  have c: "template_reply offline_env (u ''ruby'') None
             = Raise (TransportError (u ''connection refused''))"
    by (simp add: template_reply_replying)
  have d: "py_lower offline_env (u ''ruby'')
             \<notin> set [u ''javascript'', u ''js'', u ''python'', u ''py'', u ''php'']"
    by (simp add: py_lower_fixed)
  have e: "\<not> has_substring (u ''class BaaSMessageService'') (u ''plain text'')"
    by (simp add: u_def)
  show ?thesis
    using generate_direct_api_code_no_block(2) [OF a b, of True]
          generate_direct_api_code_raised [OF c d, of True] e
    by simp
qed

subsection \<open>\<open>create_message_service_template\<close>\<close>

lemma generate_direct_api_code_trace:
  "snd (generate_direct_api_code ev language framework include_examples)
     = [template_request (py_lower ev language) (lower_opt ev framework)]"
  by (simp add: generate_direct_api_code_def Let_def)

lemma create_template_base_failed:
  assumes "dict_get (fst (generate_direct_api_code ev language None True)) (u ''success'') JNull
             = Inr ok"
      and "\<not> truthy ok"
  shows "create_message_service_template ev project_config language features
           = generate_direct_api_code ev language None True"
  using assms by (simp add: create_message_service_template_def Let_def prod_eq_iff)

lemma create_template_code:
  assumes "subscript (fst (generate_direct_api_code ev language None True)) (u ''success'')
             = Inr (JBool True)"
      and "subscript (fst (generate_direct_api_code ev language None True)) (u ''code'')
             = Inr (JStr code0)"
  shows "subscript (fst (create_message_service_template ev project_config language features))
           (u ''code'')
         = Inr (JStr (append_helpers language
              (config_get project_config (u ''project_id'') (u ''your-project-id''))
              (config_get project_config (u ''default_callback'') (u ''02-1234-5678''))
              (config_get project_config (u ''company_name'') (u ''Your Company''))
              (customize
                (config_get project_config (u ''project_id'') (u ''your-project-id''))
                (config_get project_config (u ''default_callback'') (u ''02-1234-5678''))
                (config_get project_config (u ''company_name'') (u ''Your Company'')) code0)
              (net ev (snd (generate_direct_api_code ev language None True))
                 (helpers_request language))))"
proof -
  obtain kvs where k: "fst (generate_direct_api_code ev language None True) = JObj kvs"
    using assms(1) by (cases "fst (generate_direct_api_code ev language None True)") auto
  from assms k have s: "map_of kvs (u ''success'') = Some (JBool True)"
    and c: "map_of kvs (u ''code'') = Some (JStr code0)"
    by (auto split: option.splits)
  show ?thesis
    by (simp add: create_message_service_template_def Let_def k s c as_str_def try_except_def)
qed

lemma create_template_trace:
  assumes "subscript (fst (generate_direct_api_code ev language None True)) (u ''success'')
             = Inr (JBool True)"
      and "subscript (fst (generate_direct_api_code ev language None True)) (u ''code'')
             = Inr (JStr code0)"
  shows "snd (create_message_service_template ev project_config language features)
           = snd (generate_direct_api_code ev language None True) @ [helpers_request language]"
proof -
  obtain kvs where k: "fst (generate_direct_api_code ev language None True) = JObj kvs"
    using assms(1) by (cases "fst (generate_direct_api_code ev language None True)") auto
  from assms k have "map_of kvs (u ''success'') = Some (JBool True)"
    and "map_of kvs (u ''code'') = Some (JStr code0)"
    by (auto split: option.splits)
  then show ?thesis
    by (simp add: create_message_service_template_def Let_def k as_str_def)
qed

text \<open>
  Claim C9, as the code has it. \<open>create_message_service_template\<close> calls
  \<open>generate_direct_api_code\<close>; a result without a truthy \<open>success\<close> is returned as it is.
  Otherwise the \<open>code\<close> it returns starts with the base code in which \<open>your-project-id\<close>,
  then \<open>02-1234-5678\<close>, then \<open>Your Company\<close> have been replaced by the project id, the
  callback and the company name of \<open>project_config\<close> (the placeholder itself when the key is
  absent). When the helpers request is answered with 200, two newlines and the answer follow,
  with the three template variables replaced; when the request raises, the JavaScript helpers
  follow for \<open>javascript\<close> and nothing follows for another language.
\<close>

theorem create_message_service_template_code:
  "(dict_get (fst (generate_direct_api_code ev language None True)) (u ''success'') JNull = Inr ok
        \<and> \<not> truthy ok \<longrightarrow>
      create_message_service_template ev project_config language features = generate_direct_api_code ev language None True)
   \<and> (subscript (fst (generate_direct_api_code ev language None True)) (u ''success'') = Inr (JBool True)
        \<and> subscript (fst (generate_direct_api_code ev language None True)) (u ''code'') = Inr (JStr code0)
        \<and> net ev (snd (generate_direct_api_code ev language None True)) (helpers_request language) = Response 200 helpers body \<longrightarrow>
      subscript (fst (create_message_service_template ev project_config language features))
          (u ''code'') =
        Inr (JStr ((py_replace (u ''Your Company'') (config_get project_config (u ''company_name'') (u ''Your Company''))
               (py_replace (u ''02-1234-5678'') (config_get project_config (u ''default_callback'') (u ''02-1234-5678''))
                  (py_replace (u ''your-project-id'') (config_get project_config (u ''project_id'') (u ''your-project-id'')) code0)))
            @ [10, 10]
            @ py_replace (u ''{{default_callback}}'') (config_get project_config (u ''default_callback'') (u ''02-1234-5678''))
                (py_replace (u ''{{project_id}}'') (config_get project_config (u ''project_id'') (u ''your-project-id''))
                   (py_replace (u ''{{company_name}}'') (config_get project_config (u ''company_name'') (u ''Your Company'')) helpers)))))
   \<and> (subscript (fst (generate_direct_api_code ev language None True)) (u ''success'') = Inr (JBool True)
        \<and> subscript (fst (generate_direct_api_code ev language None True)) (u ''code'') = Inr (JStr code0)
        \<and> net ev (snd (generate_direct_api_code ev language None True)) (helpers_request language) = Raise e
        \<and> language = u ''javascript'' \<longrightarrow>
      subscript (fst (create_message_service_template ev project_config language features))
          (u ''code'') =
        Inr (JStr ((py_replace (u ''Your Company'') (config_get project_config (u ''company_name'') (u ''Your Company''))
               (py_replace (u ''02-1234-5678'') (config_get project_config (u ''default_callback'') (u ''02-1234-5678''))
                  (py_replace (u ''your-project-id'') (config_get project_config (u ''project_id'') (u ''your-project-id'')) code0)))
            @ js_project_helpers (config_get project_config (u ''project_id'') (u ''your-project-id''))
                (config_get project_config (u ''default_callback'') (u ''02-1234-5678''))
                (config_get project_config (u ''company_name'') (u ''Your Company'')))))
   \<and> (subscript (fst (generate_direct_api_code ev language None True)) (u ''success'') = Inr (JBool True)
        \<and> subscript (fst (generate_direct_api_code ev language None True)) (u ''code'') = Inr (JStr code0)
        \<and> net ev (snd (generate_direct_api_code ev language None True)) (helpers_request language) = Raise e
        \<and> language \<noteq> u ''javascript'' \<longrightarrow>
      subscript (fst (create_message_service_template ev project_config language features))
          (u ''code'') =
        Inr (JStr (py_replace (u ''Your Company'') (config_get project_config (u ''company_name'') (u ''Your Company''))
               (py_replace (u ''02-1234-5678'') (config_get project_config (u ''default_callback'') (u ''02-1234-5678''))
                  (py_replace (u ''your-project-id'') (config_get project_config (u ''project_id'') (u ''your-project-id'')) code0)))))"
  apply (intro conjI impI; (elim conjE)?)
  subgoal by (rule create_template_base_failed)
  subgoal by (simp add: create_template_code append_helpers_def customize_def fill_helpers_def)
  subgoal by (simp add: create_template_code append_helpers_def customize_def)
  subgoal by (simp add: create_template_code append_helpers_def customize_def)
  done

lemma template_reply_scripted:
  "template_reply (scripted_env (r # rs)) language framework = r"
  by (simp add: template_reply_def scripted_env_def fixture_env_def)

lemma net_scripted:
  "net (scripted_env [r0, r1]) [q] req = r1"
  "net (scripted_env [r0]) [q] req = Raise (TransportError (u ''connection refused''))"
  by (simp_all add: scripted_env_def fixture_env_def)

lemma no_block_in_samples:
  "py_findall ev (u ''python'') (u ''id = your-project-id'') = Inr []"
  "py_findall ev (u ''php'') (u ''id = your-project-id'') = Inr []"
  "py_findall ev (u ''javascript'') (u ''x'') = Inr []"
  by (simp_all add: py_findall_def regex_special_def fence_def u_def)

lemma config_get_sample:
  "config_get [(u ''project_id'', u ''p1''), (u ''company_name'', u ''Acme'')] (u ''project_id'') d = u ''p1''"
  "config_get [(u ''project_id'', u ''p1''), (u ''company_name'', u ''Acme'')] (u ''default_callback'') d = d"
  "config_get [(u ''project_id'', u ''p1''), (u ''company_name'', u ''Acme'')] (u ''company_name'') d = u ''Acme''"
  by (simp_all add: config_get_def)

lemma py_replace_samples:
  "py_replace (u ''your-project-id'') (u ''p1'') (u ''id = your-project-id'') = u ''id = p1''"
  "py_replace (u ''02-1234-5678'') (u ''02-1234-5678'') (u ''id = p1'') = u ''id = p1''"
  "py_replace (u ''Your Company'') (u ''Acme'') (u ''id = p1'') = u ''id = p1''"
  "py_replace (u ''your-project-id'') (u ''p1'') (u ''x'') = u ''x''"
  "py_replace (u ''02-1234-5678'') (u ''02-1234-5678'') (u ''x'') = u ''x''"
  "py_replace (u ''Your Company'') (u ''Acme'') (u ''x'') = u ''x''"
  "py_replace (u ''{{company_name}}'') (u ''Acme'') (u ''// {{company_name}}'') = u ''// Acme''"
  "py_replace (u ''{{project_id}}'') (u ''p1'') (u ''// Acme'') = u ''// Acme''"
  "py_replace (u ''{{default_callback}}'') (u ''02-1234-5678'') (u ''// Acme'') = u ''// Acme''"
  by (simp_all add: py_replace_def u_def)

lemma base_of_sample:
  assumes "py_findall (scripted_env (Response 200 content body # rs)) (u l) content = Inr []"
      and "py_lower (scripted_env (Response 200 content body # rs)) (u l) = u l"
  shows "subscript (fst (generate_direct_api_code (scripted_env (Response 200 content body # rs))
            (u l) None True)) (u ''success'') = Inr (JBool True)"
    and "subscript (fst (generate_direct_api_code (scripted_env (Response 200 content body # rs))
            (u l) None True)) (u ''code'') = Inr (JStr content)"
  using assms
  by (simp_all add: generate_direct_api_code_no_block [where content = content and body = body]
        template_reply_scripted)

theorem create_message_service_template_code_witness:
  "create_message_service_template offline_env [(u ''project_id'', u ''p1''), (u ''company_name'', u ''Acme'')] (u ''ruby'') None
     = generate_direct_api_code offline_env (u ''ruby'') None True
   \<and> subscript (fst (create_message_service_template (scripted_env [Response 200 (u ''id = your-project-id'') None,
          Response 200 (u ''// {{company_name}}'') None])
        [(u ''project_id'', u ''p1''), (u ''company_name'', u ''Acme'')] (u ''python'') None)) (u ''code'')
     = Inr (JStr (u ''id = p1'' @ [10, 10] @ u ''// Acme''))
   \<and> subscript (fst (create_message_service_template (scripted_env [Response 200 (u ''x'') None])
        [(u ''project_id'', u ''p1''), (u ''company_name'', u ''Acme'')] (u ''javascript'') None)) (u ''code'')
     = Inr (JStr (u ''x'' @ js_project_helpers (u ''p1'') (u ''02-1234-5678'') (u ''Acme'')))
   \<and> subscript (fst (create_message_service_template (scripted_env [Response 200 (u ''id = your-project-id'') None])
        [(u ''project_id'', u ''p1''), (u ''company_name'', u ''Acme'')] (u ''php'') None)) (u ''code'')
     = Inr (JStr (u ''id = p1''))"
proof -
  have r: "dict_get (fst (generate_direct_api_code offline_env (u ''ruby'') None True))
             (u ''success'') JNull = Inr (JBool False)"
    by (simp add: generate_direct_api_code_raised [where e = "TransportError (u ''connection refused'')"]
          template_reply_replying py_lower_fixed)
  have n: "u ''php'' \<noteq> u ''javascript''" "u ''python'' \<noteq> u ''javascript''"
    by simp_all
  show ?thesis
    using create_message_service_template_code [where ev = offline_env
            and project_config = "[(u ''project_id'', u ''p1''), (u ''company_name'', u ''Acme'')]"
            and language = "u ''ruby''" and features = None and ok = "JBool False"]
          create_message_service_template_code [where ev = "scripted_env [Response 200 (u ''id = your-project-id'') None,
          Response 200 (u ''// {{company_name}}'') None]"
            and project_config = "[(u ''project_id'', u ''p1''), (u ''company_name'', u ''Acme'')]"
            and language = "u ''python''" and features = None
            and ?code0.0 = "u ''id = your-project-id''"
            and helpers = "u ''// {{company_name}}''" and body = None]
          create_message_service_template_code [where ev = "scripted_env [Response 200 (u ''x'') None]"
            and project_config = "[(u ''project_id'', u ''p1''), (u ''company_name'', u ''Acme'')]"
            and language = "u ''javascript''" and features = None
            and ?code0.0 = "u ''x''" and e = "TransportError (u ''connection refused'')"]
          create_message_service_template_code [where ev = "scripted_env [Response 200 (u ''id = your-project-id'') None]"
            and project_config = "[(u ''project_id'', u ''p1''), (u ''company_name'', u ''Acme'')]"
            and language = "u ''php''" and features = None
            and ?code0.0 = "u ''id = your-project-id''"
            and e = "TransportError (u ''connection refused'')"]
    by (simp add: r n base_of_sample no_block_in_samples py_lower_fixed
          generate_direct_api_code_trace net_scripted config_get_sample py_replace_samples)
qed

theorem create_message_service_template_no_helpers_counterexample:
  "subscript (fst (create_message_service_template (scripted_env [Response 200 (u ''id = your-project-id'') None])
        [(u ''project_id'', u ''p1''), (u ''company_name'', u ''Acme'')] (u ''python'') None)) (u ''code'')
     = Inr (JStr (u ''id = p1''))
   \<and> snd (create_message_service_template (scripted_env [Response 200 (u ''id = your-project-id'') None])
        [(u ''project_id'', u ''p1''), (u ''company_name'', u ''Acme'')] (u ''python'') None)
     = [template_request (u ''python'') None, helpers_request (u ''python'')]"
proof -
  show ?thesis
    by (simp add: create_template_code [where ?code0.0 = "u ''id = your-project-id''"]
          create_template_trace [where ?code0.0 = "u ''id = your-project-id''"]
          base_of_sample no_block_in_samples py_lower_fixed lower_opt_def
          generate_direct_api_code_trace net_scripted config_get_sample py_replace_samples
          append_helpers_def customize_def)
qed

subsection \<open>The boundary of the tools\<close>

lemma is_mapping_error_result [simp]: "is_mapping (error_result msg code)"
  by (simp add: error_result_def)

lemma is_mapping_try_except:
  "(\<And>v. body = Inr v \<Longrightarrow> is_mapping v) \<Longrightarrow> is_mapping (try_except ev prefix code body)"
  by (cases body) (simp_all add: try_except_def)

lemma bind_eq_Inr: "bind m f = Inr v \<longleftrightarrow> (\<exists>x. m = Inr x \<and> f x = Inr v)"
  by (cases m) simp_all

lemma send_result_mapping: "send_result sent rs r = Inr v \<Longrightarrow> is_mapping v"
  by (cases r) (auto simp: send_result_def bind_eq_Inr split: if_splits)

lemma group_status_mapping: "group_status gid messages = Inr v \<Longrightarrow> is_mapping v"
  by (auto simp: group_status_def bind_eq_Inr Let_def)

lemma status_of_reply_mapping: "status_of_reply gid r = Inr v \<Longrightarrow> is_mapping v"
  by (cases r)
     (auto simp: status_of_reply_def bind_eq_Inr dest: group_status_mapping split: if_splits)

lemma send_sms_mapping: "is_mapping (fst (send_sms ev rs m cb p))"
  by (auto simp: send_sms_def Let_def intro!: is_mapping_try_except dest: send_result_mapping)

lemma send_mms_mapping: "is_mapping (fst (send_mms ev rs m s cb p imgs))"
  by (auto simp: send_mms_def Let_def intro!: is_mapping_try_except dest: send_result_mapping)

lemma get_message_status_mapping: "is_mapping (fst (get_message_status ev gid))"
  by (auto simp: get_message_status_def Let_def intro!: is_mapping_try_except
        dest: status_of_reply_mapping)

lemma get_send_history_mapping: "is_mapping (fst (get_send_history ev p offs limit mt))"
  by (simp add: get_send_history_def Let_def try_except_def)

lemma get_code_template_url_mapping: "is_mapping (fst (get_code_template_url ev l f d))"
  by (simp add: get_code_template_url_def Let_def try_except_def)

lemma fetch_template_mapping:
  "fetch_template ev l f i r = Return v \<Longrightarrow> is_mapping v"
  by (cases r)
     (auto simp: fetch_template_def cdn_attempt_def
           split: if_splits option.splits sum.splits prod.splits)

lemma generate_direct_api_code_mapping: "is_mapping (fst (generate_direct_api_code ev l f i))"
  by (auto simp: generate_direct_api_code_fetched split: fetched.splits
        dest: fetch_template_mapping)

lemma create_message_service_template_mapping:
  "is_mapping (fst (create_message_service_template ev cfg l fs))"
  using generate_direct_api_code_mapping [of ev l None True]
  by (auto simp: create_message_service_template_def Let_def try_except_def
        split: sum.splits)

lemma local_guide_mapping: "is_mapping (local_guide ev p d)"
  by (simp add: local_guide_def platform_not_supported_def Let_def)

lemma get_integration_guide_mapping: "is_mapping (fst (get_integration_guide ev p d))"
  by (auto simp: get_integration_guide_def Let_def try_except_def local_guide_mapping
        split: reply.splits)

lemma send_result_raise: "send_result sent rs (Raise e) = Inl e"
  by (simp add: send_result_def)

lemma status_of_reply_raise: "status_of_reply gid (Raise e) = Inl e"
  by (simp add: status_of_reply_def)

lemma get_message_status_raised:
  "status_of_reply gid (net ev [] (status_request ev gid)) = Inl e \<Longrightarrow>
     fst (get_message_status ev gid) =
       JObj [(u ''success'', JBool False),
             (u ''error'', JStr (status_lookup_failed @ u '': '' @ exc_str ev e)),
             (u ''error_code'', JStr (u ''INTERNAL_ERROR''))]"
  by (simp add: get_message_status_def Let_def try_except_def error_result_def)

text \<open>
  Claim C6. Whatever the input and whatever the remote service does, each of the eight tools
  returns a mapping. In the tools that call the remote service, an exception raised in the
  body, the transport exception of the HTTP client among them, becomes
  \<open>{success: false, error, error_code: INTERNAL_ERROR}\<close>, the error text being the prefix of
  the tool followed by the text of the exception.
\<close>

theorem tools_never_raise:
  "is_mapping (fst (get_code_template_url ev language framework deployment_platform))
   \<and> is_mapping (fst (send_sms ev recipients message callback_number project_id))
   \<and> is_mapping (fst (send_mms ev recipients message subject callback_number project_id image_urls))
   \<and> is_mapping (fst (get_message_status ev group_id))
   \<and> is_mapping (fst (get_send_history ev project_id offset limit message_type))
   \<and> is_mapping (fst (generate_direct_api_code ev language framework include_examples))
   \<and> is_mapping (fst (create_message_service_template ev project_config language features))
   \<and> is_mapping (fst (get_integration_guide ev platform deployment_type))
   \<and> (project_id \<noteq> [] \<and> recipients \<noteq> [] \<and> length recipients \<le> 1000
        \<and> length message \<le> 2000
        \<and> send_result msg_sms_sent recipients (net ev [] (sms_request ev recipients message callback_number project_id)) = Inl e1
      \<longrightarrow> fst (send_sms ev recipients message callback_number project_id) =
        JObj [(u ''success'', JBool False),
              (u ''error'', JStr (msg_sms_failed @ exc_str ev e1)),
              (u ''error_code'', JStr (u ''INTERNAL_ERROR''))])
   \<and> (project_id \<noteq> [] \<and> recipients \<noteq> [] \<and> length recipients \<le> 1000
        \<and> length message \<le> 2000
        \<and> net ev [] (sms_request ev recipients message callback_number project_id) = Raise e2
      \<longrightarrow> fst (send_sms ev recipients message callback_number project_id) =
        JObj [(u ''success'', JBool False),
              (u ''error'', JStr (msg_sms_failed @ exc_str ev e2)),
              (u ''error_code'', JStr (u ''INTERNAL_ERROR''))])
   \<and> (project_id \<noteq> [] \<and> recipients \<noteq> [] \<and> length recipients \<le> 1000
        \<and> length message \<le> 2000 \<and> length subject \<le> 40
        \<and> (case image_urls of None \<Rightarrow> True | Some urls \<Rightarrow> length urls \<le> 5)
        \<and> send_result msg_mms_sent recipients (net ev [] (mms_request ev recipients message subject callback_number project_id image_urls)) = Inl e3
      \<longrightarrow> fst (send_mms ev recipients message subject callback_number project_id image_urls) =
        JObj [(u ''success'', JBool False),
              (u ''error'', JStr (msg_mms_failed @ exc_str ev e3)),
              (u ''error_code'', JStr (u ''INTERNAL_ERROR''))])
   \<and> (project_id \<noteq> [] \<and> recipients \<noteq> [] \<and> length recipients \<le> 1000
        \<and> length message \<le> 2000 \<and> length subject \<le> 40
        \<and> (case image_urls of None \<Rightarrow> True | Some urls \<Rightarrow> length urls \<le> 5)
        \<and> net ev [] (mms_request ev recipients message subject callback_number project_id image_urls) = Raise e4
      \<longrightarrow> fst (send_mms ev recipients message subject callback_number project_id image_urls) =
        JObj [(u ''success'', JBool False),
              (u ''error'', JStr (msg_mms_failed @ exc_str ev e4)),
              (u ''error_code'', JStr (u ''INTERNAL_ERROR''))])
   \<and> (status_of_reply group_id (net ev [] (status_request ev group_id)) = Inl e5
      \<longrightarrow> fst (get_message_status ev group_id) =
        JObj [(u ''success'', JBool False),
              (u ''error'', JStr (status_lookup_failed @ u '': '' @ exc_str ev e5)),
              (u ''error_code'', JStr (u ''INTERNAL_ERROR''))])
   \<and> (net ev [] (status_request ev group_id) = Raise e6
      \<longrightarrow> fst (get_message_status ev group_id) =
        JObj [(u ''success'', JBool False),
              (u ''error'', JStr (status_lookup_failed @ u '': '' @ exc_str ev e6)),
              (u ''error_code'', JStr (u ''INTERNAL_ERROR''))])"
  apply (intro conjI impI; (elim conjE)?)
  subgoal by (rule get_code_template_url_mapping)
  subgoal by (rule send_sms_mapping)
  subgoal by (rule send_mms_mapping)
  subgoal by (rule get_message_status_mapping)
  subgoal by (rule get_send_history_mapping)
  subgoal by (rule generate_direct_api_code_mapping)
  subgoal by (rule create_message_service_template_mapping)
  subgoal by (rule get_integration_guide_mapping)
  subgoal by (simp add: send_sms_def Let_def try_except_def error_result_def)
  subgoal by (simp add: send_sms_def Let_def try_except_def error_result_def send_result_raise)
  subgoal by (simp add: send_mms_valid try_except_def error_result_def)
  subgoal by (simp add: send_mms_valid try_except_def error_result_def send_result_raise)
  subgoal by (simp add: get_message_status_raised)
  subgoal by (simp add: get_message_status_raised status_of_reply_raise)
  done

theorem tools_never_raise_witness:
  "fst (send_sms (replying_env (Response 200 [] (Some (JObj [(u ''success'', JBool True)]))))
          [one_recipient] (u ''hi'') (u ''02-1234-5678'') (u ''p1''))
     = JObj [(u ''success'', JBool False), (u ''error'', JStr (msg_sms_failed @ u ''boom'')),
             (u ''error_code'', JStr (u ''INTERNAL_ERROR''))]
   \<and> fst (send_sms offline_env
          [one_recipient] (u ''hi'') (u ''02-1234-5678'') (u ''p1''))
     = JObj [(u ''success'', JBool False), (u ''error'', JStr (msg_sms_failed @ u ''boom'')),
             (u ''error_code'', JStr (u ''INTERNAL_ERROR''))]
   \<and> fst (send_mms (replying_env (Response 200 [] (Some (JObj [(u ''success'', JBool True)]))))
          [one_recipient] (u ''hi'') (u ''subject'') (u ''02-1234-5678'') (u ''p1'') None)
     = JObj [(u ''success'', JBool False), (u ''error'', JStr (msg_mms_failed @ u ''boom'')),
             (u ''error_code'', JStr (u ''INTERNAL_ERROR''))]
   \<and> fst (send_mms offline_env
          [one_recipient] (u ''hi'') (u ''subject'') (u ''02-1234-5678'') (u ''p1'') None)
     = JObj [(u ''success'', JBool False), (u ''error'', JStr (msg_mms_failed @ u ''boom'')),
             (u ''error_code'', JStr (u ''INTERNAL_ERROR''))]
   \<and> fst (get_message_status (replying_env (Response 200 []
          (Some (JObj [(u ''success'', JBool True), (u ''data'', JInt 5)])))) 7)
     = JObj [(u ''success'', JBool False), (u ''error'', JStr (status_lookup_failed @ u '': '' @ u ''boom'')),
             (u ''error_code'', JStr (u ''INTERNAL_ERROR''))]
   \<and> fst (get_message_status offline_env 7)
     = JObj [(u ''success'', JBool False), (u ''error'', JStr (status_lookup_failed @ u '': '' @ u ''boom'')),
             (u ''error_code'', JStr (u ''INTERNAL_ERROR''))]"
proof -
  have v: "u ''p1'' \<noteq> []" "length (u ''hi'') \<le> 2000" "length (u ''subject'') \<le> 40"
    by (simp_all add: u_def)
  have k: "send_result sent rs (net (replying_env (Response 200 [] (Some (JObj [(u ''success'', JBool True)])))) [] req)
             = Inl (KeyError (u ''data''))" for sent rs req
    by (simp add: replying_env_def fixture_env_def send_result_def response_json_def)
  have d: "status_of_reply gid (net (replying_env (Response 200 []
          (Some (JObj [(u ''success'', JBool True), (u ''data'', JInt 5)])))) [] req)
             = Inl TypeError" for gid req
    by (simp add: replying_env_def fixture_env_def status_of_reply_def response_json_def
          group_status_def)
  have off: "net offline_env [] req = Raise (TransportError (u ''connection refused''))" for req
    by (simp add: offline_env_def fixture_env_def)
  have x: "exc_str (replying_env r) e = u ''boom''" "exc_str offline_env e = u ''boom''" for r e
    by (simp_all add: replying_env_def offline_env_def fixture_env_def)
  show ?thesis
    using tools_never_raise [where ev = "replying_env (Response 200 [] (Some (JObj [(u ''success'', JBool True)])))"
            and recipients = "[one_recipient]" and message = "u ''hi''"
            and subject = "u ''subject''" and callback_number = "u ''02-1234-5678''"
            and project_id = "u ''p1''" and image_urls = None and group_id = 7
            and ?e1.0 = "KeyError (u ''data'')" and ?e3.0 = "KeyError (u ''data'')"]
          tools_never_raise [where ev = "offline_env"
            and recipients = "[one_recipient]" and message = "u ''hi''"
            and subject = "u ''subject''" and callback_number = "u ''02-1234-5678''"
            and project_id = "u ''p1''" and image_urls = None and group_id = 7
            and ?e2.0 = "TransportError (u ''connection refused'')"
            and ?e4.0 = "TransportError (u ''connection refused'')"
            and ?e6.0 = "TransportError (u ''connection refused'')"]
          tools_never_raise [where ev = "replying_env (Response 200 [] (Some (JObj [(u ''success'', JBool True), (u ''data'', JInt 5)])))"
            and recipients = "[one_recipient]" and message = "u ''hi''"
            and subject = "u ''subject''" and callback_number = "u ''02-1234-5678''"
            and project_id = "u ''p1''" and image_urls = None and group_id = 7
            and ?e5.0 = TypeError]
    by (simp add: v k d off x)
qed

end
